theory Spec2Isabelle
  imports Main "HOL-Library.AList"
begin

section \<open>Python strings and the Unicode character database\<close>

text \<open>
  The program is Python 3: a \<open>str\<close> is a sequence of Unicode code points, and the
  library functions it calls (\<open>str.isalpha\<close>, \<open>str.capitalize\<close>, the \<open>\d\<close> class of
  \<open>re\<close>, \<open>int\<close> inside \<open>strptime\<close>) classify code points by the Unicode character
  database, not by ASCII. A string is therefore a list of code points. The tables below
  are those of Unicode 14.0.0, the version CPython 3.11 ships; each is sorted by code point.
\<close>

type_synonym pystr = "nat list"

text \<open>An ASCII literal of the source, as code points.\<close>

definition py :: "string \<Rightarrow> pystr" where
  "py s = map of_char s"

text \<open>
  \<open>Nd_zeros\<close>: the code point of the digit zero of every run of ten decimal digits
  (general category Nd); the digit of value \<open>i\<close> is at offset \<open>i\<close>.
\<close>

definition Nd_zeros :: "nat list" where
  "Nd_zeros =
  [48, 1632, 1776, 1984, 2406, 2534, 2662, 2790, 2918, 3046, 3174, 3302, 3430, 3558, 3664, 3792,
   3872, 4160, 4240, 6112, 6160, 6470, 6608, 6784, 6800, 6992, 7088, 7232, 7248, 42528, 43216,
   43264, 43472, 43504, 43600, 44016, 65296, 66720, 68912, 69734]
   @
  [69872, 69942, 70096, 70384, 70736, 70864, 71248, 71360, 71472, 71904, 72016, 72784, 73040,
   73120, 92768, 92864, 93008, 120782, 120792, 120802, 120812, 120822, 123200, 123632, 125264,
   130032]"

text \<open>\<open>Alpha_ranges\<close>: the code points of the letter categories (Lu, Ll, Lt, Lm, Lo), as closed ranges.\<close>

definition Alpha_ranges_latin1 :: "(nat \<times> nat) list" where
  "Alpha_ranges_latin1 =
  [(65, 90), (97, 122), (170, 170), (181, 181), (186, 186), (192, 214), (216, 246), (248, 705)]"

definition Alpha_ranges_rest :: "(nat \<times> nat) list" where
  "Alpha_ranges_rest =
  [(710, 721), (736, 740), (748, 748), (750, 750), (880, 884), (886, 887), (890, 893), (895,
   895), (902, 902), (904, 906), (908, 908), (910, 929), (931, 1013), (1015, 1153), (1162,
   1327), (1329, 1366), (1369, 1369), (1376, 1416), (1488, 1514), (1519, 1522), (1568, 1610),
   (1646, 1647), (1649, 1747), (1749, 1749), (1765, 1766), (1774, 1775), (1786, 1788), (1791,
   1791), (1808, 1808), (1810, 1839), (1869, 1957), (1969, 1969), (1994, 2026), (2036, 2037),
   (2042, 2042), (2048, 2069), (2074, 2074), (2084, 2084), (2088, 2088), (2112, 2136)]
   @
  [(2144, 2154), (2160, 2183), (2185, 2190), (2208, 2249), (2308, 2361), (2365, 2365), (2384,
   2384), (2392, 2401), (2417, 2432), (2437, 2444), (2447, 2448), (2451, 2472), (2474, 2480),
   (2482, 2482), (2486, 2489), (2493, 2493), (2510, 2510), (2524, 2525), (2527, 2529), (2544,
   2545), (2556, 2556), (2565, 2570), (2575, 2576), (2579, 2600), (2602, 2608), (2610, 2611),
   (2613, 2614), (2616, 2617), (2649, 2652), (2654, 2654), (2674, 2676), (2693, 2701), (2703,
   2705), (2707, 2728), (2730, 2736), (2738, 2739), (2741, 2745), (2749, 2749), (2768, 2768),
   (2784, 2785)]
   @
  [(2809, 2809), (2821, 2828), (2831, 2832), (2835, 2856), (2858, 2864), (2866, 2867), (2869,
   2873), (2877, 2877), (2908, 2909), (2911, 2913), (2929, 2929), (2947, 2947), (2949, 2954),
   (2958, 2960), (2962, 2965), (2969, 2970), (2972, 2972), (2974, 2975), (2979, 2980), (2984,
   2986), (2990, 3001), (3024, 3024), (3077, 3084), (3086, 3088), (3090, 3112), (3114, 3129),
   (3133, 3133), (3160, 3162), (3165, 3165), (3168, 3169), (3200, 3200), (3205, 3212), (3214,
   3216), (3218, 3240), (3242, 3251), (3253, 3257), (3261, 3261), (3293, 3294), (3296, 3297),
   (3313, 3314)]
   @
  [(3332, 3340), (3342, 3344), (3346, 3386), (3389, 3389), (3406, 3406), (3412, 3414), (3423,
   3425), (3450, 3455), (3461, 3478), (3482, 3505), (3507, 3515), (3517, 3517), (3520, 3526),
   (3585, 3632), (3634, 3635), (3648, 3654), (3713, 3714), (3716, 3716), (3718, 3722), (3724,
   3747), (3749, 3749), (3751, 3760), (3762, 3763), (3773, 3773), (3776, 3780), (3782, 3782),
   (3804, 3807), (3840, 3840), (3904, 3911), (3913, 3948), (3976, 3980), (4096, 4138), (4159,
   4159), (4176, 4181), (4186, 4189), (4193, 4193), (4197, 4198), (4206, 4208), (4213, 4225),
   (4238, 4238)]
   @
  [(4256, 4293), (4295, 4295), (4301, 4301), (4304, 4346), (4348, 4680), (4682, 4685), (4688,
   4694), (4696, 4696), (4698, 4701), (4704, 4744), (4746, 4749), (4752, 4784), (4786, 4789),
   (4792, 4798), (4800, 4800), (4802, 4805), (4808, 4822), (4824, 4880), (4882, 4885), (4888,
   4954), (4992, 5007), (5024, 5109), (5112, 5117), (5121, 5740), (5743, 5759), (5761, 5786),
   (5792, 5866), (5873, 5880), (5888, 5905), (5919, 5937), (5952, 5969), (5984, 5996), (5998,
   6000), (6016, 6067), (6103, 6103), (6108, 6108), (6176, 6264), (6272, 6276), (6279, 6312),
   (6314, 6314)]
   @
  [(6320, 6389), (6400, 6430), (6480, 6509), (6512, 6516), (6528, 6571), (6576, 6601), (6656,
   6678), (6688, 6740), (6823, 6823), (6917, 6963), (6981, 6988), (7043, 7072), (7086, 7087),
   (7098, 7141), (7168, 7203), (7245, 7247), (7258, 7293), (7296, 7304), (7312, 7354), (7357,
   7359), (7401, 7404), (7406, 7411), (7413, 7414), (7418, 7418), (7424, 7615), (7680, 7957),
   (7960, 7965), (7968, 8005), (8008, 8013), (8016, 8023), (8025, 8025), (8027, 8027), (8029,
   8029), (8031, 8061), (8064, 8116), (8118, 8124), (8126, 8126), (8130, 8132), (8134, 8140),
   (8144, 8147)]
   @
  [(8150, 8155), (8160, 8172), (8178, 8180), (8182, 8188), (8305, 8305), (8319, 8319), (8336,
   8348), (8450, 8450), (8455, 8455), (8458, 8467), (8469, 8469), (8473, 8477), (8484, 8484),
   (8486, 8486), (8488, 8488), (8490, 8493), (8495, 8505), (8508, 8511), (8517, 8521), (8526,
   8526), (8579, 8580), (11264, 11492), (11499, 11502), (11506, 11507), (11520, 11557), (11559,
   11559), (11565, 11565), (11568, 11623), (11631, 11631), (11648, 11670), (11680, 11686),
   (11688, 11694), (11696, 11702), (11704, 11710), (11712, 11718), (11720, 11726), (11728,
   11734), (11736, 11742), (11823, 11823), (12293, 12294)]
   @
  [(12337, 12341), (12347, 12348), (12353, 12438), (12445, 12447), (12449, 12538), (12540,
   12543), (12549, 12591), (12593, 12686), (12704, 12735), (12784, 12799), (13312, 19903),
   (19968, 42124), (42192, 42237), (42240, 42508), (42512, 42527), (42538, 42539), (42560,
   42606), (42623, 42653), (42656, 42725), (42775, 42783), (42786, 42888), (42891, 42954),
   (42960, 42961), (42963, 42963), (42965, 42969), (42994, 43009), (43011, 43013), (43015,
   43018), (43020, 43042), (43072, 43123), (43138, 43187), (43250, 43255), (43259, 43259),
   (43261, 43262), (43274, 43301), (43312, 43334), (43360, 43388), (43396, 43442), (43471,
   43471), (43488, 43492)]
   @
  [(43494, 43503), (43514, 43518), (43520, 43560), (43584, 43586), (43588, 43595), (43616,
   43638), (43642, 43642), (43646, 43695), (43697, 43697), (43701, 43702), (43705, 43709),
   (43712, 43712), (43714, 43714), (43739, 43741), (43744, 43754), (43762, 43764), (43777,
   43782), (43785, 43790), (43793, 43798), (43808, 43814), (43816, 43822), (43824, 43866),
   (43868, 43881), (43888, 44002), (44032, 55203), (55216, 55238), (55243, 55291), (63744,
   64109), (64112, 64217), (64256, 64262), (64275, 64279), (64285, 64285), (64287, 64296),
   (64298, 64310), (64312, 64316), (64318, 64318), (64320, 64321), (64323, 64324), (64326,
   64433), (64467, 64829)]
   @
  [(64848, 64911), (64914, 64967), (65008, 65019), (65136, 65140), (65142, 65276), (65313,
   65338), (65345, 65370), (65382, 65470), (65474, 65479), (65482, 65487), (65490, 65495),
   (65498, 65500), (65536, 65547), (65549, 65574), (65576, 65594), (65596, 65597), (65599,
   65613), (65616, 65629), (65664, 65786), (66176, 66204), (66208, 66256), (66304, 66335),
   (66349, 66368), (66370, 66377), (66384, 66421), (66432, 66461), (66464, 66499), (66504,
   66511), (66560, 66717), (66736, 66771), (66776, 66811), (66816, 66855), (66864, 66915),
   (66928, 66938), (66940, 66954), (66956, 66962), (66964, 66965), (66967, 66977), (66979,
   66993), (66995, 67001)]
   @
  [(67003, 67004), (67072, 67382), (67392, 67413), (67424, 67431), (67456, 67461), (67463,
   67504), (67506, 67514), (67584, 67589), (67592, 67592), (67594, 67637), (67639, 67640),
   (67644, 67644), (67647, 67669), (67680, 67702), (67712, 67742), (67808, 67826), (67828,
   67829), (67840, 67861), (67872, 67897), (67968, 68023), (68030, 68031), (68096, 68096),
   (68112, 68115), (68117, 68119), (68121, 68149), (68192, 68220), (68224, 68252), (68288,
   68295), (68297, 68324), (68352, 68405), (68416, 68437), (68448, 68466), (68480, 68497),
   (68608, 68680), (68736, 68786), (68800, 68850), (68864, 68899), (69248, 69289), (69296,
   69297), (69376, 69404)]
   @
  [(69415, 69415), (69424, 69445), (69488, 69505), (69552, 69572), (69600, 69622), (69635,
   69687), (69745, 69746), (69749, 69749), (69763, 69807), (69840, 69864), (69891, 69926),
   (69956, 69956), (69959, 69959), (69968, 70002), (70006, 70006), (70019, 70066), (70081,
   70084), (70106, 70106), (70108, 70108), (70144, 70161), (70163, 70187), (70272, 70278),
   (70280, 70280), (70282, 70285), (70287, 70301), (70303, 70312), (70320, 70366), (70405,
   70412), (70415, 70416), (70419, 70440), (70442, 70448), (70450, 70451), (70453, 70457),
   (70461, 70461), (70480, 70480), (70493, 70497), (70656, 70708), (70727, 70730), (70751,
   70753), (70784, 70831)]
   @
  [(70852, 70853), (70855, 70855), (71040, 71086), (71128, 71131), (71168, 71215), (71236,
   71236), (71296, 71338), (71352, 71352), (71424, 71450), (71488, 71494), (71680, 71723),
   (71840, 71903), (71935, 71942), (71945, 71945), (71948, 71955), (71957, 71958), (71960,
   71983), (71999, 71999), (72001, 72001), (72096, 72103), (72106, 72144), (72161, 72161),
   (72163, 72163), (72192, 72192), (72203, 72242), (72250, 72250), (72272, 72272), (72284,
   72329), (72349, 72349), (72368, 72440), (72704, 72712), (72714, 72750), (72768, 72768),
   (72818, 72847), (72960, 72966), (72968, 72969), (72971, 73008), (73030, 73030), (73056,
   73061), (73063, 73064)]
   @
  [(73066, 73097), (73112, 73112), (73440, 73458), (73648, 73648), (73728, 74649), (74880,
   75075), (77712, 77808), (77824, 78894), (82944, 83526), (92160, 92728), (92736, 92766),
   (92784, 92862), (92880, 92909), (92928, 92975), (92992, 92995), (93027, 93047), (93053,
   93071), (93760, 93823), (93952, 94026), (94032, 94032), (94099, 94111), (94176, 94177),
   (94179, 94179), (94208, 100343), (100352, 101589), (101632, 101640), (110576, 110579),
   (110581, 110587), (110589, 110590), (110592, 110882), (110928, 110930), (110948, 110951),
   (110960, 111355), (113664, 113770), (113776, 113788), (113792, 113800), (113808, 113817),
   (119808, 119892), (119894, 119964), (119966, 119967)]
   @
  [(119970, 119970), (119973, 119974), (119977, 119980), (119982, 119993), (119995, 119995),
   (119997, 120003), (120005, 120069), (120071, 120074), (120077, 120084), (120086, 120092),
   (120094, 120121), (120123, 120126), (120128, 120132), (120134, 120134), (120138, 120144),
   (120146, 120485), (120488, 120512), (120514, 120538), (120540, 120570), (120572, 120596),
   (120598, 120628), (120630, 120654), (120656, 120686), (120688, 120712), (120714, 120744),
   (120746, 120770), (120772, 120779), (122624, 122654), (123136, 123180), (123191, 123197),
   (123214, 123214), (123536, 123565), (123584, 123627), (124896, 124902), (124904, 124907),
   (124909, 124910), (124912, 124926), (124928, 125124), (125184, 125251), (125259, 125259)]
   @
  [(126464, 126467), (126469, 126495), (126497, 126498), (126500, 126500), (126503, 126503),
   (126505, 126514), (126516, 126519), (126521, 126521), (126523, 126523), (126530, 126530),
   (126535, 126535), (126537, 126537), (126539, 126539), (126541, 126543), (126545, 126546),
   (126548, 126548), (126551, 126551), (126553, 126553), (126555, 126555), (126557, 126557),
   (126559, 126559), (126561, 126562), (126564, 126564), (126567, 126570), (126572, 126578),
   (126580, 126583), (126585, 126588), (126590, 126590), (126592, 126601), (126603, 126619),
   (126625, 126627), (126629, 126633), (126635, 126651), (131072, 173791), (173824, 177976),
   (177984, 178205), (178208, 183969), (183984, 191456), (194560, 195101), (196608, 201546)]"

definition Alpha_ranges :: "(nat \<times> nat) list" where
  "Alpha_ranges = Alpha_ranges_latin1 @ Alpha_ranges_rest"

text \<open>
  The properties Case_Ignorable and Cased, as closed ranges, and the full lower-case and
  title-case mappings (only the code points that change), which \<open>str.capitalize\<close> uses.
\<close>

definition Case_ignorable_ranges :: "(nat \<times> nat) list" where
  "Case_ignorable_ranges =
  [(39, 39), (46, 46), (58, 58), (94, 94), (96, 96), (168, 168), (173, 173), (175, 175), (180,
   180), (183, 184), (688, 879), (884, 885), (890, 890), (900, 901), (903, 903), (1155, 1161),
   (1369, 1369), (1375, 1375), (1425, 1469), (1471, 1471), (1473, 1474), (1476, 1477), (1479,
   1479), (1524, 1524), (1536, 1541), (1552, 1562), (1564, 1564), (1600, 1600), (1611, 1631),
   (1648, 1648), (1750, 1757), (1759, 1768), (1770, 1773), (1807, 1807), (1809, 1809), (1840,
   1866), (1958, 1968), (2027, 2037), (2042, 2042), (2045, 2045)]
   @
  [(2070, 2093), (2137, 2139), (2184, 2184), (2192, 2193), (2200, 2207), (2249, 2306), (2362,
   2362), (2364, 2364), (2369, 2376), (2381, 2381), (2385, 2391), (2402, 2403), (2417, 2417),
   (2433, 2433), (2492, 2492), (2497, 2500), (2509, 2509), (2530, 2531), (2558, 2558), (2561,
   2562), (2620, 2620), (2625, 2626), (2631, 2632), (2635, 2637), (2641, 2641), (2672, 2673),
   (2677, 2677), (2689, 2690), (2748, 2748), (2753, 2757), (2759, 2760), (2765, 2765), (2786,
   2787), (2810, 2815), (2817, 2817), (2876, 2876), (2879, 2879), (2881, 2884), (2893, 2893),
   (2901, 2902)]
   @
  [(2914, 2915), (2946, 2946), (3008, 3008), (3021, 3021), (3072, 3072), (3076, 3076), (3132,
   3132), (3134, 3136), (3142, 3144), (3146, 3149), (3157, 3158), (3170, 3171), (3201, 3201),
   (3260, 3260), (3263, 3263), (3270, 3270), (3276, 3277), (3298, 3299), (3328, 3329), (3387,
   3388), (3393, 3396), (3405, 3405), (3426, 3427), (3457, 3457), (3530, 3530), (3538, 3540),
   (3542, 3542), (3633, 3633), (3636, 3642), (3654, 3662), (3761, 3761), (3764, 3772), (3782,
   3782), (3784, 3789), (3864, 3865), (3893, 3893), (3895, 3895), (3897, 3897), (3953, 3966),
   (3968, 3972)]
   @
  [(3974, 3975), (3981, 3991), (3993, 4028), (4038, 4038), (4141, 4144), (4146, 4151), (4153,
   4154), (4157, 4158), (4184, 4185), (4190, 4192), (4209, 4212), (4226, 4226), (4229, 4230),
   (4237, 4237), (4253, 4253), (4348, 4348), (4957, 4959), (5906, 5908), (5938, 5939), (5970,
   5971), (6002, 6003), (6068, 6069), (6071, 6077), (6086, 6086), (6089, 6099), (6103, 6103),
   (6109, 6109), (6155, 6159), (6211, 6211), (6277, 6278), (6313, 6313), (6432, 6434), (6439,
   6440), (6450, 6450), (6457, 6459), (6679, 6680), (6683, 6683), (6742, 6742), (6744, 6750),
   (6752, 6752)]
   @
  [(6754, 6754), (6757, 6764), (6771, 6780), (6783, 6783), (6823, 6823), (6832, 6862), (6912,
   6915), (6964, 6964), (6966, 6970), (6972, 6972), (6978, 6978), (7019, 7027), (7040, 7041),
   (7074, 7077), (7080, 7081), (7083, 7085), (7142, 7142), (7144, 7145), (7149, 7149), (7151,
   7153), (7212, 7219), (7222, 7223), (7288, 7293), (7376, 7378), (7380, 7392), (7394, 7400),
   (7405, 7405), (7412, 7412), (7416, 7417), (7468, 7530), (7544, 7544), (7579, 7679), (8125,
   8125), (8127, 8129), (8141, 8143), (8157, 8159), (8173, 8175), (8189, 8190), (8203, 8207),
   (8216, 8217)]
   @
  [(8228, 8228), (8231, 8231), (8234, 8238), (8288, 8292), (8294, 8303), (8305, 8305), (8319,
   8319), (8336, 8348), (8400, 8432), (11388, 11389), (11503, 11505), (11631, 11631), (11647,
   11647), (11744, 11775), (11823, 11823), (12293, 12293), (12330, 12333), (12337, 12341),
   (12347, 12347), (12441, 12446), (12540, 12542), (40981, 40981), (42232, 42237), (42508,
   42508), (42607, 42610), (42612, 42621), (42623, 42623), (42652, 42655), (42736, 42737),
   (42752, 42785), (42864, 42864), (42888, 42890), (42994, 42996), (43000, 43001), (43010,
   43010), (43014, 43014), (43019, 43019), (43045, 43046), (43052, 43052), (43204, 43205)]
   @
  [(43232, 43249), (43263, 43263), (43302, 43309), (43335, 43345), (43392, 43394), (43443,
   43443), (43446, 43449), (43452, 43453), (43471, 43471), (43493, 43494), (43561, 43566),
   (43569, 43570), (43573, 43574), (43587, 43587), (43596, 43596), (43632, 43632), (43644,
   43644), (43696, 43696), (43698, 43700), (43703, 43704), (43710, 43711), (43713, 43713),
   (43741, 43741), (43756, 43757), (43763, 43764), (43766, 43766), (43867, 43871), (43881,
   43883), (44005, 44005), (44008, 44008), (44013, 44013), (64286, 64286), (64434, 64450),
   (65024, 65039), (65043, 65043), (65056, 65071), (65106, 65106), (65109, 65109), (65279,
   65279), (65287, 65287)]
   @
  [(65294, 65294), (65306, 65306), (65342, 65342), (65344, 65344), (65392, 65392), (65438,
   65439), (65507, 65507), (65529, 65531), (66045, 66045), (66272, 66272), (66422, 66426),
   (67456, 67461), (67463, 67504), (67506, 67514), (68097, 68099), (68101, 68102), (68108,
   68111), (68152, 68154), (68159, 68159), (68325, 68326), (68900, 68903), (69291, 69292),
   (69446, 69456), (69506, 69509), (69633, 69633), (69688, 69702), (69744, 69744), (69747,
   69748), (69759, 69761), (69811, 69814), (69817, 69818), (69821, 69821), (69826, 69826),
   (69837, 69837), (69888, 69890), (69927, 69931), (69933, 69940), (70003, 70003), (70016,
   70017), (70070, 70078)]
   @
  [(70089, 70092), (70095, 70095), (70191, 70193), (70196, 70196), (70198, 70199), (70206,
   70206), (70367, 70367), (70371, 70378), (70400, 70401), (70459, 70460), (70464, 70464),
   (70502, 70508), (70512, 70516), (70712, 70719), (70722, 70724), (70726, 70726), (70750,
   70750), (70835, 70840), (70842, 70842), (70847, 70848), (70850, 70851), (71090, 71093),
   (71100, 71101), (71103, 71104), (71132, 71133), (71219, 71226), (71229, 71229), (71231,
   71232), (71339, 71339), (71341, 71341), (71344, 71349), (71351, 71351), (71453, 71455),
   (71458, 71461), (71463, 71467), (71727, 71735), (71737, 71738), (71995, 71996), (71998,
   71998), (72003, 72003)]
   @
  [(72148, 72151), (72154, 72155), (72160, 72160), (72193, 72202), (72243, 72248), (72251,
   72254), (72263, 72263), (72273, 72278), (72281, 72283), (72330, 72342), (72344, 72345),
   (72752, 72758), (72760, 72765), (72767, 72767), (72850, 72871), (72874, 72880), (72882,
   72883), (72885, 72886), (73009, 73014), (73018, 73018), (73020, 73021), (73023, 73029),
   (73031, 73031), (73104, 73105), (73109, 73109), (73111, 73111), (73459, 73460), (78896,
   78904), (92912, 92916), (92976, 92982), (92992, 92995), (94031, 94031), (94095, 94111),
   (94176, 94177), (94179, 94180), (110576, 110579), (110581, 110587), (110589, 110590),
   (113821, 113822), (113824, 113827)]
   @
  [(118528, 118573), (118576, 118598), (119143, 119145), (119155, 119170), (119173, 119179),
   (119210, 119213), (119362, 119364), (121344, 121398), (121403, 121452), (121461, 121461),
   (121476, 121476), (121499, 121503), (121505, 121519), (122880, 122886), (122888, 122904),
   (122907, 122913), (122915, 122916), (122918, 122922), (123184, 123197), (123566, 123566),
   (123628, 123631), (125136, 125142), (125252, 125259), (127995, 127999), (917505, 917505),
   (917536, 917631), (917760, 917999)]"
definition Cased_ranges :: "(nat \<times> nat) list" where
  "Cased_ranges =
  [(65, 90), (97, 122), (170, 170), (181, 181), (186, 186), (192, 214), (216, 246), (248, 442),
   (444, 447), (452, 659), (661, 696), (704, 705), (736, 740), (837, 837), (880, 883), (886,
   887), (890, 893), (895, 895), (902, 902), (904, 906), (908, 908), (910, 929), (931, 1013),
   (1015, 1153), (1162, 1327), (1329, 1366), (1376, 1416), (4256, 4293), (4295, 4295), (4301,
   4301), (4304, 4346), (4349, 4351), (5024, 5109), (5112, 5117), (7296, 7304), (7312, 7354),
   (7357, 7359), (7424, 7615), (7680, 7957), (7960, 7965)]
   @
  [(7968, 8005), (8008, 8013), (8016, 8023), (8025, 8025), (8027, 8027), (8029, 8029), (8031,
   8061), (8064, 8116), (8118, 8124), (8126, 8126), (8130, 8132), (8134, 8140), (8144, 8147),
   (8150, 8155), (8160, 8172), (8178, 8180), (8182, 8188), (8305, 8305), (8319, 8319), (8336,
   8348), (8450, 8450), (8455, 8455), (8458, 8467), (8469, 8469), (8473, 8477), (8484, 8484),
   (8486, 8486), (8488, 8488), (8490, 8493), (8495, 8500), (8505, 8505), (8508, 8511), (8517,
   8521), (8526, 8526), (8544, 8575), (8579, 8580), (9398, 9449), (11264, 11492), (11499,
   11502), (11506, 11507)]
   @
  [(11520, 11557), (11559, 11559), (11565, 11565), (42560, 42605), (42624, 42653), (42786,
   42887), (42891, 42894), (42896, 42954), (42960, 42961), (42963, 42963), (42965, 42969),
   (42997, 42998), (43000, 43002), (43824, 43866), (43868, 43880), (43888, 43967), (64256,
   64262), (64275, 64279), (65313, 65338), (65345, 65370), (66560, 66639), (66736, 66771),
   (66776, 66811), (66928, 66938), (66940, 66954), (66956, 66962), (66964, 66965), (66967,
   66977), (66979, 66993), (66995, 67001), (67003, 67004), (67456, 67456), (67459, 67461),
   (67463, 67504), (67506, 67514), (68736, 68786), (68800, 68850), (71840, 71903), (93760,
   93823), (119808, 119892)]
   @
  [(119894, 119964), (119966, 119967), (119970, 119970), (119973, 119974), (119977, 119980),
   (119982, 119993), (119995, 119995), (119997, 120003), (120005, 120069), (120071, 120074),
   (120077, 120084), (120086, 120092), (120094, 120121), (120123, 120126), (120128, 120132),
   (120134, 120134), (120138, 120144), (120146, 120485), (120488, 120512), (120514, 120538),
   (120540, 120570), (120572, 120596), (120598, 120628), (120630, 120654), (120656, 120686),
   (120688, 120712), (120714, 120744), (120746, 120770), (120772, 120779), (122624, 122633),
   (122635, 122654), (125184, 125251), (127280, 127305), (127312, 127337), (127344, 127369)]"
definition Lower_full_latin1 :: "(nat \<times> nat list) list" where
  "Lower_full_latin1 =
  [(65, [97]), (66, [98]), (67, [99]), (68, [100]), (69, [101]), (70, [102]), (71, [103]), (72,
   [104]), (73, [105]), (74, [106]), (75, [107]), (76, [108]), (77, [109]), (78, [110]), (79,
   [111]), (80, [112]), (81, [113]), (82, [114]), (83, [115]), (84, [116]), (85, [117]), (86,
   [118]), (87, [119]), (88, [120]), (89, [121]), (90, [122]), (192, [224]), (193, [225]), (194,
   [226]), (195, [227]), (196, [228]), (197, [229]), (198, [230]), (199, [231]), (200, [232]),
   (201, [233]), (202, [234]), (203, [235]), (204, [236]), (205, [237])]
   @
  [(206, [238]), (207, [239]), (208, [240]), (209, [241]), (210, [242]), (211, [243]), (212,
   [244]), (213, [245]), (214, [246]), (216, [248]), (217, [249]), (218, [250]), (219, [251]),
   (220, [252]), (221, [253]), (222, [254])]"

definition Lower_full_rest :: "(nat \<times> nat list) list" where
  "Lower_full_rest =
  [(256, [257]), (258, [259]), (260, [261]), (262, [263]), (264, [265]), (266, [267]), (268,
   [269]), (270, [271]), (272, [273]), (274, [275]), (276, [277]), (278, [279]), (280, [281]),
   (282, [283]), (284, [285]), (286, [287]), (288, [289]), (290, [291]), (292, [293]), (294,
   [295]), (296, [297]), (298, [299]), (300, [301]), (302, [303]), (304, [105, 775]), (306,
   [307]), (308, [309]), (310, [311]), (313, [314]), (315, [316]), (317, [318]), (319, [320]),
   (321, [322]), (323, [324]), (325, [326]), (327, [328]), (330, [331]), (332, [333]), (334,
   [335]), (336, [337])]
   @
  [(338, [339]), (340, [341]), (342, [343]), (344, [345]), (346, [347]), (348, [349]), (350,
   [351]), (352, [353]), (354, [355]), (356, [357]), (358, [359]), (360, [361]), (362, [363]),
   (364, [365]), (366, [367]), (368, [369]), (370, [371]), (372, [373]), (374, [375]), (376,
   [255]), (377, [378]), (379, [380]), (381, [382]), (385, [595]), (386, [387]), (388, [389]),
   (390, [596]), (391, [392]), (393, [598]), (394, [599]), (395, [396]), (398, [477]), (399,
   [601]), (400, [603]), (401, [402]), (403, [608]), (404, [611]), (406, [617]), (407, [616]),
   (408, [409])]
   @
  [(412, [623]), (413, [626]), (415, [629]), (416, [417]), (418, [419]), (420, [421]), (422,
   [640]), (423, [424]), (425, [643]), (428, [429]), (430, [648]), (431, [432]), (433, [650]),
   (434, [651]), (435, [436]), (437, [438]), (439, [658]), (440, [441]), (444, [445]), (452,
   [454]), (453, [454]), (455, [457]), (456, [457]), (458, [460]), (459, [460]), (461, [462]),
   (463, [464]), (465, [466]), (467, [468]), (469, [470]), (471, [472]), (473, [474]), (475,
   [476]), (478, [479]), (480, [481]), (482, [483]), (484, [485]), (486, [487]), (488, [489]),
   (490, [491])]
   @
  [(492, [493]), (494, [495]), (497, [499]), (498, [499]), (500, [501]), (502, [405]), (503,
   [447]), (504, [505]), (506, [507]), (508, [509]), (510, [511]), (512, [513]), (514, [515]),
   (516, [517]), (518, [519]), (520, [521]), (522, [523]), (524, [525]), (526, [527]), (528,
   [529]), (530, [531]), (532, [533]), (534, [535]), (536, [537]), (538, [539]), (540, [541]),
   (542, [543]), (544, [414]), (546, [547]), (548, [549]), (550, [551]), (552, [553]), (554,
   [555]), (556, [557]), (558, [559]), (560, [561]), (562, [563]), (570, [11365]), (571, [572]),
   (573, [410])]
   @
  [(574, [11366]), (577, [578]), (579, [384]), (580, [649]), (581, [652]), (582, [583]), (584,
   [585]), (586, [587]), (588, [589]), (590, [591]), (880, [881]), (882, [883]), (886, [887]),
   (895, [1011]), (902, [940]), (904, [941]), (905, [942]), (906, [943]), (908, [972]), (910,
   [973]), (911, [974]), (913, [945]), (914, [946]), (915, [947]), (916, [948]), (917, [949]),
   (918, [950]), (919, [951]), (920, [952]), (921, [953]), (922, [954]), (923, [955]), (924,
   [956]), (925, [957]), (926, [958]), (927, [959]), (928, [960]), (929, [961]), (931, [963]),
   (932, [964])]
   @
  [(933, [965]), (934, [966]), (935, [967]), (936, [968]), (937, [969]), (938, [970]), (939,
   [971]), (975, [983]), (984, [985]), (986, [987]), (988, [989]), (990, [991]), (992, [993]),
   (994, [995]), (996, [997]), (998, [999]), (1000, [1001]), (1002, [1003]), (1004, [1005]),
   (1006, [1007]), (1012, [952]), (1015, [1016]), (1017, [1010]), (1018, [1019]), (1021, [891]),
   (1022, [892]), (1023, [893]), (1024, [1104]), (1025, [1105]), (1026, [1106]), (1027, [1107]),
   (1028, [1108]), (1029, [1109]), (1030, [1110]), (1031, [1111]), (1032, [1112]), (1033,
   [1113]), (1034, [1114]), (1035, [1115]), (1036, [1116])]
   @
  [(1037, [1117]), (1038, [1118]), (1039, [1119]), (1040, [1072]), (1041, [1073]), (1042,
   [1074]), (1043, [1075]), (1044, [1076]), (1045, [1077]), (1046, [1078]), (1047, [1079]),
   (1048, [1080]), (1049, [1081]), (1050, [1082]), (1051, [1083]), (1052, [1084]), (1053,
   [1085]), (1054, [1086]), (1055, [1087]), (1056, [1088]), (1057, [1089]), (1058, [1090]),
   (1059, [1091]), (1060, [1092]), (1061, [1093]), (1062, [1094]), (1063, [1095]), (1064,
   [1096]), (1065, [1097]), (1066, [1098]), (1067, [1099]), (1068, [1100]), (1069, [1101]),
   (1070, [1102]), (1071, [1103]), (1120, [1121]), (1122, [1123]), (1124, [1125]), (1126,
   [1127]), (1128, [1129])]
   @
  [(1130, [1131]), (1132, [1133]), (1134, [1135]), (1136, [1137]), (1138, [1139]), (1140,
   [1141]), (1142, [1143]), (1144, [1145]), (1146, [1147]), (1148, [1149]), (1150, [1151]),
   (1152, [1153]), (1162, [1163]), (1164, [1165]), (1166, [1167]), (1168, [1169]), (1170,
   [1171]), (1172, [1173]), (1174, [1175]), (1176, [1177]), (1178, [1179]), (1180, [1181]),
   (1182, [1183]), (1184, [1185]), (1186, [1187]), (1188, [1189]), (1190, [1191]), (1192,
   [1193]), (1194, [1195]), (1196, [1197]), (1198, [1199]), (1200, [1201]), (1202, [1203]),
   (1204, [1205]), (1206, [1207]), (1208, [1209]), (1210, [1211]), (1212, [1213]), (1214,
   [1215]), (1216, [1231])]
   @
  [(1217, [1218]), (1219, [1220]), (1221, [1222]), (1223, [1224]), (1225, [1226]), (1227,
   [1228]), (1229, [1230]), (1232, [1233]), (1234, [1235]), (1236, [1237]), (1238, [1239]),
   (1240, [1241]), (1242, [1243]), (1244, [1245]), (1246, [1247]), (1248, [1249]), (1250,
   [1251]), (1252, [1253]), (1254, [1255]), (1256, [1257]), (1258, [1259]), (1260, [1261]),
   (1262, [1263]), (1264, [1265]), (1266, [1267]), (1268, [1269]), (1270, [1271]), (1272,
   [1273]), (1274, [1275]), (1276, [1277]), (1278, [1279]), (1280, [1281]), (1282, [1283]),
   (1284, [1285]), (1286, [1287]), (1288, [1289]), (1290, [1291]), (1292, [1293]), (1294,
   [1295]), (1296, [1297])]
   @
  [(1298, [1299]), (1300, [1301]), (1302, [1303]), (1304, [1305]), (1306, [1307]), (1308,
   [1309]), (1310, [1311]), (1312, [1313]), (1314, [1315]), (1316, [1317]), (1318, [1319]),
   (1320, [1321]), (1322, [1323]), (1324, [1325]), (1326, [1327]), (1329, [1377]), (1330,
   [1378]), (1331, [1379]), (1332, [1380]), (1333, [1381]), (1334, [1382]), (1335, [1383]),
   (1336, [1384]), (1337, [1385]), (1338, [1386]), (1339, [1387]), (1340, [1388]), (1341,
   [1389]), (1342, [1390]), (1343, [1391]), (1344, [1392]), (1345, [1393]), (1346, [1394]),
   (1347, [1395]), (1348, [1396]), (1349, [1397]), (1350, [1398]), (1351, [1399]), (1352,
   [1400]), (1353, [1401])]
   @
  [(1354, [1402]), (1355, [1403]), (1356, [1404]), (1357, [1405]), (1358, [1406]), (1359,
   [1407]), (1360, [1408]), (1361, [1409]), (1362, [1410]), (1363, [1411]), (1364, [1412]),
   (1365, [1413]), (1366, [1414]), (4256, [11520]), (4257, [11521]), (4258, [11522]), (4259,
   [11523]), (4260, [11524]), (4261, [11525]), (4262, [11526]), (4263, [11527]), (4264,
   [11528]), (4265, [11529]), (4266, [11530]), (4267, [11531]), (4268, [11532]), (4269,
   [11533]), (4270, [11534]), (4271, [11535]), (4272, [11536]), (4273, [11537]), (4274,
   [11538]), (4275, [11539]), (4276, [11540]), (4277, [11541]), (4278, [11542]), (4279,
   [11543]), (4280, [11544]), (4281, [11545]), (4282, [11546])]
   @
  [(4283, [11547]), (4284, [11548]), (4285, [11549]), (4286, [11550]), (4287, [11551]), (4288,
   [11552]), (4289, [11553]), (4290, [11554]), (4291, [11555]), (4292, [11556]), (4293,
   [11557]), (4295, [11559]), (4301, [11565]), (5024, [43888]), (5025, [43889]), (5026,
   [43890]), (5027, [43891]), (5028, [43892]), (5029, [43893]), (5030, [43894]), (5031,
   [43895]), (5032, [43896]), (5033, [43897]), (5034, [43898]), (5035, [43899]), (5036,
   [43900]), (5037, [43901]), (5038, [43902]), (5039, [43903]), (5040, [43904]), (5041,
   [43905]), (5042, [43906]), (5043, [43907]), (5044, [43908]), (5045, [43909]), (5046,
   [43910]), (5047, [43911]), (5048, [43912]), (5049, [43913]), (5050, [43914])]
   @
  [(5051, [43915]), (5052, [43916]), (5053, [43917]), (5054, [43918]), (5055, [43919]), (5056,
   [43920]), (5057, [43921]), (5058, [43922]), (5059, [43923]), (5060, [43924]), (5061,
   [43925]), (5062, [43926]), (5063, [43927]), (5064, [43928]), (5065, [43929]), (5066,
   [43930]), (5067, [43931]), (5068, [43932]), (5069, [43933]), (5070, [43934]), (5071,
   [43935]), (5072, [43936]), (5073, [43937]), (5074, [43938]), (5075, [43939]), (5076,
   [43940]), (5077, [43941]), (5078, [43942]), (5079, [43943]), (5080, [43944]), (5081,
   [43945]), (5082, [43946]), (5083, [43947]), (5084, [43948]), (5085, [43949]), (5086,
   [43950]), (5087, [43951]), (5088, [43952]), (5089, [43953]), (5090, [43954])]
   @
  [(5091, [43955]), (5092, [43956]), (5093, [43957]), (5094, [43958]), (5095, [43959]), (5096,
   [43960]), (5097, [43961]), (5098, [43962]), (5099, [43963]), (5100, [43964]), (5101,
   [43965]), (5102, [43966]), (5103, [43967]), (5104, [5112]), (5105, [5113]), (5106, [5114]),
   (5107, [5115]), (5108, [5116]), (5109, [5117]), (7312, [4304]), (7313, [4305]), (7314,
   [4306]), (7315, [4307]), (7316, [4308]), (7317, [4309]), (7318, [4310]), (7319, [4311]),
   (7320, [4312]), (7321, [4313]), (7322, [4314]), (7323, [4315]), (7324, [4316]), (7325,
   [4317]), (7326, [4318]), (7327, [4319]), (7328, [4320]), (7329, [4321]), (7330, [4322]),
   (7331, [4323]), (7332, [4324])]
   @
  [(7333, [4325]), (7334, [4326]), (7335, [4327]), (7336, [4328]), (7337, [4329]), (7338,
   [4330]), (7339, [4331]), (7340, [4332]), (7341, [4333]), (7342, [4334]), (7343, [4335]),
   (7344, [4336]), (7345, [4337]), (7346, [4338]), (7347, [4339]), (7348, [4340]), (7349,
   [4341]), (7350, [4342]), (7351, [4343]), (7352, [4344]), (7353, [4345]), (7354, [4346]),
   (7357, [4349]), (7358, [4350]), (7359, [4351]), (7680, [7681]), (7682, [7683]), (7684,
   [7685]), (7686, [7687]), (7688, [7689]), (7690, [7691]), (7692, [7693]), (7694, [7695]),
   (7696, [7697]), (7698, [7699]), (7700, [7701]), (7702, [7703]), (7704, [7705]), (7706,
   [7707]), (7708, [7709])]
   @
  [(7710, [7711]), (7712, [7713]), (7714, [7715]), (7716, [7717]), (7718, [7719]), (7720,
   [7721]), (7722, [7723]), (7724, [7725]), (7726, [7727]), (7728, [7729]), (7730, [7731]),
   (7732, [7733]), (7734, [7735]), (7736, [7737]), (7738, [7739]), (7740, [7741]), (7742,
   [7743]), (7744, [7745]), (7746, [7747]), (7748, [7749]), (7750, [7751]), (7752, [7753]),
   (7754, [7755]), (7756, [7757]), (7758, [7759]), (7760, [7761]), (7762, [7763]), (7764,
   [7765]), (7766, [7767]), (7768, [7769]), (7770, [7771]), (7772, [7773]), (7774, [7775]),
   (7776, [7777]), (7778, [7779]), (7780, [7781]), (7782, [7783]), (7784, [7785]), (7786,
   [7787]), (7788, [7789])]
   @
  [(7790, [7791]), (7792, [7793]), (7794, [7795]), (7796, [7797]), (7798, [7799]), (7800,
   [7801]), (7802, [7803]), (7804, [7805]), (7806, [7807]), (7808, [7809]), (7810, [7811]),
   (7812, [7813]), (7814, [7815]), (7816, [7817]), (7818, [7819]), (7820, [7821]), (7822,
   [7823]), (7824, [7825]), (7826, [7827]), (7828, [7829]), (7838, [223]), (7840, [7841]),
   (7842, [7843]), (7844, [7845]), (7846, [7847]), (7848, [7849]), (7850, [7851]), (7852,
   [7853]), (7854, [7855]), (7856, [7857]), (7858, [7859]), (7860, [7861]), (7862, [7863]),
   (7864, [7865]), (7866, [7867]), (7868, [7869]), (7870, [7871]), (7872, [7873]), (7874,
   [7875]), (7876, [7877])]
   @
  [(7878, [7879]), (7880, [7881]), (7882, [7883]), (7884, [7885]), (7886, [7887]), (7888,
   [7889]), (7890, [7891]), (7892, [7893]), (7894, [7895]), (7896, [7897]), (7898, [7899]),
   (7900, [7901]), (7902, [7903]), (7904, [7905]), (7906, [7907]), (7908, [7909]), (7910,
   [7911]), (7912, [7913]), (7914, [7915]), (7916, [7917]), (7918, [7919]), (7920, [7921]),
   (7922, [7923]), (7924, [7925]), (7926, [7927]), (7928, [7929]), (7930, [7931]), (7932,
   [7933]), (7934, [7935]), (7944, [7936]), (7945, [7937]), (7946, [7938]), (7947, [7939]),
   (7948, [7940]), (7949, [7941]), (7950, [7942]), (7951, [7943]), (7960, [7952]), (7961,
   [7953]), (7962, [7954])]
   @
  [(7963, [7955]), (7964, [7956]), (7965, [7957]), (7976, [7968]), (7977, [7969]), (7978,
   [7970]), (7979, [7971]), (7980, [7972]), (7981, [7973]), (7982, [7974]), (7983, [7975]),
   (7992, [7984]), (7993, [7985]), (7994, [7986]), (7995, [7987]), (7996, [7988]), (7997,
   [7989]), (7998, [7990]), (7999, [7991]), (8008, [8000]), (8009, [8001]), (8010, [8002]),
   (8011, [8003]), (8012, [8004]), (8013, [8005]), (8025, [8017]), (8027, [8019]), (8029,
   [8021]), (8031, [8023]), (8040, [8032]), (8041, [8033]), (8042, [8034]), (8043, [8035]),
   (8044, [8036]), (8045, [8037]), (8046, [8038]), (8047, [8039]), (8072, [8064]), (8073,
   [8065]), (8074, [8066])]
   @
  [(8075, [8067]), (8076, [8068]), (8077, [8069]), (8078, [8070]), (8079, [8071]), (8088,
   [8080]), (8089, [8081]), (8090, [8082]), (8091, [8083]), (8092, [8084]), (8093, [8085]),
   (8094, [8086]), (8095, [8087]), (8104, [8096]), (8105, [8097]), (8106, [8098]), (8107,
   [8099]), (8108, [8100]), (8109, [8101]), (8110, [8102]), (8111, [8103]), (8120, [8112]),
   (8121, [8113]), (8122, [8048]), (8123, [8049]), (8124, [8115]), (8136, [8050]), (8137,
   [8051]), (8138, [8052]), (8139, [8053]), (8140, [8131]), (8152, [8144]), (8153, [8145]),
   (8154, [8054]), (8155, [8055]), (8168, [8160]), (8169, [8161]), (8170, [8058]), (8171,
   [8059]), (8172, [8165])]
   @
  [(8184, [8056]), (8185, [8057]), (8186, [8060]), (8187, [8061]), (8188, [8179]), (8486,
   [969]), (8490, [107]), (8491, [229]), (8498, [8526]), (8544, [8560]), (8545, [8561]), (8546,
   [8562]), (8547, [8563]), (8548, [8564]), (8549, [8565]), (8550, [8566]), (8551, [8567]),
   (8552, [8568]), (8553, [8569]), (8554, [8570]), (8555, [8571]), (8556, [8572]), (8557,
   [8573]), (8558, [8574]), (8559, [8575]), (8579, [8580]), (9398, [9424]), (9399, [9425]),
   (9400, [9426]), (9401, [9427]), (9402, [9428]), (9403, [9429]), (9404, [9430]), (9405,
   [9431]), (9406, [9432]), (9407, [9433]), (9408, [9434]), (9409, [9435]), (9410, [9436]),
   (9411, [9437])]
   @
  [(9412, [9438]), (9413, [9439]), (9414, [9440]), (9415, [9441]), (9416, [9442]), (9417,
   [9443]), (9418, [9444]), (9419, [9445]), (9420, [9446]), (9421, [9447]), (9422, [9448]),
   (9423, [9449]), (11264, [11312]), (11265, [11313]), (11266, [11314]), (11267, [11315]),
   (11268, [11316]), (11269, [11317]), (11270, [11318]), (11271, [11319]), (11272, [11320]),
   (11273, [11321]), (11274, [11322]), (11275, [11323]), (11276, [11324]), (11277, [11325]),
   (11278, [11326]), (11279, [11327]), (11280, [11328]), (11281, [11329]), (11282, [11330]),
   (11283, [11331]), (11284, [11332]), (11285, [11333]), (11286, [11334]), (11287, [11335]),
   (11288, [11336]), (11289, [11337]), (11290, [11338]), (11291, [11339])]
   @
  [(11292, [11340]), (11293, [11341]), (11294, [11342]), (11295, [11343]), (11296, [11344]),
   (11297, [11345]), (11298, [11346]), (11299, [11347]), (11300, [11348]), (11301, [11349]),
   (11302, [11350]), (11303, [11351]), (11304, [11352]), (11305, [11353]), (11306, [11354]),
   (11307, [11355]), (11308, [11356]), (11309, [11357]), (11310, [11358]), (11311, [11359]),
   (11360, [11361]), (11362, [619]), (11363, [7549]), (11364, [637]), (11367, [11368]), (11369,
   [11370]), (11371, [11372]), (11373, [593]), (11374, [625]), (11375, [592]), (11376, [594]),
   (11378, [11379]), (11381, [11382]), (11390, [575]), (11391, [576]), (11392, [11393]), (11394,
   [11395]), (11396, [11397]), (11398, [11399]), (11400, [11401])]
   @
  [(11402, [11403]), (11404, [11405]), (11406, [11407]), (11408, [11409]), (11410, [11411]),
   (11412, [11413]), (11414, [11415]), (11416, [11417]), (11418, [11419]), (11420, [11421]),
   (11422, [11423]), (11424, [11425]), (11426, [11427]), (11428, [11429]), (11430, [11431]),
   (11432, [11433]), (11434, [11435]), (11436, [11437]), (11438, [11439]), (11440, [11441]),
   (11442, [11443]), (11444, [11445]), (11446, [11447]), (11448, [11449]), (11450, [11451]),
   (11452, [11453]), (11454, [11455]), (11456, [11457]), (11458, [11459]), (11460, [11461]),
   (11462, [11463]), (11464, [11465]), (11466, [11467]), (11468, [11469]), (11470, [11471]),
   (11472, [11473]), (11474, [11475]), (11476, [11477]), (11478, [11479]), (11480, [11481])]
   @
  [(11482, [11483]), (11484, [11485]), (11486, [11487]), (11488, [11489]), (11490, [11491]),
   (11499, [11500]), (11501, [11502]), (11506, [11507]), (42560, [42561]), (42562, [42563]),
   (42564, [42565]), (42566, [42567]), (42568, [42569]), (42570, [42571]), (42572, [42573]),
   (42574, [42575]), (42576, [42577]), (42578, [42579]), (42580, [42581]), (42582, [42583]),
   (42584, [42585]), (42586, [42587]), (42588, [42589]), (42590, [42591]), (42592, [42593]),
   (42594, [42595]), (42596, [42597]), (42598, [42599]), (42600, [42601]), (42602, [42603]),
   (42604, [42605]), (42624, [42625]), (42626, [42627]), (42628, [42629]), (42630, [42631]),
   (42632, [42633]), (42634, [42635]), (42636, [42637]), (42638, [42639]), (42640, [42641])]
   @
  [(42642, [42643]), (42644, [42645]), (42646, [42647]), (42648, [42649]), (42650, [42651]),
   (42786, [42787]), (42788, [42789]), (42790, [42791]), (42792, [42793]), (42794, [42795]),
   (42796, [42797]), (42798, [42799]), (42802, [42803]), (42804, [42805]), (42806, [42807]),
   (42808, [42809]), (42810, [42811]), (42812, [42813]), (42814, [42815]), (42816, [42817]),
   (42818, [42819]), (42820, [42821]), (42822, [42823]), (42824, [42825]), (42826, [42827]),
   (42828, [42829]), (42830, [42831]), (42832, [42833]), (42834, [42835]), (42836, [42837]),
   (42838, [42839]), (42840, [42841]), (42842, [42843]), (42844, [42845]), (42846, [42847]),
   (42848, [42849]), (42850, [42851]), (42852, [42853]), (42854, [42855]), (42856, [42857])]
   @
  [(42858, [42859]), (42860, [42861]), (42862, [42863]), (42873, [42874]), (42875, [42876]),
   (42877, [7545]), (42878, [42879]), (42880, [42881]), (42882, [42883]), (42884, [42885]),
   (42886, [42887]), (42891, [42892]), (42893, [613]), (42896, [42897]), (42898, [42899]),
   (42902, [42903]), (42904, [42905]), (42906, [42907]), (42908, [42909]), (42910, [42911]),
   (42912, [42913]), (42914, [42915]), (42916, [42917]), (42918, [42919]), (42920, [42921]),
   (42922, [614]), (42923, [604]), (42924, [609]), (42925, [620]), (42926, [618]), (42928,
   [670]), (42929, [647]), (42930, [669]), (42931, [43859]), (42932, [42933]), (42934, [42935]),
   (42936, [42937]), (42938, [42939]), (42940, [42941]), (42942, [42943])]
   @
  [(42944, [42945]), (42946, [42947]), (42948, [42900]), (42949, [642]), (42950, [7566]),
   (42951, [42952]), (42953, [42954]), (42960, [42961]), (42966, [42967]), (42968, [42969]),
   (42997, [42998]), (65313, [65345]), (65314, [65346]), (65315, [65347]), (65316, [65348]),
   (65317, [65349]), (65318, [65350]), (65319, [65351]), (65320, [65352]), (65321, [65353]),
   (65322, [65354]), (65323, [65355]), (65324, [65356]), (65325, [65357]), (65326, [65358]),
   (65327, [65359]), (65328, [65360]), (65329, [65361]), (65330, [65362]), (65331, [65363]),
   (65332, [65364]), (65333, [65365]), (65334, [65366]), (65335, [65367]), (65336, [65368]),
   (65337, [65369]), (65338, [65370]), (66560, [66600]), (66561, [66601]), (66562, [66602])]
   @
  [(66563, [66603]), (66564, [66604]), (66565, [66605]), (66566, [66606]), (66567, [66607]),
   (66568, [66608]), (66569, [66609]), (66570, [66610]), (66571, [66611]), (66572, [66612]),
   (66573, [66613]), (66574, [66614]), (66575, [66615]), (66576, [66616]), (66577, [66617]),
   (66578, [66618]), (66579, [66619]), (66580, [66620]), (66581, [66621]), (66582, [66622]),
   (66583, [66623]), (66584, [66624]), (66585, [66625]), (66586, [66626]), (66587, [66627]),
   (66588, [66628]), (66589, [66629]), (66590, [66630]), (66591, [66631]), (66592, [66632]),
   (66593, [66633]), (66594, [66634]), (66595, [66635]), (66596, [66636]), (66597, [66637]),
   (66598, [66638]), (66599, [66639]), (66736, [66776]), (66737, [66777]), (66738, [66778])]
   @
  [(66739, [66779]), (66740, [66780]), (66741, [66781]), (66742, [66782]), (66743, [66783]),
   (66744, [66784]), (66745, [66785]), (66746, [66786]), (66747, [66787]), (66748, [66788]),
   (66749, [66789]), (66750, [66790]), (66751, [66791]), (66752, [66792]), (66753, [66793]),
   (66754, [66794]), (66755, [66795]), (66756, [66796]), (66757, [66797]), (66758, [66798]),
   (66759, [66799]), (66760, [66800]), (66761, [66801]), (66762, [66802]), (66763, [66803]),
   (66764, [66804]), (66765, [66805]), (66766, [66806]), (66767, [66807]), (66768, [66808]),
   (66769, [66809]), (66770, [66810]), (66771, [66811]), (66928, [66967]), (66929, [66968]),
   (66930, [66969]), (66931, [66970]), (66932, [66971]), (66933, [66972]), (66934, [66973])]
   @
  [(66935, [66974]), (66936, [66975]), (66937, [66976]), (66938, [66977]), (66940, [66979]),
   (66941, [66980]), (66942, [66981]), (66943, [66982]), (66944, [66983]), (66945, [66984]),
   (66946, [66985]), (66947, [66986]), (66948, [66987]), (66949, [66988]), (66950, [66989]),
   (66951, [66990]), (66952, [66991]), (66953, [66992]), (66954, [66993]), (66956, [66995]),
   (66957, [66996]), (66958, [66997]), (66959, [66998]), (66960, [66999]), (66961, [67000]),
   (66962, [67001]), (66964, [67003]), (66965, [67004]), (68736, [68800]), (68737, [68801]),
   (68738, [68802]), (68739, [68803]), (68740, [68804]), (68741, [68805]), (68742, [68806]),
   (68743, [68807]), (68744, [68808]), (68745, [68809]), (68746, [68810]), (68747, [68811])]
   @
  [(68748, [68812]), (68749, [68813]), (68750, [68814]), (68751, [68815]), (68752, [68816]),
   (68753, [68817]), (68754, [68818]), (68755, [68819]), (68756, [68820]), (68757, [68821]),
   (68758, [68822]), (68759, [68823]), (68760, [68824]), (68761, [68825]), (68762, [68826]),
   (68763, [68827]), (68764, [68828]), (68765, [68829]), (68766, [68830]), (68767, [68831]),
   (68768, [68832]), (68769, [68833]), (68770, [68834]), (68771, [68835]), (68772, [68836]),
   (68773, [68837]), (68774, [68838]), (68775, [68839]), (68776, [68840]), (68777, [68841]),
   (68778, [68842]), (68779, [68843]), (68780, [68844]), (68781, [68845]), (68782, [68846]),
   (68783, [68847]), (68784, [68848]), (68785, [68849]), (68786, [68850]), (71840, [71872])]
   @
  [(71841, [71873]), (71842, [71874]), (71843, [71875]), (71844, [71876]), (71845, [71877]),
   (71846, [71878]), (71847, [71879]), (71848, [71880]), (71849, [71881]), (71850, [71882]),
   (71851, [71883]), (71852, [71884]), (71853, [71885]), (71854, [71886]), (71855, [71887]),
   (71856, [71888]), (71857, [71889]), (71858, [71890]), (71859, [71891]), (71860, [71892]),
   (71861, [71893]), (71862, [71894]), (71863, [71895]), (71864, [71896]), (71865, [71897]),
   (71866, [71898]), (71867, [71899]), (71868, [71900]), (71869, [71901]), (71870, [71902]),
   (71871, [71903]), (93760, [93792]), (93761, [93793]), (93762, [93794]), (93763, [93795]),
   (93764, [93796]), (93765, [93797]), (93766, [93798]), (93767, [93799]), (93768, [93800])]
   @
  [(93769, [93801]), (93770, [93802]), (93771, [93803]), (93772, [93804]), (93773, [93805]),
   (93774, [93806]), (93775, [93807]), (93776, [93808]), (93777, [93809]), (93778, [93810]),
   (93779, [93811]), (93780, [93812]), (93781, [93813]), (93782, [93814]), (93783, [93815]),
   (93784, [93816]), (93785, [93817]), (93786, [93818]), (93787, [93819]), (93788, [93820]),
   (93789, [93821]), (93790, [93822]), (93791, [93823]), (125184, [125218]), (125185, [125219]),
   (125186, [125220]), (125187, [125221]), (125188, [125222]), (125189, [125223]), (125190,
   [125224]), (125191, [125225]), (125192, [125226]), (125193, [125227]), (125194, [125228]),
   (125195, [125229]), (125196, [125230]), (125197, [125231]), (125198, [125232]), (125199,
   [125233]), (125200, [125234])]
   @
  [(125201, [125235]), (125202, [125236]), (125203, [125237]), (125204, [125238]), (125205,
   [125239]), (125206, [125240]), (125207, [125241]), (125208, [125242]), (125209, [125243]),
   (125210, [125244]), (125211, [125245]), (125212, [125246]), (125213, [125247]), (125214,
   [125248]), (125215, [125249]), (125216, [125250]), (125217, [125251])]"

definition Lower_full :: "(nat \<times> nat list) list" where
  "Lower_full = Lower_full_latin1 @ Lower_full_rest"
definition Title_full_latin1 :: "(nat \<times> nat list) list" where
  "Title_full_latin1 =
  [(97, [65]), (98, [66]), (99, [67]), (100, [68]), (101, [69]), (102, [70]), (103, [71]), (104,
   [72]), (105, [73]), (106, [74]), (107, [75]), (108, [76]), (109, [77]), (110, [78]), (111,
   [79]), (112, [80]), (113, [81]), (114, [82]), (115, [83]), (116, [84]), (117, [85]), (118,
   [86]), (119, [87]), (120, [88]), (121, [89]), (122, [90]), (181, [924]), (223, [83, 115]),
   (224, [192]), (225, [193]), (226, [194]), (227, [195]), (228, [196]), (229, [197]), (230,
   [198]), (231, [199]), (232, [200]), (233, [201]), (234, [202]), (235, [203])]
   @
  [(236, [204]), (237, [205]), (238, [206]), (239, [207]), (240, [208]), (241, [209]), (242,
   [210]), (243, [211]), (244, [212]), (245, [213]), (246, [214]), (248, [216]), (249, [217]),
   (250, [218]), (251, [219]), (252, [220]), (253, [221]), (254, [222]), (255, [376])]"

definition Title_full_rest :: "(nat \<times> nat list) list" where
  "Title_full_rest =
  [(257, [256]), (259, [258]), (261, [260]), (263, [262]), (265, [264]), (267, [266]), (269,
   [268]), (271, [270]), (273, [272]), (275, [274]), (277, [276]), (279, [278]), (281, [280]),
   (283, [282]), (285, [284]), (287, [286]), (289, [288]), (291, [290]), (293, [292]), (295,
   [294]), (297, [296]), (299, [298]), (301, [300]), (303, [302]), (305, [73]), (307, [306]),
   (309, [308]), (311, [310]), (314, [313]), (316, [315]), (318, [317]), (320, [319]), (322,
   [321]), (324, [323]), (326, [325]), (328, [327]), (329, [700, 78]), (331, [330]), (333,
   [332]), (335, [334])]
   @
  [(337, [336]), (339, [338]), (341, [340]), (343, [342]), (345, [344]), (347, [346]), (349,
   [348]), (351, [350]), (353, [352]), (355, [354]), (357, [356]), (359, [358]), (361, [360]),
   (363, [362]), (365, [364]), (367, [366]), (369, [368]), (371, [370]), (373, [372]), (375,
   [374]), (378, [377]), (380, [379]), (382, [381]), (383, [83]), (384, [579]), (387, [386]),
   (389, [388]), (392, [391]), (396, [395]), (402, [401]), (405, [502]), (409, [408]), (410,
   [573]), (414, [544]), (417, [416]), (419, [418]), (421, [420]), (424, [423]), (429, [428]),
   (432, [431])]
   @
  [(436, [435]), (438, [437]), (441, [440]), (445, [444]), (447, [503]), (452, [453]), (454,
   [453]), (455, [456]), (457, [456]), (458, [459]), (460, [459]), (462, [461]), (464, [463]),
   (466, [465]), (468, [467]), (470, [469]), (472, [471]), (474, [473]), (476, [475]), (477,
   [398]), (479, [478]), (481, [480]), (483, [482]), (485, [484]), (487, [486]), (489, [488]),
   (491, [490]), (493, [492]), (495, [494]), (496, [74, 780]), (497, [498]), (499, [498]), (501,
   [500]), (505, [504]), (507, [506]), (509, [508]), (511, [510]), (513, [512]), (515, [514]),
   (517, [516])]
   @
  [(519, [518]), (521, [520]), (523, [522]), (525, [524]), (527, [526]), (529, [528]), (531,
   [530]), (533, [532]), (535, [534]), (537, [536]), (539, [538]), (541, [540]), (543, [542]),
   (547, [546]), (549, [548]), (551, [550]), (553, [552]), (555, [554]), (557, [556]), (559,
   [558]), (561, [560]), (563, [562]), (572, [571]), (575, [11390]), (576, [11391]), (578,
   [577]), (583, [582]), (585, [584]), (587, [586]), (589, [588]), (591, [590]), (592, [11375]),
   (593, [11373]), (594, [11376]), (595, [385]), (596, [390]), (598, [393]), (599, [394]), (601,
   [399]), (603, [400])]
   @
  [(604, [42923]), (608, [403]), (609, [42924]), (611, [404]), (613, [42893]), (614, [42922]),
   (616, [407]), (617, [406]), (618, [42926]), (619, [11362]), (620, [42925]), (623, [412]),
   (625, [11374]), (626, [413]), (629, [415]), (637, [11364]), (640, [422]), (642, [42949]),
   (643, [425]), (647, [42929]), (648, [430]), (649, [580]), (650, [433]), (651, [434]), (652,
   [581]), (658, [439]), (669, [42930]), (670, [42928]), (837, [921]), (881, [880]), (883,
   [882]), (887, [886]), (891, [1021]), (892, [1022]), (893, [1023]), (912, [921, 776, 769]),
   (940, [902]), (941, [904]), (942, [905]), (943, [906])]
   @
  [(944, [933, 776, 769]), (945, [913]), (946, [914]), (947, [915]), (948, [916]), (949, [917]),
   (950, [918]), (951, [919]), (952, [920]), (953, [921]), (954, [922]), (955, [923]), (956,
   [924]), (957, [925]), (958, [926]), (959, [927]), (960, [928]), (961, [929]), (962, [931]),
   (963, [931]), (964, [932]), (965, [933]), (966, [934]), (967, [935]), (968, [936]), (969,
   [937]), (970, [938]), (971, [939]), (972, [908]), (973, [910]), (974, [911]), (976, [914]),
   (977, [920]), (981, [934]), (982, [928]), (983, [975]), (985, [984]), (987, [986]), (989,
   [988]), (991, [990])]
   @
  [(993, [992]), (995, [994]), (997, [996]), (999, [998]), (1001, [1000]), (1003, [1002]),
   (1005, [1004]), (1007, [1006]), (1008, [922]), (1009, [929]), (1010, [1017]), (1011, [895]),
   (1013, [917]), (1016, [1015]), (1019, [1018]), (1072, [1040]), (1073, [1041]), (1074,
   [1042]), (1075, [1043]), (1076, [1044]), (1077, [1045]), (1078, [1046]), (1079, [1047]),
   (1080, [1048]), (1081, [1049]), (1082, [1050]), (1083, [1051]), (1084, [1052]), (1085,
   [1053]), (1086, [1054]), (1087, [1055]), (1088, [1056]), (1089, [1057]), (1090, [1058]),
   (1091, [1059]), (1092, [1060]), (1093, [1061]), (1094, [1062]), (1095, [1063]), (1096,
   [1064])]
   @
  [(1097, [1065]), (1098, [1066]), (1099, [1067]), (1100, [1068]), (1101, [1069]), (1102,
   [1070]), (1103, [1071]), (1104, [1024]), (1105, [1025]), (1106, [1026]), (1107, [1027]),
   (1108, [1028]), (1109, [1029]), (1110, [1030]), (1111, [1031]), (1112, [1032]), (1113,
   [1033]), (1114, [1034]), (1115, [1035]), (1116, [1036]), (1117, [1037]), (1118, [1038]),
   (1119, [1039]), (1121, [1120]), (1123, [1122]), (1125, [1124]), (1127, [1126]), (1129,
   [1128]), (1131, [1130]), (1133, [1132]), (1135, [1134]), (1137, [1136]), (1139, [1138]),
   (1141, [1140]), (1143, [1142]), (1145, [1144]), (1147, [1146]), (1149, [1148]), (1151,
   [1150]), (1153, [1152])]
   @
  [(1163, [1162]), (1165, [1164]), (1167, [1166]), (1169, [1168]), (1171, [1170]), (1173,
   [1172]), (1175, [1174]), (1177, [1176]), (1179, [1178]), (1181, [1180]), (1183, [1182]),
   (1185, [1184]), (1187, [1186]), (1189, [1188]), (1191, [1190]), (1193, [1192]), (1195,
   [1194]), (1197, [1196]), (1199, [1198]), (1201, [1200]), (1203, [1202]), (1205, [1204]),
   (1207, [1206]), (1209, [1208]), (1211, [1210]), (1213, [1212]), (1215, [1214]), (1218,
   [1217]), (1220, [1219]), (1222, [1221]), (1224, [1223]), (1226, [1225]), (1228, [1227]),
   (1230, [1229]), (1231, [1216]), (1233, [1232]), (1235, [1234]), (1237, [1236]), (1239,
   [1238]), (1241, [1240])]
   @
  [(1243, [1242]), (1245, [1244]), (1247, [1246]), (1249, [1248]), (1251, [1250]), (1253,
   [1252]), (1255, [1254]), (1257, [1256]), (1259, [1258]), (1261, [1260]), (1263, [1262]),
   (1265, [1264]), (1267, [1266]), (1269, [1268]), (1271, [1270]), (1273, [1272]), (1275,
   [1274]), (1277, [1276]), (1279, [1278]), (1281, [1280]), (1283, [1282]), (1285, [1284]),
   (1287, [1286]), (1289, [1288]), (1291, [1290]), (1293, [1292]), (1295, [1294]), (1297,
   [1296]), (1299, [1298]), (1301, [1300]), (1303, [1302]), (1305, [1304]), (1307, [1306]),
   (1309, [1308]), (1311, [1310]), (1313, [1312]), (1315, [1314]), (1317, [1316]), (1319,
   [1318]), (1321, [1320])]
   @
  [(1323, [1322]), (1325, [1324]), (1327, [1326]), (1377, [1329]), (1378, [1330]), (1379,
   [1331]), (1380, [1332]), (1381, [1333]), (1382, [1334]), (1383, [1335]), (1384, [1336]),
   (1385, [1337]), (1386, [1338]), (1387, [1339]), (1388, [1340]), (1389, [1341]), (1390,
   [1342]), (1391, [1343]), (1392, [1344]), (1393, [1345]), (1394, [1346]), (1395, [1347]),
   (1396, [1348]), (1397, [1349]), (1398, [1350]), (1399, [1351]), (1400, [1352]), (1401,
   [1353]), (1402, [1354]), (1403, [1355]), (1404, [1356]), (1405, [1357]), (1406, [1358]),
   (1407, [1359]), (1408, [1360]), (1409, [1361]), (1410, [1362]), (1411, [1363]), (1412,
   [1364]), (1413, [1365])]
   @
  [(1414, [1366]), (1415, [1333, 1410]), (5112, [5104]), (5113, [5105]), (5114, [5106]), (5115,
   [5107]), (5116, [5108]), (5117, [5109]), (7296, [1042]), (7297, [1044]), (7298, [1054]),
   (7299, [1057]), (7300, [1058]), (7301, [1058]), (7302, [1066]), (7303, [1122]), (7304,
   [42570]), (7545, [42877]), (7549, [11363]), (7566, [42950]), (7681, [7680]), (7683, [7682]),
   (7685, [7684]), (7687, [7686]), (7689, [7688]), (7691, [7690]), (7693, [7692]), (7695,
   [7694]), (7697, [7696]), (7699, [7698]), (7701, [7700]), (7703, [7702]), (7705, [7704]),
   (7707, [7706]), (7709, [7708]), (7711, [7710]), (7713, [7712]), (7715, [7714]), (7717,
   [7716]), (7719, [7718])]
   @
  [(7721, [7720]), (7723, [7722]), (7725, [7724]), (7727, [7726]), (7729, [7728]), (7731,
   [7730]), (7733, [7732]), (7735, [7734]), (7737, [7736]), (7739, [7738]), (7741, [7740]),
   (7743, [7742]), (7745, [7744]), (7747, [7746]), (7749, [7748]), (7751, [7750]), (7753,
   [7752]), (7755, [7754]), (7757, [7756]), (7759, [7758]), (7761, [7760]), (7763, [7762]),
   (7765, [7764]), (7767, [7766]), (7769, [7768]), (7771, [7770]), (7773, [7772]), (7775,
   [7774]), (7777, [7776]), (7779, [7778]), (7781, [7780]), (7783, [7782]), (7785, [7784]),
   (7787, [7786]), (7789, [7788]), (7791, [7790]), (7793, [7792]), (7795, [7794]), (7797,
   [7796]), (7799, [7798])]
   @
  [(7801, [7800]), (7803, [7802]), (7805, [7804]), (7807, [7806]), (7809, [7808]), (7811,
   [7810]), (7813, [7812]), (7815, [7814]), (7817, [7816]), (7819, [7818]), (7821, [7820]),
   (7823, [7822]), (7825, [7824]), (7827, [7826]), (7829, [7828]), (7830, [72, 817]), (7831,
   [84, 776]), (7832, [87, 778]), (7833, [89, 778]), (7834, [65, 702]), (7835, [7776]), (7841,
   [7840]), (7843, [7842]), (7845, [7844]), (7847, [7846]), (7849, [7848]), (7851, [7850]),
   (7853, [7852]), (7855, [7854]), (7857, [7856]), (7859, [7858]), (7861, [7860]), (7863,
   [7862]), (7865, [7864]), (7867, [7866]), (7869, [7868]), (7871, [7870]), (7873, [7872]),
   (7875, [7874]), (7877, [7876])]
   @
  [(7879, [7878]), (7881, [7880]), (7883, [7882]), (7885, [7884]), (7887, [7886]), (7889,
   [7888]), (7891, [7890]), (7893, [7892]), (7895, [7894]), (7897, [7896]), (7899, [7898]),
   (7901, [7900]), (7903, [7902]), (7905, [7904]), (7907, [7906]), (7909, [7908]), (7911,
   [7910]), (7913, [7912]), (7915, [7914]), (7917, [7916]), (7919, [7918]), (7921, [7920]),
   (7923, [7922]), (7925, [7924]), (7927, [7926]), (7929, [7928]), (7931, [7930]), (7933,
   [7932]), (7935, [7934]), (7936, [7944]), (7937, [7945]), (7938, [7946]), (7939, [7947]),
   (7940, [7948]), (7941, [7949]), (7942, [7950]), (7943, [7951]), (7952, [7960]), (7953,
   [7961]), (7954, [7962])]
   @
  [(7955, [7963]), (7956, [7964]), (7957, [7965]), (7968, [7976]), (7969, [7977]), (7970,
   [7978]), (7971, [7979]), (7972, [7980]), (7973, [7981]), (7974, [7982]), (7975, [7983]),
   (7984, [7992]), (7985, [7993]), (7986, [7994]), (7987, [7995]), (7988, [7996]), (7989,
   [7997]), (7990, [7998]), (7991, [7999]), (8000, [8008]), (8001, [8009]), (8002, [8010]),
   (8003, [8011]), (8004, [8012]), (8005, [8013]), (8016, [933, 787]), (8017, [8025]), (8018,
   [933, 787, 768]), (8019, [8027]), (8020, [933, 787, 769]), (8021, [8029]), (8022, [933, 787,
   834]), (8023, [8031]), (8032, [8040]), (8033, [8041]), (8034, [8042]), (8035, [8043]), (8036,
   [8044]), (8037, [8045]), (8038, [8046])]
   @
  [(8039, [8047]), (8048, [8122]), (8049, [8123]), (8050, [8136]), (8051, [8137]), (8052,
   [8138]), (8053, [8139]), (8054, [8154]), (8055, [8155]), (8056, [8184]), (8057, [8185]),
   (8058, [8170]), (8059, [8171]), (8060, [8186]), (8061, [8187]), (8064, [8072]), (8065,
   [8073]), (8066, [8074]), (8067, [8075]), (8068, [8076]), (8069, [8077]), (8070, [8078]),
   (8071, [8079]), (8080, [8088]), (8081, [8089]), (8082, [8090]), (8083, [8091]), (8084,
   [8092]), (8085, [8093]), (8086, [8094]), (8087, [8095]), (8096, [8104]), (8097, [8105]),
   (8098, [8106]), (8099, [8107]), (8100, [8108]), (8101, [8109]), (8102, [8110]), (8103,
   [8111]), (8112, [8120])]
   @
  [(8113, [8121]), (8114, [8122, 837]), (8115, [8124]), (8116, [902, 837]), (8118, [913, 834]),
   (8119, [913, 834, 837]), (8126, [921]), (8130, [8138, 837]), (8131, [8140]), (8132, [905,
   837]), (8134, [919, 834]), (8135, [919, 834, 837]), (8144, [8152]), (8145, [8153]), (8146,
   [921, 776, 768]), (8147, [921, 776, 769]), (8150, [921, 834]), (8151, [921, 776, 834]),
   (8160, [8168]), (8161, [8169]), (8162, [933, 776, 768]), (8163, [933, 776, 769]), (8164,
   [929, 787]), (8165, [8172]), (8166, [933, 834]), (8167, [933, 776, 834]), (8178, [8186,
   837]), (8179, [8188]), (8180, [911, 837]), (8182, [937, 834]), (8183, [937, 834, 837]),
   (8526, [8498]), (8560, [8544]), (8561, [8545]), (8562, [8546]), (8563, [8547]), (8564,
   [8548]), (8565, [8549]), (8566, [8550]), (8567, [8551])]
   @
  [(8568, [8552]), (8569, [8553]), (8570, [8554]), (8571, [8555]), (8572, [8556]), (8573,
   [8557]), (8574, [8558]), (8575, [8559]), (8580, [8579]), (9424, [9398]), (9425, [9399]),
   (9426, [9400]), (9427, [9401]), (9428, [9402]), (9429, [9403]), (9430, [9404]), (9431,
   [9405]), (9432, [9406]), (9433, [9407]), (9434, [9408]), (9435, [9409]), (9436, [9410]),
   (9437, [9411]), (9438, [9412]), (9439, [9413]), (9440, [9414]), (9441, [9415]), (9442,
   [9416]), (9443, [9417]), (9444, [9418]), (9445, [9419]), (9446, [9420]), (9447, [9421]),
   (9448, [9422]), (9449, [9423]), (11312, [11264]), (11313, [11265]), (11314, [11266]), (11315,
   [11267]), (11316, [11268])]
   @
  [(11317, [11269]), (11318, [11270]), (11319, [11271]), (11320, [11272]), (11321, [11273]),
   (11322, [11274]), (11323, [11275]), (11324, [11276]), (11325, [11277]), (11326, [11278]),
   (11327, [11279]), (11328, [11280]), (11329, [11281]), (11330, [11282]), (11331, [11283]),
   (11332, [11284]), (11333, [11285]), (11334, [11286]), (11335, [11287]), (11336, [11288]),
   (11337, [11289]), (11338, [11290]), (11339, [11291]), (11340, [11292]), (11341, [11293]),
   (11342, [11294]), (11343, [11295]), (11344, [11296]), (11345, [11297]), (11346, [11298]),
   (11347, [11299]), (11348, [11300]), (11349, [11301]), (11350, [11302]), (11351, [11303]),
   (11352, [11304]), (11353, [11305]), (11354, [11306]), (11355, [11307]), (11356, [11308])]
   @
  [(11357, [11309]), (11358, [11310]), (11359, [11311]), (11361, [11360]), (11365, [570]),
   (11366, [574]), (11368, [11367]), (11370, [11369]), (11372, [11371]), (11379, [11378]),
   (11382, [11381]), (11393, [11392]), (11395, [11394]), (11397, [11396]), (11399, [11398]),
   (11401, [11400]), (11403, [11402]), (11405, [11404]), (11407, [11406]), (11409, [11408]),
   (11411, [11410]), (11413, [11412]), (11415, [11414]), (11417, [11416]), (11419, [11418]),
   (11421, [11420]), (11423, [11422]), (11425, [11424]), (11427, [11426]), (11429, [11428]),
   (11431, [11430]), (11433, [11432]), (11435, [11434]), (11437, [11436]), (11439, [11438]),
   (11441, [11440]), (11443, [11442]), (11445, [11444]), (11447, [11446]), (11449, [11448])]
   @
  [(11451, [11450]), (11453, [11452]), (11455, [11454]), (11457, [11456]), (11459, [11458]),
   (11461, [11460]), (11463, [11462]), (11465, [11464]), (11467, [11466]), (11469, [11468]),
   (11471, [11470]), (11473, [11472]), (11475, [11474]), (11477, [11476]), (11479, [11478]),
   (11481, [11480]), (11483, [11482]), (11485, [11484]), (11487, [11486]), (11489, [11488]),
   (11491, [11490]), (11500, [11499]), (11502, [11501]), (11507, [11506]), (11520, [4256]),
   (11521, [4257]), (11522, [4258]), (11523, [4259]), (11524, [4260]), (11525, [4261]), (11526,
   [4262]), (11527, [4263]), (11528, [4264]), (11529, [4265]), (11530, [4266]), (11531, [4267]),
   (11532, [4268]), (11533, [4269]), (11534, [4270]), (11535, [4271])]
   @
  [(11536, [4272]), (11537, [4273]), (11538, [4274]), (11539, [4275]), (11540, [4276]), (11541,
   [4277]), (11542, [4278]), (11543, [4279]), (11544, [4280]), (11545, [4281]), (11546, [4282]),
   (11547, [4283]), (11548, [4284]), (11549, [4285]), (11550, [4286]), (11551, [4287]), (11552,
   [4288]), (11553, [4289]), (11554, [4290]), (11555, [4291]), (11556, [4292]), (11557, [4293]),
   (11559, [4295]), (11565, [4301]), (42561, [42560]), (42563, [42562]), (42565, [42564]),
   (42567, [42566]), (42569, [42568]), (42571, [42570]), (42573, [42572]), (42575, [42574]),
   (42577, [42576]), (42579, [42578]), (42581, [42580]), (42583, [42582]), (42585, [42584]),
   (42587, [42586]), (42589, [42588]), (42591, [42590])]
   @
  [(42593, [42592]), (42595, [42594]), (42597, [42596]), (42599, [42598]), (42601, [42600]),
   (42603, [42602]), (42605, [42604]), (42625, [42624]), (42627, [42626]), (42629, [42628]),
   (42631, [42630]), (42633, [42632]), (42635, [42634]), (42637, [42636]), (42639, [42638]),
   (42641, [42640]), (42643, [42642]), (42645, [42644]), (42647, [42646]), (42649, [42648]),
   (42651, [42650]), (42787, [42786]), (42789, [42788]), (42791, [42790]), (42793, [42792]),
   (42795, [42794]), (42797, [42796]), (42799, [42798]), (42803, [42802]), (42805, [42804]),
   (42807, [42806]), (42809, [42808]), (42811, [42810]), (42813, [42812]), (42815, [42814]),
   (42817, [42816]), (42819, [42818]), (42821, [42820]), (42823, [42822]), (42825, [42824])]
   @
  [(42827, [42826]), (42829, [42828]), (42831, [42830]), (42833, [42832]), (42835, [42834]),
   (42837, [42836]), (42839, [42838]), (42841, [42840]), (42843, [42842]), (42845, [42844]),
   (42847, [42846]), (42849, [42848]), (42851, [42850]), (42853, [42852]), (42855, [42854]),
   (42857, [42856]), (42859, [42858]), (42861, [42860]), (42863, [42862]), (42874, [42873]),
   (42876, [42875]), (42879, [42878]), (42881, [42880]), (42883, [42882]), (42885, [42884]),
   (42887, [42886]), (42892, [42891]), (42897, [42896]), (42899, [42898]), (42900, [42948]),
   (42903, [42902]), (42905, [42904]), (42907, [42906]), (42909, [42908]), (42911, [42910]),
   (42913, [42912]), (42915, [42914]), (42917, [42916]), (42919, [42918]), (42921, [42920])]
   @
  [(42933, [42932]), (42935, [42934]), (42937, [42936]), (42939, [42938]), (42941, [42940]),
   (42943, [42942]), (42945, [42944]), (42947, [42946]), (42952, [42951]), (42954, [42953]),
   (42961, [42960]), (42967, [42966]), (42969, [42968]), (42998, [42997]), (43859, [42931]),
   (43888, [5024]), (43889, [5025]), (43890, [5026]), (43891, [5027]), (43892, [5028]), (43893,
   [5029]), (43894, [5030]), (43895, [5031]), (43896, [5032]), (43897, [5033]), (43898, [5034]),
   (43899, [5035]), (43900, [5036]), (43901, [5037]), (43902, [5038]), (43903, [5039]), (43904,
   [5040]), (43905, [5041]), (43906, [5042]), (43907, [5043]), (43908, [5044]), (43909, [5045]),
   (43910, [5046]), (43911, [5047]), (43912, [5048])]
   @
  [(43913, [5049]), (43914, [5050]), (43915, [5051]), (43916, [5052]), (43917, [5053]), (43918,
   [5054]), (43919, [5055]), (43920, [5056]), (43921, [5057]), (43922, [5058]), (43923, [5059]),
   (43924, [5060]), (43925, [5061]), (43926, [5062]), (43927, [5063]), (43928, [5064]), (43929,
   [5065]), (43930, [5066]), (43931, [5067]), (43932, [5068]), (43933, [5069]), (43934, [5070]),
   (43935, [5071]), (43936, [5072]), (43937, [5073]), (43938, [5074]), (43939, [5075]), (43940,
   [5076]), (43941, [5077]), (43942, [5078]), (43943, [5079]), (43944, [5080]), (43945, [5081]),
   (43946, [5082]), (43947, [5083]), (43948, [5084]), (43949, [5085]), (43950, [5086]), (43951,
   [5087]), (43952, [5088])]
   @
  [(43953, [5089]), (43954, [5090]), (43955, [5091]), (43956, [5092]), (43957, [5093]), (43958,
   [5094]), (43959, [5095]), (43960, [5096]), (43961, [5097]), (43962, [5098]), (43963, [5099]),
   (43964, [5100]), (43965, [5101]), (43966, [5102]), (43967, [5103]), (64256, [70, 102]),
   (64257, [70, 105]), (64258, [70, 108]), (64259, [70, 102, 105]), (64260, [70, 102, 108]),
   (64261, [83, 116]), (64262, [83, 116]), (64275, [1348, 1398]), (64276, [1348, 1381]), (64277,
   [1348, 1387]), (64278, [1358, 1398]), (64279, [1348, 1389]), (65345, [65313]), (65346,
   [65314]), (65347, [65315]), (65348, [65316]), (65349, [65317]), (65350, [65318]), (65351,
   [65319]), (65352, [65320]), (65353, [65321]), (65354, [65322]), (65355, [65323]), (65356,
   [65324]), (65357, [65325])]
   @
  [(65358, [65326]), (65359, [65327]), (65360, [65328]), (65361, [65329]), (65362, [65330]),
   (65363, [65331]), (65364, [65332]), (65365, [65333]), (65366, [65334]), (65367, [65335]),
   (65368, [65336]), (65369, [65337]), (65370, [65338]), (66600, [66560]), (66601, [66561]),
   (66602, [66562]), (66603, [66563]), (66604, [66564]), (66605, [66565]), (66606, [66566]),
   (66607, [66567]), (66608, [66568]), (66609, [66569]), (66610, [66570]), (66611, [66571]),
   (66612, [66572]), (66613, [66573]), (66614, [66574]), (66615, [66575]), (66616, [66576]),
   (66617, [66577]), (66618, [66578]), (66619, [66579]), (66620, [66580]), (66621, [66581]),
   (66622, [66582]), (66623, [66583]), (66624, [66584]), (66625, [66585]), (66626, [66586])]
   @
  [(66627, [66587]), (66628, [66588]), (66629, [66589]), (66630, [66590]), (66631, [66591]),
   (66632, [66592]), (66633, [66593]), (66634, [66594]), (66635, [66595]), (66636, [66596]),
   (66637, [66597]), (66638, [66598]), (66639, [66599]), (66776, [66736]), (66777, [66737]),
   (66778, [66738]), (66779, [66739]), (66780, [66740]), (66781, [66741]), (66782, [66742]),
   (66783, [66743]), (66784, [66744]), (66785, [66745]), (66786, [66746]), (66787, [66747]),
   (66788, [66748]), (66789, [66749]), (66790, [66750]), (66791, [66751]), (66792, [66752]),
   (66793, [66753]), (66794, [66754]), (66795, [66755]), (66796, [66756]), (66797, [66757]),
   (66798, [66758]), (66799, [66759]), (66800, [66760]), (66801, [66761]), (66802, [66762])]
   @
  [(66803, [66763]), (66804, [66764]), (66805, [66765]), (66806, [66766]), (66807, [66767]),
   (66808, [66768]), (66809, [66769]), (66810, [66770]), (66811, [66771]), (66967, [66928]),
   (66968, [66929]), (66969, [66930]), (66970, [66931]), (66971, [66932]), (66972, [66933]),
   (66973, [66934]), (66974, [66935]), (66975, [66936]), (66976, [66937]), (66977, [66938]),
   (66979, [66940]), (66980, [66941]), (66981, [66942]), (66982, [66943]), (66983, [66944]),
   (66984, [66945]), (66985, [66946]), (66986, [66947]), (66987, [66948]), (66988, [66949]),
   (66989, [66950]), (66990, [66951]), (66991, [66952]), (66992, [66953]), (66993, [66954]),
   (66995, [66956]), (66996, [66957]), (66997, [66958]), (66998, [66959]), (66999, [66960])]
   @
  [(67000, [66961]), (67001, [66962]), (67003, [66964]), (67004, [66965]), (68800, [68736]),
   (68801, [68737]), (68802, [68738]), (68803, [68739]), (68804, [68740]), (68805, [68741]),
   (68806, [68742]), (68807, [68743]), (68808, [68744]), (68809, [68745]), (68810, [68746]),
   (68811, [68747]), (68812, [68748]), (68813, [68749]), (68814, [68750]), (68815, [68751]),
   (68816, [68752]), (68817, [68753]), (68818, [68754]), (68819, [68755]), (68820, [68756]),
   (68821, [68757]), (68822, [68758]), (68823, [68759]), (68824, [68760]), (68825, [68761]),
   (68826, [68762]), (68827, [68763]), (68828, [68764]), (68829, [68765]), (68830, [68766]),
   (68831, [68767]), (68832, [68768]), (68833, [68769]), (68834, [68770]), (68835, [68771])]
   @
  [(68836, [68772]), (68837, [68773]), (68838, [68774]), (68839, [68775]), (68840, [68776]),
   (68841, [68777]), (68842, [68778]), (68843, [68779]), (68844, [68780]), (68845, [68781]),
   (68846, [68782]), (68847, [68783]), (68848, [68784]), (68849, [68785]), (68850, [68786]),
   (71872, [71840]), (71873, [71841]), (71874, [71842]), (71875, [71843]), (71876, [71844]),
   (71877, [71845]), (71878, [71846]), (71879, [71847]), (71880, [71848]), (71881, [71849]),
   (71882, [71850]), (71883, [71851]), (71884, [71852]), (71885, [71853]), (71886, [71854]),
   (71887, [71855]), (71888, [71856]), (71889, [71857]), (71890, [71858]), (71891, [71859]),
   (71892, [71860]), (71893, [71861]), (71894, [71862]), (71895, [71863]), (71896, [71864])]
   @
  [(71897, [71865]), (71898, [71866]), (71899, [71867]), (71900, [71868]), (71901, [71869]),
   (71902, [71870]), (71903, [71871]), (93792, [93760]), (93793, [93761]), (93794, [93762]),
   (93795, [93763]), (93796, [93764]), (93797, [93765]), (93798, [93766]), (93799, [93767]),
   (93800, [93768]), (93801, [93769]), (93802, [93770]), (93803, [93771]), (93804, [93772]),
   (93805, [93773]), (93806, [93774]), (93807, [93775]), (93808, [93776]), (93809, [93777]),
   (93810, [93778]), (93811, [93779]), (93812, [93780]), (93813, [93781]), (93814, [93782]),
   (93815, [93783]), (93816, [93784]), (93817, [93785]), (93818, [93786]), (93819, [93787]),
   (93820, [93788]), (93821, [93789]), (93822, [93790]), (93823, [93791]), (125218, [125184])]
   @
  [(125219, [125185]), (125220, [125186]), (125221, [125187]), (125222, [125188]), (125223,
   [125189]), (125224, [125190]), (125225, [125191]), (125226, [125192]), (125227, [125193]),
   (125228, [125194]), (125229, [125195]), (125230, [125196]), (125231, [125197]), (125232,
   [125198]), (125233, [125199]), (125234, [125200]), (125235, [125201]), (125236, [125202]),
   (125237, [125203]), (125238, [125204]), (125239, [125205]), (125240, [125206]), (125241,
   [125207]), (125242, [125208]), (125243, [125209]), (125244, [125210]), (125245, [125211]),
   (125246, [125212]), (125247, [125213]), (125248, [125214]), (125249, [125215]), (125250,
   [125216]), (125251, [125217])]"

definition Title_full :: "(nat \<times> nat list) list" where
  "Title_full = Title_full_latin1 @ Title_full_rest"

text \<open>\<open>Printable_ranges\<close>: the code points that \<open>str.isprintable\<close> accepts, which \<open>repr\<close> leaves as they are.\<close>

definition Printable_ranges :: "(nat \<times> nat) list" where
  "Printable_ranges =
  [(32, 126), (161, 172), (174, 887), (890, 895), (900, 906), (908, 908), (910, 929), (931,
   1327), (1329, 1366), (1369, 1418), (1421, 1423), (1425, 1479), (1488, 1514), (1519, 1524),
   (1542, 1563), (1565, 1756), (1758, 1805), (1808, 1866), (1869, 1969), (1984, 2042), (2045,
   2093), (2096, 2110), (2112, 2139), (2142, 2142), (2144, 2154), (2160, 2190), (2200, 2273),
   (2275, 2435), (2437, 2444), (2447, 2448), (2451, 2472), (2474, 2480), (2482, 2482), (2486,
   2489), (2492, 2500), (2503, 2504), (2507, 2510), (2519, 2519), (2524, 2525), (2527, 2531)]
   @
  [(2534, 2558), (2561, 2563), (2565, 2570), (2575, 2576), (2579, 2600), (2602, 2608), (2610,
   2611), (2613, 2614), (2616, 2617), (2620, 2620), (2622, 2626), (2631, 2632), (2635, 2637),
   (2641, 2641), (2649, 2652), (2654, 2654), (2662, 2678), (2689, 2691), (2693, 2701), (2703,
   2705), (2707, 2728), (2730, 2736), (2738, 2739), (2741, 2745), (2748, 2757), (2759, 2761),
   (2763, 2765), (2768, 2768), (2784, 2787), (2790, 2801), (2809, 2815), (2817, 2819), (2821,
   2828), (2831, 2832), (2835, 2856), (2858, 2864), (2866, 2867), (2869, 2873), (2876, 2884),
   (2887, 2888)]
   @
  [(2891, 2893), (2901, 2903), (2908, 2909), (2911, 2915), (2918, 2935), (2946, 2947), (2949,
   2954), (2958, 2960), (2962, 2965), (2969, 2970), (2972, 2972), (2974, 2975), (2979, 2980),
   (2984, 2986), (2990, 3001), (3006, 3010), (3014, 3016), (3018, 3021), (3024, 3024), (3031,
   3031), (3046, 3066), (3072, 3084), (3086, 3088), (3090, 3112), (3114, 3129), (3132, 3140),
   (3142, 3144), (3146, 3149), (3157, 3158), (3160, 3162), (3165, 3165), (3168, 3171), (3174,
   3183), (3191, 3212), (3214, 3216), (3218, 3240), (3242, 3251), (3253, 3257), (3260, 3268),
   (3270, 3272)]
   @
  [(3274, 3277), (3285, 3286), (3293, 3294), (3296, 3299), (3302, 3311), (3313, 3314), (3328,
   3340), (3342, 3344), (3346, 3396), (3398, 3400), (3402, 3407), (3412, 3427), (3430, 3455),
   (3457, 3459), (3461, 3478), (3482, 3505), (3507, 3515), (3517, 3517), (3520, 3526), (3530,
   3530), (3535, 3540), (3542, 3542), (3544, 3551), (3558, 3567), (3570, 3572), (3585, 3642),
   (3647, 3675), (3713, 3714), (3716, 3716), (3718, 3722), (3724, 3747), (3749, 3749), (3751,
   3773), (3776, 3780), (3782, 3782), (3784, 3789), (3792, 3801), (3804, 3807), (3840, 3911),
   (3913, 3948)]
   @
  [(3953, 3991), (3993, 4028), (4030, 4044), (4046, 4058), (4096, 4293), (4295, 4295), (4301,
   4301), (4304, 4680), (4682, 4685), (4688, 4694), (4696, 4696), (4698, 4701), (4704, 4744),
   (4746, 4749), (4752, 4784), (4786, 4789), (4792, 4798), (4800, 4800), (4802, 4805), (4808,
   4822), (4824, 4880), (4882, 4885), (4888, 4954), (4957, 4988), (4992, 5017), (5024, 5109),
   (5112, 5117), (5120, 5759), (5761, 5788), (5792, 5880), (5888, 5909), (5919, 5942), (5952,
   5971), (5984, 5996), (5998, 6000), (6002, 6003), (6016, 6109), (6112, 6121), (6128, 6137),
   (6144, 6157)]
   @
  [(6159, 6169), (6176, 6264), (6272, 6314), (6320, 6389), (6400, 6430), (6432, 6443), (6448,
   6459), (6464, 6464), (6468, 6509), (6512, 6516), (6528, 6571), (6576, 6601), (6608, 6618),
   (6622, 6683), (6686, 6750), (6752, 6780), (6783, 6793), (6800, 6809), (6816, 6829), (6832,
   6862), (6912, 6988), (6992, 7038), (7040, 7155), (7164, 7223), (7227, 7241), (7245, 7304),
   (7312, 7354), (7357, 7367), (7376, 7418), (7424, 7957), (7960, 7965), (7968, 8005), (8008,
   8013), (8016, 8023), (8025, 8025), (8027, 8027), (8029, 8029), (8031, 8061), (8064, 8116),
   (8118, 8132)]
   @
  [(8134, 8147), (8150, 8155), (8157, 8175), (8178, 8180), (8182, 8190), (8208, 8231), (8240,
   8286), (8304, 8305), (8308, 8334), (8336, 8348), (8352, 8384), (8400, 8432), (8448, 8587),
   (8592, 9254), (9280, 9290), (9312, 11123), (11126, 11157), (11159, 11507), (11513, 11557),
   (11559, 11559), (11565, 11565), (11568, 11623), (11631, 11632), (11647, 11670), (11680,
   11686), (11688, 11694), (11696, 11702), (11704, 11710), (11712, 11718), (11720, 11726),
   (11728, 11734), (11736, 11742), (11744, 11869), (11904, 11929), (11931, 12019), (12032,
   12245), (12272, 12283), (12289, 12351), (12353, 12438), (12441, 12543)]
   @
  [(12549, 12591), (12593, 12686), (12688, 12771), (12784, 12830), (12832, 42124), (42128,
   42182), (42192, 42539), (42560, 42743), (42752, 42954), (42960, 42961), (42963, 42963),
   (42965, 42969), (42994, 43052), (43056, 43065), (43072, 43127), (43136, 43205), (43214,
   43225), (43232, 43347), (43359, 43388), (43392, 43469), (43471, 43481), (43486, 43518),
   (43520, 43574), (43584, 43597), (43600, 43609), (43612, 43714), (43739, 43766), (43777,
   43782), (43785, 43790), (43793, 43798), (43808, 43814), (43816, 43822), (43824, 43883),
   (43888, 44013), (44016, 44025), (44032, 55203), (55216, 55238), (55243, 55291), (63744,
   64109), (64112, 64217)]
   @
  [(64256, 64262), (64275, 64279), (64285, 64310), (64312, 64316), (64318, 64318), (64320,
   64321), (64323, 64324), (64326, 64450), (64467, 64911), (64914, 64967), (64975, 64975),
   (65008, 65049), (65056, 65106), (65108, 65126), (65128, 65131), (65136, 65140), (65142,
   65276), (65281, 65470), (65474, 65479), (65482, 65487), (65490, 65495), (65498, 65500),
   (65504, 65510), (65512, 65518), (65532, 65533), (65536, 65547), (65549, 65574), (65576,
   65594), (65596, 65597), (65599, 65613), (65616, 65629), (65664, 65786), (65792, 65794),
   (65799, 65843), (65847, 65934), (65936, 65948), (65952, 65952), (66000, 66045), (66176,
   66204), (66208, 66256)]
   @
  [(66272, 66299), (66304, 66339), (66349, 66378), (66384, 66426), (66432, 66461), (66463,
   66499), (66504, 66517), (66560, 66717), (66720, 66729), (66736, 66771), (66776, 66811),
   (66816, 66855), (66864, 66915), (66927, 66938), (66940, 66954), (66956, 66962), (66964,
   66965), (66967, 66977), (66979, 66993), (66995, 67001), (67003, 67004), (67072, 67382),
   (67392, 67413), (67424, 67431), (67456, 67461), (67463, 67504), (67506, 67514), (67584,
   67589), (67592, 67592), (67594, 67637), (67639, 67640), (67644, 67644), (67647, 67669),
   (67671, 67742), (67751, 67759), (67808, 67826), (67828, 67829), (67835, 67867), (67871,
   67897), (67903, 67903)]
   @
  [(67968, 68023), (68028, 68047), (68050, 68099), (68101, 68102), (68108, 68115), (68117,
   68119), (68121, 68149), (68152, 68154), (68159, 68168), (68176, 68184), (68192, 68255),
   (68288, 68326), (68331, 68342), (68352, 68405), (68409, 68437), (68440, 68466), (68472,
   68497), (68505, 68508), (68521, 68527), (68608, 68680), (68736, 68786), (68800, 68850),
   (68858, 68903), (68912, 68921), (69216, 69246), (69248, 69289), (69291, 69293), (69296,
   69297), (69376, 69415), (69424, 69465), (69488, 69513), (69552, 69579), (69600, 69622),
   (69632, 69709), (69714, 69749), (69759, 69820), (69822, 69826), (69840, 69864), (69872,
   69881), (69888, 69940)]
   @
  [(69942, 69959), (69968, 70006), (70016, 70111), (70113, 70132), (70144, 70161), (70163,
   70206), (70272, 70278), (70280, 70280), (70282, 70285), (70287, 70301), (70303, 70313),
   (70320, 70378), (70384, 70393), (70400, 70403), (70405, 70412), (70415, 70416), (70419,
   70440), (70442, 70448), (70450, 70451), (70453, 70457), (70459, 70468), (70471, 70472),
   (70475, 70477), (70480, 70480), (70487, 70487), (70493, 70499), (70502, 70508), (70512,
   70516), (70656, 70747), (70749, 70753), (70784, 70855), (70864, 70873), (71040, 71093),
   (71096, 71133), (71168, 71236), (71248, 71257), (71264, 71276), (71296, 71353), (71360,
   71369), (71424, 71450)]
   @
  [(71453, 71467), (71472, 71494), (71680, 71739), (71840, 71922), (71935, 71942), (71945,
   71945), (71948, 71955), (71957, 71958), (71960, 71989), (71991, 71992), (71995, 72006),
   (72016, 72025), (72096, 72103), (72106, 72151), (72154, 72164), (72192, 72263), (72272,
   72354), (72368, 72440), (72704, 72712), (72714, 72758), (72760, 72773), (72784, 72812),
   (72816, 72847), (72850, 72871), (72873, 72886), (72960, 72966), (72968, 72969), (72971,
   73014), (73018, 73018), (73020, 73021), (73023, 73031), (73040, 73049), (73056, 73061),
   (73063, 73064), (73066, 73102), (73104, 73105), (73107, 73112), (73120, 73129), (73440,
   73464), (73648, 73648)]
   @
  [(73664, 73713), (73727, 74649), (74752, 74862), (74864, 74868), (74880, 75075), (77712,
   77810), (77824, 78894), (82944, 83526), (92160, 92728), (92736, 92766), (92768, 92777),
   (92782, 92862), (92864, 92873), (92880, 92909), (92912, 92917), (92928, 92997), (93008,
   93017), (93019, 93025), (93027, 93047), (93053, 93071), (93760, 93850), (93952, 94026),
   (94031, 94087), (94095, 94111), (94176, 94180), (94192, 94193), (94208, 100343), (100352,
   101589), (101632, 101640), (110576, 110579), (110581, 110587), (110589, 110590), (110592,
   110882), (110928, 110930), (110948, 110951), (110960, 111355), (113664, 113770), (113776,
   113788), (113792, 113800), (113808, 113817)]
   @
  [(113820, 113823), (118528, 118573), (118576, 118598), (118608, 118723), (118784, 119029),
   (119040, 119078), (119081, 119154), (119163, 119274), (119296, 119365), (119520, 119539),
   (119552, 119638), (119648, 119672), (119808, 119892), (119894, 119964), (119966, 119967),
   (119970, 119970), (119973, 119974), (119977, 119980), (119982, 119993), (119995, 119995),
   (119997, 120003), (120005, 120069), (120071, 120074), (120077, 120084), (120086, 120092),
   (120094, 120121), (120123, 120126), (120128, 120132), (120134, 120134), (120138, 120144),
   (120146, 120485), (120488, 120779), (120782, 121483), (121499, 121503), (121505, 121519),
   (122624, 122654), (122880, 122886), (122888, 122904), (122907, 122913), (122915, 122916)]
   @
  [(122918, 122922), (123136, 123180), (123184, 123197), (123200, 123209), (123214, 123215),
   (123536, 123566), (123584, 123641), (123647, 123647), (124896, 124902), (124904, 124907),
   (124909, 124910), (124912, 124926), (124928, 125124), (125127, 125142), (125184, 125259),
   (125264, 125273), (125278, 125279), (126065, 126132), (126209, 126269), (126464, 126467),
   (126469, 126495), (126497, 126498), (126500, 126500), (126503, 126503), (126505, 126514),
   (126516, 126519), (126521, 126521), (126523, 126523), (126530, 126530), (126535, 126535),
   (126537, 126537), (126539, 126539), (126541, 126543), (126545, 126546), (126548, 126548),
   (126551, 126551), (126553, 126553), (126555, 126555), (126557, 126557), (126559, 126559)]
   @
  [(126561, 126562), (126564, 126564), (126567, 126570), (126572, 126578), (126580, 126583),
   (126585, 126588), (126590, 126590), (126592, 126601), (126603, 126619), (126625, 126627),
   (126629, 126633), (126635, 126651), (126704, 126705), (126976, 127019), (127024, 127123),
   (127136, 127150), (127153, 127167), (127169, 127183), (127185, 127221), (127232, 127405),
   (127462, 127490), (127504, 127547), (127552, 127560), (127568, 127569), (127584, 127589),
   (127744, 128727), (128733, 128748), (128752, 128764), (128768, 128883), (128896, 128984),
   (128992, 129003), (129008, 129008), (129024, 129035), (129040, 129095), (129104, 129113),
   (129120, 129159), (129168, 129197), (129200, 129201), (129280, 129619), (129632, 129645)]
   @
  [(129648, 129652), (129656, 129660), (129664, 129670), (129680, 129708), (129712, 129722),
   (129728, 129733), (129744, 129753), (129760, 129767), (129776, 129782), (129792, 129938),
   (129940, 129994), (130032, 130041), (131072, 173791), (173824, 177976), (177984, 178205),
   (178208, 183969), (183984, 191456), (194560, 195101), (196608, 201546), (917760, 917999)]"

fun in_ranges :: "nat \<Rightarrow> (nat \<times> nat) list \<Rightarrow> bool" where
  "in_ranges c [] = False"
| "in_ranges c ((lo, hi) # rs) =
     (if c < lo then False else if c \<le> hi then True else in_ranges c rs)"

fun lookup_sorted :: "nat \<Rightarrow> (nat \<times> 'a) list \<Rightarrow> 'a option" where
  "lookup_sorted c [] = None"
| "lookup_sorted c ((k, v) # kvs) =
     (if c < k then None else if c = k then Some v else lookup_sorted c kvs)"

fun decimal_in :: "nat \<Rightarrow> nat list \<Rightarrow> nat option" where
  "decimal_in c [] = None"
| "decimal_in c (z # zs) =
     (if c < z then None else if c < z + 10 then Some (c - z) else decimal_in c zs)"

text \<open>The decimal value of a code point of category Nd (what \<open>int\<close> reads), if it has one.\<close>

definition unicode_decimal :: "nat \<Rightarrow> nat option" where
  "unicode_decimal c = decimal_in c Nd_zeros"

definition isdecimal_char :: "nat \<Rightarrow> bool" where
  "isdecimal_char c = (case unicode_decimal c of None \<Rightarrow> False | Some _ \<Rightarrow> True)"

definition isalpha_char :: "nat \<Rightarrow> bool" where
  "isalpha_char c = in_ranges c Alpha_ranges"

text \<open>\<open>str.isalpha\<close>: at least one character, and every character is a letter.\<close>

definition isalpha :: "pystr \<Rightarrow> bool" where
  "isalpha s = (s \<noteq> [] \<and> list_all isalpha_char s)"

definition is_case_ignorable :: "nat \<Rightarrow> bool" where
  "is_case_ignorable c = in_ranges c Case_ignorable_ranges"

definition is_cased :: "nat \<Rightarrow> bool" where
  "is_cased c = in_ranges c Cased_ranges"

definition to_lower_full :: "nat \<Rightarrow> pystr" where
  "to_lower_full c = (case lookup_sorted c Lower_full of None \<Rightarrow> [c] | Some m \<Rightarrow> m)"

definition to_title_full :: "nat \<Rightarrow> pystr" where
  "to_title_full c = (case lookup_sorted c Title_full of None \<Rightarrow> [c] | Some m \<Rightarrow> m)"

text \<open>
  \<open>str.capitalize\<close> (CPython's \<open>do_capitalize\<close>): the first character in title case, the
  others in lower case, where a capital sigma (U+03A3) becomes the final sigma (U+03C2)
  when a cased character precedes it and none follows, case-ignorable characters skipped,
  and the plain small sigma (U+03C3) otherwise.
\<close>

fun skip_ignorable :: "pystr \<Rightarrow> nat option" where
  "skip_ignorable [] = None"
| "skip_ignorable (c # cs) = (if is_case_ignorable c then skip_ignorable cs else Some c)"

definition handle_capital_sigma :: "pystr \<Rightarrow> pystr \<Rightarrow> nat" where
  "handle_capital_sigma seen after =
     (let final_sigma = (case skip_ignorable (rev seen) of None \<Rightarrow> False | Some c \<Rightarrow> is_cased c);
          final_sigma = (if final_sigma
                         then (case skip_ignorable after of None \<Rightarrow> True | Some c \<Rightarrow> \<not> is_cased c)
                         else False)
      in if final_sigma then 962 else 963)"

fun lower_from :: "pystr \<Rightarrow> pystr \<Rightarrow> pystr" where
  "lower_from seen [] = []"
| "lower_from seen (c # cs) =
     (if c = 931 then [handle_capital_sigma seen cs] else to_lower_full c)
     @ lower_from (seen @ [c]) cs"

definition capitalize :: "pystr \<Rightarrow> pystr" where
  "capitalize s = (case s of [] \<Rightarrow> [] | c # cs \<Rightarrow> to_title_full c @ lower_from [c] cs)"

text \<open>
  \<open>repr\<close> of a string: between apostrophes, or between double quotes when the string
  holds an apostrophe and no double quote; the quote in use and the backslash are
  escaped, tab, newline and carriage return are written \<open>\t\<close>, \<open>\n\<close>, \<open>\r\<close>, and any other
  character that is not printable as \<open>\xhh\<close>, \<open>\uhhhh\<close> or \<open>\Uhhhhhhhh\<close>.
\<close>

definition isprintable_char :: "nat \<Rightarrow> bool" where
  "isprintable_char c = in_ranges c Printable_ranges"

definition hex_digit :: "nat \<Rightarrow> nat" where
  "hex_digit k = (if k < 10 then 48 + k else 87 + k)"

primrec hex_fixed :: "nat \<Rightarrow> nat \<Rightarrow> pystr" where
  "hex_fixed 0 n = []"
| "hex_fixed (Suc w) n = hex_fixed w (n div 16) @ [hex_digit (n mod 16)]"

definition repr_char :: "nat \<Rightarrow> nat \<Rightarrow> pystr" where
  "repr_char quote c =
     (if c = quote \<or> c = 92 then [92, c]
      else if c = 9 then [92, 116]
      else if c = 10 then [92, 110]
      else if c = 13 then [92, 114]
      else if c < 32 \<or> c = 127 then 92 # 120 # hex_fixed 2 c
      else if c < 127 then [c]
      else if isprintable_char c then [c]
      else if c \<le> 255 then 92 # 120 # hex_fixed 2 c
      else if c \<le> 65535 then 92 # 117 # hex_fixed 4 c
      else 92 # 85 # hex_fixed 8 c)"

definition repr_str :: "pystr \<Rightarrow> pystr" where
  "repr_str s =
     (let quote = (if List.member s 39 \<and> \<not> List.member s 34 then 34 else 39)
      in quote # concat (map (repr_char quote) s) @ [quote])"

section \<open>Exceptions\<close>

text \<open>
  Every \<open>raise\<close> of the program and of the library calls it makes is a value: the
  exception's class with its message.
\<close>

datatype error =
    ValueError pystr
  | KeyError pystr
  | IndexError pystr
  | OverflowError pystr
  | FileNotFoundError
  | EOFError
  | UnpicklingError
  | UnicodeDecodeError
  | JSONDecodeError
  | TypeError
  | AttributeError

section \<open>Regular expressions\<close>

text \<open>
  The fragment of \<open>re\<close> that the two patterns of the program use. \<open>Digit\<close> is \<open>\d\<close>,
  which on a \<open>str\<close> pattern matches every Unicode decimal digit (category Nd), not only
  \<open>0\<close> to \<open>9\<close>; \<open>Range lo hi\<close> is a class \<open>[lo-hi]\<close>, \<open>Chars\<close> a class that lists its
  members, and \<open>r{n}\<close> is \<open>rep n r\<close>. \<open>re.fullmatch\<close> asks whether the whole string
  matches, so the backtracking order of the alternatives does not show, and the anchors
  \<open>^\<close> and \<open>$\<close> at the two ends of the birthday pattern add nothing: they are left out.
\<close>

datatype regex =
    Eps
  | Lit nat
  | Digit
  | Range nat nat
  | Chars pystr
  | Seq regex regex
  | Alt regex regex

fun fullmatch :: "regex \<Rightarrow> pystr \<Rightarrow> bool" where
  "fullmatch Eps s = (s = [])"
| "fullmatch (Lit c) s = (s = [c])"
| "fullmatch Digit s = (case s of [c] \<Rightarrow> isdecimal_char c | _ \<Rightarrow> False)"
| "fullmatch (Range lo hi) s = (case s of [c] \<Rightarrow> lo \<le> c \<and> c \<le> hi | _ \<Rightarrow> False)"
| "fullmatch (Chars cs) s = (case s of [c] \<Rightarrow> List.member cs c | _ \<Rightarrow> False)"
| "fullmatch (Seq a b) s =
     list_ex (\<lambda>i. fullmatch a (take i s) \<and> fullmatch b (drop i s)) [0..<Suc (length s)]"
| "fullmatch (Alt a b) s = (fullmatch a s \<or> fullmatch b s)"

primrec rep :: "nat \<Rightarrow> regex \<Rightarrow> regex" where
  "rep 0 r = Eps"
| "rep (Suc n) r = Seq r (rep n r)"

text \<open>\<open>r"\d{10}"\<close>\<close>

definition PHONE_RE :: regex where
  "PHONE_RE = rep 10 Digit"

text \<open>\<open>r"^(0[1-9]|[12]\d|3[01])\.(0[1-9]|1[0-2])\.\d{4}$"\<close>\<close>

definition DATE_RE :: regex where
  "DATE_RE =
     Seq (Alt (Seq (Lit 48) (Range 49 57))
           (Alt (Seq (Chars [49, 50]) Digit)
                (Seq (Lit 51) (Chars [48, 49]))))
    (Seq (Lit 46)
    (Seq (Alt (Seq (Lit 48) (Range 49 57))
              (Seq (Lit 49) (Range 48 50)))
    (Seq (Lit 46)
         (rep 4 Digit))))"

section \<open>Dates\<close>

text \<open>
  \<open>datetime.date\<close>: a year, a month and a day of the proleptic Gregorian calendar, with
  \<open>1 \<le> year \<le> 9999\<close>. The arithmetic is that of the \<open>datetime\<close> module.
\<close>

record date =
  year :: int
  month :: int
  day :: int

definition MINYEAR :: int where "MINYEAR = 1"
definition MAXYEAR :: int where "MAXYEAR = 9999"
definition MAXORDINAL :: int where "MAXORDINAL = 3652059"

definition is_leap :: "int \<Rightarrow> bool" where
  "is_leap y = (y mod 4 = 0 \<and> (y mod 100 \<noteq> 0 \<or> y mod 400 = 0))"

definition DAYS_IN_MONTH :: "int list" where
  "DAYS_IN_MONTH = [-1, 31, 28, 31, 30, 31, 30, 31, 31, 30, 31, 30, 31]"

definition DAYS_BEFORE_MONTH :: "int list" where
  "DAYS_BEFORE_MONTH = [-1, 0, 31, 59, 90, 120, 151, 181, 212, 243, 273, 304, 334]"

text \<open>Both are called with \<open>1 \<le> m \<le> 12\<close> only.\<close>

definition days_in_month :: "int \<Rightarrow> int \<Rightarrow> int" where
  "days_in_month y m = (if m = 2 \<and> is_leap y then 29 else DAYS_IN_MONTH ! nat m)"

definition days_before_month :: "int \<Rightarrow> int \<Rightarrow> int" where
  "days_before_month y m = DAYS_BEFORE_MONTH ! nat m + (if 2 < m \<and> is_leap y then 1 else 0)"

definition days_before_year :: "int \<Rightarrow> int" where
  "days_before_year y = (let y1 = y - 1 in y1 * 365 + y1 div 4 - y1 div 100 + y1 div 400)"

definition ymd2ord :: "int \<Rightarrow> int \<Rightarrow> int \<Rightarrow> int" where
  "ymd2ord y m d = days_before_year y + days_before_month y m + d"

definition valid_date :: "date \<Rightarrow> bool" where
  "valid_date d =
     (MINYEAR \<le> year d \<and> year d \<le> MAXYEAR \<and> 1 \<le> month d \<and> month d \<le> 12 \<and>
      1 \<le> day d \<and> day d \<le> days_in_month (year d) (month d))"

text \<open>Decimal notation of a non-negative integer, and \<open>%02d\<close>, \<open>%04d\<close>.\<close>

fun digits_of :: "nat \<Rightarrow> pystr" where
  "digits_of n = (if n < 10 then [48 + n] else digits_of (n div 10) @ [48 + n mod 10])"

declare digits_of.simps [simp del]

definition str_int :: "int \<Rightarrow> pystr" where
  "str_int i = (if i < 0 then 45 # digits_of (nat (- i)) else digits_of (nat i))"

definition zfill :: "nat \<Rightarrow> pystr \<Rightarrow> pystr" where
  "zfill w s = replicate (w - length s) 48 @ s"

text \<open>The constructor \<open>date(y, m, d)\<close> checks its fields.\<close>

definition date_new :: "int \<Rightarrow> int \<Rightarrow> int \<Rightarrow> error + date" where
  "date_new y m d =
     (if \<not> (MINYEAR \<le> y \<and> y \<le> MAXYEAR) then
        Inl (ValueError (py ''year '' @ str_int y @ py '' is out of range''))
      else if \<not> (1 \<le> m \<and> m \<le> 12) then
        Inl (ValueError (py ''month must be in 1..12''))
      else if \<not> (1 \<le> d \<and> d \<le> days_in_month y m) then
        Inl (ValueError (py ''day is out of range for month''))
      else Inr \<lparr>year = y, month = m, day = d\<rparr>)"

text \<open>\<open>d.replace(year=y)\<close>\<close>

definition replace_year :: "date \<Rightarrow> int \<Rightarrow> error + date" where
  "replace_year d y = date_new y (month d) (day d)"

text \<open>\<open>a < b\<close> on dates compares (year, month, day).\<close>

definition date_less :: "date \<Rightarrow> date \<Rightarrow> bool" where
  "date_less a b =
     (year a < year b \<or> (year a = year b \<and> (month a < month b \<or> (month a = month b \<and> day a < day b))))"

definition toordinal :: "date \<Rightarrow> int" where
  "toordinal d = ymd2ord (year d) (month d) (day d)"

text \<open>\<open>(a - b).days\<close>\<close>

definition days_between :: "date \<Rightarrow> date \<Rightarrow> int" where
  "days_between a b = toordinal a - toordinal b"

text \<open>\<open>d.weekday()\<close>: Monday is 0, Saturday 5, Sunday 6.\<close>

definition weekday :: "date \<Rightarrow> int" where
  "weekday d = (toordinal d + 6) mod 7"

text \<open>\<open>date.fromordinal\<close> (\<open>_ord2ymd\<close> of the \<open>datetime\<close> module).\<close>

definition DI400Y :: int where "DI400Y = 146097"
definition DI100Y :: int where "DI100Y = 36524"
definition DI4Y :: int where "DI4Y = 1461"

definition ord2ymd :: "int \<Rightarrow> date" where
  "ord2ymd n0 =
     (let n = n0 - 1;
          n400 = n div DI400Y; n = n mod DI400Y;
          y = n400 * 400 + 1;
          n100 = n div DI100Y; n = n mod DI100Y;
          n4 = n div DI4Y; n = n mod DI4Y;
          n1 = n div 365; n = n mod 365;
          y = y + n100 * 100 + n4 * 4 + n1
      in if n1 = 4 \<or> n100 = 4 then \<lparr>year = y - 1, month = 12, day = 31\<rparr>
         else
           let leapyear = (n1 = 3 \<and> (n4 \<noteq> 24 \<or> n100 = 3));
               m = (n + 50) div 32;
               preceding = DAYS_BEFORE_MONTH ! nat m + (if 2 < m \<and> leapyear then 1 else 0)
           in if n < preceding then
                let m = m - 1;
                    preceding = preceding -
                      (DAYS_IN_MONTH ! nat m + (if m = 2 \<and> leapyear then 1 else 0))
                in \<lparr>year = y, month = m, day = n - preceding + 1\<rparr>
              else \<lparr>year = y, month = m, day = n - preceding + 1\<rparr>)"

text \<open>\<open>d + timedelta(days=k)\<close>\<close>

definition date_add_days :: "date \<Rightarrow> int \<Rightarrow> error + date" where
  "date_add_days d k =
     (let n = toordinal d + k
      in if 0 < n \<and> n \<le> MAXORDINAL then Inr (ord2ymd n)
         else Inl (OverflowError (py ''date value out of range'')))"

text \<open>
  \<open>d.strftime("%d.%m.%Y")\<close>. The day and the month are two digits. The year comes from the
  C library's \<open>strftime\<close>: glibc prints it without padding (year 999 is \<open>999\<close>), other C
  libraries pad it with zeros to four digits; \<open>pad\<close> says which.
\<close>

definition strftime_dmY :: "bool \<Rightarrow> date \<Rightarrow> pystr" where
  "strftime_dmY pad d =
     zfill 2 (str_int (day d)) @ [46] @ zfill 2 (str_int (month d)) @ [46] @
     (if pad then zfill 4 (str_int (year d)) else str_int (year d))"

section \<open>Fields\<close>

text \<open>
  \<open>Field\<close> holds one attribute, \<open>value\<close>. \<open>Name\<close>, \<open>Phone\<close> and \<open>Birthday\<close> are the
  constructors of the source: each returns the object, or the exception it raises.
\<close>

datatype Name_obj = MkName (name_value: pystr)
datatype Phone_obj = MkPhone (phone_value: pystr)
datatype Birthday_obj = MkBirthday (birthday_value: date)

definition Name_validate :: "pystr \<Rightarrow> error + pystr" where
  "Name_validate v =
     (if v = [] \<or> \<not> isalpha v then Inl (ValueError (py ''Name must contain only letters.''))
      else Inr (capitalize v))"

text \<open>
  \<open>Name.__init__\<close> calls \<open>self.validate(value)\<close> for the exception only: what \<open>validate\<close>
  returns is dropped, and \<open>Field.__init__\<close> stores \<open>value\<close> as it was given.
\<close>

definition Name :: "pystr \<Rightarrow> error + Name_obj" where
  "Name v = (case Name_validate v of Inl e \<Rightarrow> Inl e | Inr _ \<Rightarrow> Inr (MkName v))"

definition Phone_validate :: "pystr \<Rightarrow> error + unit" where
  "Phone_validate v =
     (if \<not> fullmatch PHONE_RE v then Inl (ValueError (py ''Phone number must be exactly 10 digits.''))
      else Inr ())"

definition Phone :: "pystr \<Rightarrow> error + Phone_obj" where
  "Phone v = (case Phone_validate v of Inl e \<Rightarrow> Inl e | Inr _ \<Rightarrow> Inr (MkPhone v))"

subsection \<open>\<open>datetime.strptime(value, "%d.%m.%Y")\<close>\<close>

text \<open>
  \<open>strptime\<close> turns the format into a regular expression of its own, with the groups
  \<open>3[0-1]|[1-2]\d|0[1-9]|[1-9]| [1-9]\<close> for \<open>%d\<close>, \<open>1[0-2]|0[1-9]|[1-9]\<close> for \<open>%m\<close> and
  \<open>\d\d\d\d\<close> for \<open>%Y\<close>, matches it at the start of the string, refuses text left over,
  reads each group with \<open>int\<close> (which knows every Unicode decimal digit) and builds the
  date, whose constructor checks it. An alternative that fails after a longer one matched
  cannot succeed either (the next character is then a digit, not the dot), so each group
  is read by trying its alternatives in order. All its failures are \<open>ValueError\<close>s; the
  text that the two parsing messages quote is left out.
\<close>

definition ascii_digit_in :: "nat \<Rightarrow> nat \<Rightarrow> nat \<Rightarrow> bool" where
  "ascii_digit_in lo hi c = (48 + lo \<le> c \<and> c \<le> 48 + hi)"

fun strptime_d :: "pystr \<Rightarrow> (int \<times> pystr) option" where
  "strptime_d (a # b # rest) =
     (if a = 51 \<and> ascii_digit_in 0 1 b then Some (30 + int (b - 48), rest)
      else if ascii_digit_in 1 2 a \<and> isdecimal_char b then
        (case unicode_decimal b of None \<Rightarrow> None
         | Some x \<Rightarrow> Some (10 * int (a - 48) + int x, rest))
      else if a = 48 \<and> ascii_digit_in 1 9 b then Some (int (b - 48), rest)
      else if ascii_digit_in 1 9 a then Some (int (a - 48), b # rest)
      else if a = 32 \<and> ascii_digit_in 1 9 b then Some (int (b - 48), rest)
      else None)"
| "strptime_d [a] = (if ascii_digit_in 1 9 a then Some (int (a - 48), []) else None)"
| "strptime_d [] = None"

fun strptime_m :: "pystr \<Rightarrow> (int \<times> pystr) option" where
  "strptime_m (a # b # rest) =
     (if a = 49 \<and> ascii_digit_in 0 2 b then Some (10 + int (b - 48), rest)
      else if a = 48 \<and> ascii_digit_in 1 9 b then Some (int (b - 48), rest)
      else if ascii_digit_in 1 9 a then Some (int (a - 48), b # rest)
      else None)"
| "strptime_m [a] = (if ascii_digit_in 1 9 a then Some (int (a - 48), []) else None)"
| "strptime_m [] = None"

fun strptime_Y :: "pystr \<Rightarrow> (int \<times> pystr) option" where
  "strptime_Y (a # b # c # d # rest) =
     (case (unicode_decimal a, unicode_decimal b, unicode_decimal c, unicode_decimal d) of
        (Some x, Some y, Some z, Some w) \<Rightarrow> Some (int (((x * 10 + y) * 10 + z) * 10 + w), rest)
      | _ \<Rightarrow> None)"
| "strptime_Y _ = None"

fun expect_dot :: "pystr \<Rightarrow> pystr option" where
  "expect_dot (c # rest) = (if c = 46 then Some rest else None)"
| "expect_dot [] = None"

definition NO_MATCH :: error where
  "NO_MATCH = ValueError (py ''time data does not match format'')"

definition strptime_dmY :: "pystr \<Rightarrow> error + date" where
  "strptime_dmY s =
     (case strptime_d s of None \<Rightarrow> Inl NO_MATCH
      | Some (d, s1) \<Rightarrow>
     (case expect_dot s1 of None \<Rightarrow> Inl NO_MATCH
      | Some s2 \<Rightarrow>
     (case strptime_m s2 of None \<Rightarrow> Inl NO_MATCH
      | Some (m, s3) \<Rightarrow>
     (case expect_dot s3 of None \<Rightarrow> Inl NO_MATCH
      | Some s4 \<Rightarrow>
     (case strptime_Y s4 of None \<Rightarrow> Inl NO_MATCH
      | Some (y, rest) \<Rightarrow>
          if rest \<noteq> [] then Inl (ValueError (py ''unconverted data remains''))
          else date_new y m d)))))"

text \<open>
  \<open>Birthday.__init__\<close>: the pattern first, then \<open>strptime\<close>; every \<open>ValueError\<close> of either
  becomes the one with the message below. The \<open>datetime\<close> that \<open>strptime\<close> returns is at
  midnight, and the program only reads its date, which is what the model stores.
\<close>

definition INVALID_DATE :: error where
  "INVALID_DATE = ValueError (py ''Invalid date format. Use DD.MM.YYYY'')"

definition Birthday :: "pystr \<Rightarrow> error + Birthday_obj" where
  "Birthday v =
     (case (if fullmatch DATE_RE v then strptime_dmY v else Inl INVALID_DATE) of
        Inl (ValueError _) \<Rightarrow> Inl INVALID_DATE
      | Inl e \<Rightarrow> Inl e
      | Inr d \<Rightarrow> Inr (MkBirthday d))"

section \<open>Record\<close>

text \<open>
  A method that mutates its object returns the object after the call; when it raises,
  the object is as it was before the call.
\<close>

record Record_obj =
  name :: Name_obj
  phones :: "Phone_obj list"
  birthday :: "Birthday_obj option"

definition Record :: "pystr \<Rightarrow> error + Record_obj" where
  "Record n =
     (case Name n of Inl e \<Rightarrow> Inl e
      | Inr nm \<Rightarrow> Inr \<lparr>name = nm, phones = [], birthday = None\<rparr>)"

definition add_phone :: "Record_obj \<Rightarrow> pystr \<Rightarrow> error + Record_obj" where
  "add_phone r p =
     (case Phone p of Inl e \<Rightarrow> Inl e | Inr ph \<Rightarrow> Inr (r\<lparr>phones := phones r @ [ph]\<rparr>))"

text \<open>
  The loop of \<open>edit_phone\<close> over \<open>enumerate(self.phones)\<close>, from index \<open>i\<close>: the list
  after the call, and the value returned.
\<close>

function edit_phone_from :: "nat \<Rightarrow> Phone_obj list \<Rightarrow> pystr \<Rightarrow> pystr \<Rightarrow> error + (Phone_obj list \<times> bool)" where
  "edit_phone_from i ps old_phone new_phone =
     (if i < length ps then
        (if phone_value (ps ! i) = old_phone then
           (case Phone new_phone of Inl e \<Rightarrow> Inl e | Inr ph \<Rightarrow> Inr (ps[i := ph], True))
         else edit_phone_from (Suc i) ps old_phone new_phone)
      else Inr (ps, False))"
  by pat_completeness auto
termination
  by (relation "measure (\<lambda>(i, ps, old_phone, new_phone). length ps - i)") auto

declare edit_phone_from.simps [simp del]

definition edit_phone :: "Record_obj \<Rightarrow> pystr \<Rightarrow> pystr \<Rightarrow> error + (Record_obj \<times> bool)" where
  "edit_phone r old_phone new_phone =
     (case edit_phone_from 0 (phones r) old_phone new_phone of
        Inl e \<Rightarrow> Inl e
      | Inr (ps, found) \<Rightarrow> Inr (r\<lparr>phones := ps\<rparr>, found))"

definition add_birthday :: "Record_obj \<Rightarrow> pystr \<Rightarrow> error + Record_obj" where
  "add_birthday r b =
     (case Birthday b of Inl e \<Rightarrow> Inl e | Inr bd \<Rightarrow> Inr (r\<lparr>birthday := Some bd\<rparr>))"

section \<open>AddressBook\<close>

text \<open>
  \<open>AddressBook\<close> is a \<open>UserDict\<close>: its \<open>data\<close> is a \<open>dict\<close>, which keeps its keys in
  insertion order. It is an association list with distinct keys; assigning to a key that
  is present keeps its place, assigning to a new key appends it.
\<close>

type_synonym AddressBook = "(pystr \<times> Record_obj) list"

definition add_record :: "AddressBook \<Rightarrow> Record_obj \<Rightarrow> AddressBook" where
  "add_record book record = AList.update (name_value (name record)) record book"

definition find :: "AddressBook \<Rightarrow> pystr \<Rightarrow> Record_obj option" where
  "find book n = map_of book n"

definition delete :: "AddressBook \<Rightarrow> pystr \<Rightarrow> AddressBook" where
  "delete book n = (case map_of book n of None \<Rightarrow> book | Some _ \<Rightarrow> AList.delete n book)"

text \<open>
  One round of the loop of \<open>get_upcoming_birthdays\<close>: the dictionary appended for the
  record, if any. \<open>today\<close> is \<open>datetime.today().date()\<close>, and \<open>pad\<close> the behaviour of the C
  library in \<open>strftime\<close>.
\<close>

definition NO_PHONE :: pystr where
  "NO_PHONE = py '' No phone ''"

definition upcoming_of :: "bool \<Rightarrow> date \<Rightarrow> Record_obj \<Rightarrow> error + (string \<times> pystr) list option" where
  "upcoming_of pad today record =
     (case birthday record of None \<Rightarrow> Inr None
      | Some b \<Rightarrow>
          let bday = birthday_value b in
          (case replace_year bday (year today) of Inl e \<Rightarrow> Inl e
           | Inr this_year \<Rightarrow>
          (case (if date_less this_year today then replace_year bday (year today + 1)
                 else Inr this_year) of Inl e \<Rightarrow> Inl e
           | Inr upcoming_bday \<Rightarrow>
               let diff = days_between upcoming_bday today in
               if 0 \<le> diff \<and> diff < 7 then
                 (case (if weekday upcoming_bday = 5 then date_add_days upcoming_bday 2
                        else if weekday upcoming_bday = 6 then date_add_days upcoming_bday 1
                        else Inr upcoming_bday) of Inl e \<Rightarrow> Inl e
                  | Inr shifted \<Rightarrow>
                      let phone = (case phones record of [] \<Rightarrow> NO_PHONE | p # _ \<Rightarrow> phone_value p)
                      in Inr (Some [(''name'', name_value (name record)),
                                    (''congratulation_date'', strftime_dmY pad shifted),
                                    (''phone'', phone)]))
               else Inr None)))"

fun upcoming_loop :: "bool \<Rightarrow> date \<Rightarrow> Record_obj list \<Rightarrow> (string \<times> pystr) list list
    \<Rightarrow> error + (string \<times> pystr) list list" where
  "upcoming_loop pad today [] upcoming = Inr upcoming"
| "upcoming_loop pad today (record # records) upcoming =
     (case upcoming_of pad today record of
        Inl e \<Rightarrow> Inl e
      | Inr None \<Rightarrow> upcoming_loop pad today records upcoming
      | Inr (Some entry) \<Rightarrow> upcoming_loop pad today records (upcoming @ [entry]))"

definition get_upcoming_birthdays :: "bool \<Rightarrow> date \<Rightarrow> AddressBook \<Rightarrow> error + (string \<times> pystr) list list" where
  "get_upcoming_birthdays pad today book = upcoming_loop pad today (map snd book) []"

section \<open>Persistence\<close>

text \<open>
  The file system is a map from file names to contents. The bytes of a file are not
  modelled: a file holds the JSON document or the pickled book that was dumped into it,
  and \<open>json.load\<close> and \<open>pickle.load\<close> give back what \<open>json.dump\<close> and \<open>pickle.dump\<close>
  were given. The JSON values are those the program writes: \<open>null\<close>, strings, arrays and
  objects, an object being a dictionary in the order of its keys. A file can also be
  empty, or hold other bytes: \<open>Other e e'\<close> stands for bytes on which \<open>pickle.load\<close>
  raises \<open>e\<close> and \<open>json.load\<close> raises \<open>e'\<close>.
\<close>

datatype json = JNull | JString pystr | JArray "json list" | JObject "(pystr \<times> json) list"

datatype content = Json json | Pickle AddressBook | Empty | Other error error

type_synonym filesystem = "string \<Rightarrow> content option"

definition PHONEBOOK_FILE :: string where
  "PHONEBOOK_FILE = ''addressbook.pkl''"

definition record_to_json :: "bool \<Rightarrow> Record_obj \<Rightarrow> json" where
  "record_to_json pad record =
     JObject [(py ''phones'', JArray (map (\<lambda>p. JString (phone_value p)) (phones record))),
              (py ''birthday'', (case birthday record of None \<Rightarrow> JNull
                                 | Some b \<Rightarrow> JString (strftime_dmY pad (birthday_value b))))]"

definition save_address_book :: "bool \<Rightarrow> AddressBook \<Rightarrow> string \<Rightarrow> filesystem \<Rightarrow> filesystem" where
  "save_address_book pad book filename fs =
     (let data_to_save =
            foldl (\<lambda>d (n, record). AList.update n (record_to_json pad record) d) [] book
      in fs(filename \<mapsto> Json (JObject data_to_save)))"

text \<open>\<open>for phone in info.get("phones", []): record.add_phone(phone)\<close>, over an array.\<close>

fun load_phones :: "Record_obj \<Rightarrow> json list \<Rightarrow> error + Record_obj" where
  "load_phones record [] = Inr record"
| "load_phones record (JString p # ps) =
     (case add_phone record p of Inl e \<Rightarrow> Inl e | Inr record' \<Rightarrow> load_phones record' ps)"
| "load_phones record (_ # ps) = Inl TypeError"

text \<open>
  The body of the loop of \<open>load_address_book\<close> for one key of the document. A value of
  a shape that \<open>save_address_book\<close> does not write makes the library raise: \<open>.get\<close> on
  something that is not an object, a loop over \<open>null\<close>, a string where a sequence of
  strings is expected (its characters are then the phones), \<open>re.fullmatch\<close> on something
  that is not a string.
\<close>

definition load_phones_of :: "Record_obj \<Rightarrow> json \<Rightarrow> error + Record_obj" where
  "load_phones_of record v =
     (case v of
        JArray ps \<Rightarrow> load_phones record ps
      | JString s \<Rightarrow> load_phones record (map (\<lambda>c. JString [c]) s)
      | JObject members \<Rightarrow> load_phones record (map (\<lambda>(k, _). JString k) members)
      | JNull \<Rightarrow> Inl TypeError)"

definition load_birthday_of :: "Record_obj \<Rightarrow> json \<Rightarrow> error + Record_obj" where
  "load_birthday_of record v =
     (case v of
        JNull \<Rightarrow> Inr record
      | JString s \<Rightarrow> if s = [] then Inr record else add_birthday record s
      | JArray xs \<Rightarrow> if xs = [] then Inr record else Inl TypeError
      | JObject members \<Rightarrow> if members = [] then Inr record else Inl TypeError)"

definition load_record :: "pystr \<Rightarrow> json \<Rightarrow> error + Record_obj" where
  "load_record n info =
     (case Record n of Inl e \<Rightarrow> Inl e
      | Inr record \<Rightarrow>
          (case info of
             JObject members \<Rightarrow>
               (case load_phones_of record
                       (case map_of members (py ''phones'') of None \<Rightarrow> JArray [] | Some v \<Rightarrow> v) of
                  Inl e \<Rightarrow> Inl e
                | Inr record' \<Rightarrow>
                    load_birthday_of record'
                      (case map_of members (py ''birthday'') of None \<Rightarrow> JNull | Some v \<Rightarrow> v))
           | _ \<Rightarrow> Inl AttributeError))"

fun load_items :: "AddressBook \<Rightarrow> (pystr \<times> json) list \<Rightarrow> error + AddressBook" where
  "load_items book [] = Inr book"
| "load_items book ((n, info) # items) =
     (case load_record n info of
        Inl e \<Rightarrow> Inl e
      | Inr record \<Rightarrow> load_items (add_record book record) items)"

text \<open>
  The file is opened as text: a pickle, which is binary, does not decode (with the
  UTF-8 default), and \<open>json.load\<close> refuses an empty file.
\<close>

definition load_address_book :: "string \<Rightarrow> filesystem \<Rightarrow> error + AddressBook" where
  "load_address_book filename fs =
     (case fs filename of
        None \<Rightarrow> Inr []
      | Some (Json (JObject items)) \<Rightarrow> load_items [] items
      | Some (Json _) \<Rightarrow> Inl AttributeError
      | Some (Pickle _) \<Rightarrow> Inl UnicodeDecodeError
      | Some Empty \<Rightarrow> Inl JSONDecodeError
      | Some (Other _ e) \<Rightarrow> Inl e)"

text \<open>The pickle pair, which \<open>main\<close> uses.\<close>

definition save_data :: "AddressBook \<Rightarrow> string \<Rightarrow> filesystem \<Rightarrow> filesystem" where
  "save_data book filename fs = fs(filename \<mapsto> Pickle book)"

definition open_rb :: "string \<Rightarrow> filesystem \<Rightarrow> error + content" where
  "open_rb filename fs = (case fs filename of None \<Rightarrow> Inl FileNotFoundError | Some c \<Rightarrow> Inr c)"

text \<open>
  \<open>pickle.load\<close>: the book that was dumped; \<open>EOFError\<close> on an empty file; a JSON
  document starts with a character that is not a pickle opcode.
\<close>

definition pickle_load :: "content \<Rightarrow> error + AddressBook" where
  "pickle_load c =
     (case c of
        Pickle book \<Rightarrow> Inr book
      | Empty \<Rightarrow> Inl EOFError
      | Json _ \<Rightarrow> Inl UnpicklingError
      | Other e _ \<Rightarrow> Inl e)"

definition load_data :: "string \<Rightarrow> filesystem \<Rightarrow> error + AddressBook" where
  "load_data filename fs =
     (case (case open_rb filename fs of Inl e \<Rightarrow> Inl e | Inr c \<Rightarrow> pickle_load c) of
        Inl FileNotFoundError \<Rightarrow> Inr []
      | Inl e \<Rightarrow> Inl e
      | Inr book \<Rightarrow> Inr book)"

section \<open>Command handlers\<close>

text \<open>The colours are the ANSI escape sequences of \<open>colorama\<close>.\<close>

definition ESC :: "nat \<Rightarrow> pystr" where
  "ESC n = 27 # 91 # digits_of n @ [109]"

definition dir_file_color :: "string \<Rightarrow> pystr \<Rightarrow> pystr" where
  "dir_file_color lvl message =
     (case map_of [(''CHANGE'', ESC 34), (''ADD'', ESC 32), (''DELETE'', ESC 31), (''WARN'', ESC 33)] lvl of
        Some colour \<Rightarrow> colour @ message @ ESC 0
      | None \<Rightarrow> ESC 37 @ message @ ESC 0)"

text \<open>
  The decorator \<open>input_error\<close>: what the wrapped handler returns, or the warning made of
  the exception it raised. The text of a \<open>KeyError\<close> is the \<open>repr\<close> of its message.
\<close>

definition input_error :: "error + pystr \<Rightarrow> error + pystr" where
  "input_error r =
     (case r of
        Inr s \<Rightarrow> Inr s
      | Inl (ValueError ve) \<Rightarrow>
          Inr (dir_file_color ''WARN''
                 (py ''Value Error: '' @ ve @ py '', please use '' @ [39] @ py ''help'' @ [39] @
                  py '' command for more details''))
      | Inl (KeyError ke) \<Rightarrow> Inr (dir_file_color ''WARN'' (py ''Key Error: '' @ repr_str ke))
      | Inl (IndexError ie) \<Rightarrow> Inr (dir_file_color ''WARN'' (py ''Index Error: '' @ ie))
      | Inl e \<Rightarrow> Inl e)"

text \<open>
  \<open>add_contact\<close> before the decorator: what it returns or raises, and the book after the
  call. The record that \<open>find\<close> returns is the object in the book, and the new record is
  in the book once \<open>add_record\<close> has run, so \<open>add_phone\<close> changes the book's entry.
\<close>

definition add_contact_body :: "pystr list \<Rightarrow> AddressBook \<Rightarrow> (error + pystr) \<times> AddressBook" where
  "add_contact_body args book =
     (case args of
        n # phone # _ \<Rightarrow>
          (case (case find book n of
                   Some record \<Rightarrow> Inr (n, record, book, py ''Contact updated.'')
                 | None \<Rightarrow>
                     (case Record n of Inl e \<Rightarrow> Inl e
                      | Inr record \<Rightarrow>
                          Inr (name_value (name record), record, add_record book record,
                               py ''Contact added.''))) of
             Inl e \<Rightarrow> (Inl e, book)
           | Inr (k, record, book', message) \<Rightarrow>
               if phone \<noteq> [] then
                 (case add_phone record phone of
                    Inl e \<Rightarrow> (Inl e, book')
                  | Inr record' \<Rightarrow>
                      (Inr (dir_file_color ''ADD'' message), AList.update k record' book'))
               else (Inr (dir_file_color ''ADD'' message), book'))
      | _ \<Rightarrow>
          (Inl (ValueError (py ''not enough values to unpack (expected at least 2, got '' @
                            digits_of (length args) @ py '')'')), book))"

definition add_contact :: "pystr list \<Rightarrow> AddressBook \<Rightarrow> (error + pystr) \<times> AddressBook" where
  "add_contact args book =
     (case add_contact_body args book of (r, book') \<Rightarrow> (input_error r, book'))"

section \<open>The specification's words\<close>

text \<open>
  The definitions of this section follow the specification, not the code; the theorems
  compare the code with them.
\<close>

subsection \<open>Upcoming birthdays (section 4.3 of the specification)\<close>

text \<open>
  Steps 1 and 2: this year's occurrence of the birthday's month and day, and next year's
  when this year's is strictly before the reference date. There may be no such date
  (29 February, or a year after 9999).
\<close>

definition occurrence :: "date \<Rightarrow> date \<Rightarrow> date option" where
  "occurrence today bday =
     (let this_year = \<lparr>year = year today, month = month bday, day = day bday\<rparr>;
          next_year = \<lparr>year = year today + 1, month = month bday, day = day bday\<rparr>
      in if valid_date this_year then
           (if date_less this_year today then
              (if valid_date next_year then Some next_year else None)
            else Some this_year)
         else None)"

text \<open>Steps 3 and 4: \<open>diff\<close> is the occurrence minus the reference date, in days.\<close>

definition in_window :: "date \<Rightarrow> date \<Rightarrow> bool" where
  "in_window today occ = (0 \<le> days_between occ today \<and> days_between occ today < 7)"

text \<open>Step 5: a Saturday moves forward by two days, a Sunday by one.\<close>

definition days_after :: "date \<Rightarrow> int \<Rightarrow> date" where
  "days_after d k = ord2ymd (toordinal d + k)"

definition congratulation_date :: "date \<Rightarrow> date" where
  "congratulation_date occ =
     (if weekday occ = 5 then days_after occ 2
      else if weekday occ = 6 then days_after occ 1
      else occ)"

text \<open>
  What is reported for a record, if it is included: its name, the congratulation date
  as \<open>DD.MM.YYYY\<close>, and its first phone or the marker (step 6).
\<close>

definition first_phone :: "Record_obj \<Rightarrow> pystr" where
  "first_phone r = (case phones r of [] \<Rightarrow> NO_PHONE | p # _ \<Rightarrow> phone_value p)"

definition report :: "bool \<Rightarrow> date \<Rightarrow> Record_obj \<Rightarrow> (string \<times> pystr) list option" where
  "report pad today r =
     (case birthday r of
        None \<Rightarrow> None
      | Some b \<Rightarrow>
          (case occurrence today (birthday_value b) of
             None \<Rightarrow> None
           | Some occ \<Rightarrow>
               if in_window today occ then
                 Some [(''name'', name_value (name r)),
                       (''congratulation_date'', strftime_dmY pad (congratulation_date occ)),
                       (''phone'', first_phone r)]
               else None))"

text \<open>Every birthday of the book has its occurrence.\<close>

definition has_occurrence :: "date \<Rightarrow> Record_obj \<Rightarrow> bool" where
  "has_occurrence today r =
     (case birthday r of
        None \<Rightarrow> True
      | Some b \<Rightarrow> (case occurrence today (birthday_value b) of None \<Rightarrow> False | Some _ \<Rightarrow> True))"

subsection \<open>Birthday strings (section 4.1 of the specification)\<close>

text \<open>
  A string of the form \<open>DD.MM.YYYY\<close>, for a notion \<open>dv\<close> of digit that gives each digit
  its value, read as day, month and year.
\<close>

definition ascii_decimal :: "nat \<Rightarrow> nat option" where
  "ascii_decimal c = (if ascii_digit_in 0 9 c then Some (c - 48) else None)"




section \<open>Properties of the model\<close>

subsection \<open>Regular expressions and digits\<close>

lemma fullmatch_Seq:
  "fullmatch (Seq a b) s \<longleftrightarrow> (\<exists>u v. s = u @ v \<and> fullmatch a u \<and> fullmatch b v)"
proof
  assume "fullmatch (Seq a b) s"
  then obtain i where "fullmatch a (take i s)" "fullmatch b (drop i s)"
    unfolding fullmatch.simps list_ex_iff by blast
  then have "s = take i s @ drop i s \<and> fullmatch a (take i s) \<and> fullmatch b (drop i s)"
    by simp
  then show "\<exists>u v. s = u @ v \<and> fullmatch a u \<and> fullmatch b v"
    by blast
next
  assume "\<exists>u v. s = u @ v \<and> fullmatch a u \<and> fullmatch b v"
  then obtain u v where uv: "s = u @ v" "fullmatch a u" "fullmatch b v"
    by blast
  then have "length u \<in> set [0..<Suc (length s)]" "take (length u) s = u" "drop (length u) s = v"
    by auto
  with uv show "fullmatch (Seq a b) s"
    unfolding fullmatch.simps list_ex_iff by metis
qed

lemma fullmatch_Seq_char:
  assumes "\<And>u. fullmatch a u \<longleftrightarrow> (\<exists>c. u = [c] \<and> P c)"
  shows "fullmatch (Seq a b) s \<longleftrightarrow> (\<exists>c v. s = c # v \<and> P c \<and> fullmatch b v)"
  unfolding fullmatch_Seq assms
proof
  assume "\<exists>u v. s = u @ v \<and> (\<exists>c. u = [c] \<and> P c) \<and> fullmatch b v"
  then show "\<exists>c v. s = c # v \<and> P c \<and> fullmatch b v"
    by auto
next
  assume "\<exists>c v. s = c # v \<and> P c \<and> fullmatch b v"
  then obtain c v where "s = [c] @ v" "P c" "fullmatch b v"
    by auto
  then show "\<exists>u v. s = u @ v \<and> (\<exists>c. u = [c] \<and> P c) \<and> fullmatch b v"
    by blast
qed

lemma fullmatch_Lit: "fullmatch (Lit k) s \<longleftrightarrow> (\<exists>c. s = [c] \<and> c = k)"
  by auto

lemma fullmatch_Digit: "fullmatch Digit s \<longleftrightarrow> (\<exists>c. s = [c] \<and> isdecimal_char c)"
  by (auto split: list.splits)

lemma fullmatch_Range: "fullmatch (Range lo hi) s \<longleftrightarrow> (\<exists>c. s = [c] \<and> lo \<le> c \<and> c \<le> hi)"
  by (auto split: list.splits)

lemma fullmatch_Chars: "fullmatch (Chars cs) s \<longleftrightarrow> (\<exists>c. s = [c] \<and> c \<in> set cs)"
  by (auto split: list.splits)

lemmas fullmatch_Seq_Lit = fullmatch_Seq_char [OF fullmatch_Lit]
lemmas fullmatch_Seq_Digit = fullmatch_Seq_char [OF fullmatch_Digit]
lemmas fullmatch_Seq_Range = fullmatch_Seq_char [OF fullmatch_Range]
lemmas fullmatch_Seq_Chars = fullmatch_Seq_char [OF fullmatch_Chars]

lemma fullmatch_rep_Digit:
  "fullmatch (rep n Digit) s \<longleftrightarrow> length s = n \<and> list_all isdecimal_char s"
proof (induction n arbitrary: s)
  case 0
  then show ?case by auto
next
  case (Suc n)
  show ?case
    by (cases s) (auto simp: fullmatch_Seq_Digit Suc.IH simp del: fullmatch.simps)
qed

lemma ascii_digit_decimal:
  "ascii_digit_in 0 9 c \<Longrightarrow> unicode_decimal c = Some (c - 48)"
  by (simp add: ascii_digit_in_def unicode_decimal_def Nd_zeros_def)

subsection \<open>Fields and records\<close>

lemma Phone_cases:
  "Phone raw =
     (if length raw = 10 \<and> list_all isdecimal_char raw then Inr (MkPhone raw)
      else Inl (ValueError (py ''Phone number must be exactly 10 digits.'')))"
  by (simp add: Phone_def Phone_validate_def PHONE_RE_def fullmatch_rep_Digit del: fullmatch.simps)

lemma Name_cases:
  "Name v =
     (if v = [] \<or> \<not> isalpha v then Inl (ValueError (py ''Name must contain only letters.''))
      else Inr (MkName v))"
  by (simp add: Name_def Name_validate_def)

lemma isalpha_alice: "isalpha (py ''alice'')"
  by (simp add: isalpha_def py_def isalpha_char_def Alpha_ranges_def Alpha_ranges_latin1_def)

lemma capitalize_alice: "capitalize (py ''alice'') = py ''Alice''"
  by (simp add: capitalize_def py_def to_title_full_def to_lower_full_def Title_full_def
      Lower_full_def Title_full_latin1_def Lower_full_latin1_def)

lemma edit_phone_from_absent:
  "\<forall>j. i \<le> j \<and> j < length ps \<longrightarrow> phone_value (ps ! j) \<noteq> old_phone \<Longrightarrow>
   edit_phone_from i ps old_phone new_phone = Inr (ps, False)"
proof (induction i ps old_phone new_phone rule: edit_phone_from.induct)
  case (1 i ps old_phone new_phone)
  then show ?case
    by (subst edit_phone_from.simps) auto
qed

lemma edit_phone_from_found:
  "i \<le> length pre \<Longrightarrow>
   \<forall>j. i \<le> j \<and> j < length pre \<longrightarrow> phone_value (pre ! j) \<noteq> old_phone \<Longrightarrow>
   phone_value p = old_phone \<Longrightarrow>
   edit_phone_from i (pre @ p # post) old_phone new_phone =
     (case Phone new_phone of Inl e \<Rightarrow> Inl e | Inr ph \<Rightarrow> Inr (pre @ ph # post, True))"
proof (induction "length pre - i" arbitrary: i)
  case 0
  then have "i = length pre" by simp
  with 0 show ?case
    by (subst edit_phone_from.simps) (simp split: sum.splits)
next
  case (Suc k)
  then have lt: "i < length pre" by simp
  with Suc.prems have ne: "phone_value ((pre @ p # post) ! i) \<noteq> old_phone"
    by (simp add: nth_append)
  have "edit_phone_from i (pre @ p # post) old_phone new_phone =
        edit_phone_from (Suc i) (pre @ p # post) old_phone new_phone"
    using lt ne by (subst edit_phone_from.simps) simp
  also have "\<dots> = (case Phone new_phone of Inl e \<Rightarrow> Inl e | Inr ph \<Rightarrow> Inr (pre @ ph # post, True))"
    using Suc lt by (intro Suc.hyps) auto
  finally show ?case .
qed

lemma absent_nth: "x \<notin> set (map f xs) \<Longrightarrow> j < length xs \<Longrightarrow> f (xs ! j) \<noteq> x"
  by (metis length_map nth_map nth_mem)

lemma Record_cases:
  "Record n =
     (if n = [] \<or> \<not> isalpha n then Inl (ValueError (py ''Name must contain only letters.''))
      else Inr \<lparr>name = MkName n, phones = [], birthday = None\<rparr>)"
  by (simp add: Record_def Name_cases)

lemma update_absent: "map_of al k = None \<Longrightarrow> AList.update k v al = al @ [(k, v)]"
  by (induction al) (auto split: if_splits)

subsection \<open>The loop of \<open>get_upcoming_birthdays\<close>\<close>

lemma upcoming_of_feb29:
  assumes "birthday r = Some b" "month (birthday_value b) = 2" "day (birthday_value b) = 29"
    "\<not> is_leap (year today)"
  shows "\<exists>e. upcoming_of pad today r = Inl e"
proof -
  have "\<exists>e. replace_year (birthday_value b) (year today) = Inl e"
    using assms by (simp add: replace_year_def date_new_def days_in_month_def DAYS_IN_MONTH_def)
  then show ?thesis
    using assms(1) by (auto simp: upcoming_of_def Let_def)
qed

lemma upcoming_loop_raises:
  "r \<in> set records \<Longrightarrow> \<exists>e. upcoming_of pad today r = Inl e \<Longrightarrow>
   \<exists>e. upcoming_loop pad today records upcoming = Inl e"
proof (induction records arbitrary: upcoming)
  case Nil
  then show ?case by simp
next
  case (Cons x xs)
  show ?case
  proof (cases "upcoming_of pad today x")
    case (Inl e)
    then show ?thesis by simp
  next
    case (Inr v)
    with Cons.prems have "r \<in> set xs" by auto
    with Cons have "\<And>acc. \<exists>e. upcoming_loop pad today xs acc = Inl e" by blast
    with Inr show ?thesis by (cases v) simp_all
  qed
qed

subsection \<open>Dates\<close>

lemma date_new_valid:
  "valid_date \<lparr>year = y, month = m, day = d\<rparr> \<Longrightarrow> date_new y m d = Inr \<lparr>year = y, month = m, day = d\<rparr>"
  by (simp add: valid_date_def date_new_def)

lemma date_new_invalid:
  "\<not> valid_date \<lparr>year = y, month = m, day = d\<rparr> \<Longrightarrow> \<exists>msg. date_new y m d = Inl (ValueError msg)"
  by (auto simp: valid_date_def date_new_def)

lemma month_cases:
  assumes "1 \<le> (m::int)" "m \<le> 12"
  obtains "m = 1" | "m = 2" | "m = 3" | "m = 4" | "m = 5" | "m = 6"
    | "m = 7" | "m = 8" | "m = 9" | "m = 10" | "m = 11" | "m = 12"
proof -
  from assms have "m = 1 \<or> m = 2 \<or> m = 3 \<or> m = 4 \<or> m = 5 \<or> m = 6 \<or>
      m = 7 \<or> m = 8 \<or> m = 9 \<or> m = 10 \<or> m = 11 \<or> m = 12"
    by arith
  then show thesis
    using that by blast
qed

lemma day_of_year_bounds:
  assumes "1 \<le> m" "m \<le> 12" "1 \<le> d" "d \<le> days_in_month y m"
  shows "1 \<le> days_before_month y m + d"
    and "days_before_month y m + d \<le> (if is_leap y then 366 else 365)"
  using assms(1,2) assms(3,4)
  by (cases m rule: month_cases;
      simp add: days_before_month_def days_in_month_def DAYS_BEFORE_MONTH_def DAYS_IN_MONTH_def
        split: if_splits)+

lemma days_before_year_bounds:
  assumes "1 \<le> y" "y \<le> 9999"
  shows "0 \<le> days_before_year y"
    and "days_before_year y + (if is_leap y then 366 else 365) \<le> 3652059"
proof -
  define z where "z = y - 1"
  have z: "0 \<le> z" "z \<le> 9998"
    using assms by (simp_all add: z_def)
  have "z div 100 \<le> z div 1"
    using z by (intro zdiv_mono2) simp_all
  then have lo: "0 \<le> z div 4" "z div 100 \<le> z" "0 \<le> z div 400" "0 \<le> z div 100"
    using z by (simp_all add: div_int_pos_iff)
  have eq: "days_before_year y = z * 365 + z div 4 - z div 100 + z div 400"
    by (simp add: days_before_year_def z_def Let_def)
  from lo z show "0 \<le> days_before_year y"
    unfolding eq by linarith
  show "days_before_year y + (if is_leap y then 366 else 365) \<le> 3652059"
  proof (cases "y = 9999")
    case True
    then show ?thesis by (simp add: days_before_year_def is_leap_def)
  next
    case False
    with assms have "z \<le> 9997" by (simp add: z_def)
    then have "z div 4 \<le> 9997 div 4" "z div 400 \<le> 9997 div 400"
      by (simp_all add: zdiv_mono1)
    then have "z div 4 \<le> 2499" "z div 400 \<le> 24"
      by simp_all
    with lo \<open>z \<le> 9997\<close> have "days_before_year y \<le> 3651693"
      unfolding eq by linarith
    then show ?thesis by simp
  qed
qed

lemma toordinal_bounds:
  assumes "valid_date d"
  shows "1 \<le> toordinal d" and "toordinal d \<le> MAXORDINAL"
proof -
  from assms have v: "1 \<le> year d" "year d \<le> 9999" "1 \<le> month d" "month d \<le> 12"
      "1 \<le> day d" "day d \<le> days_in_month (year d) (month d)"
    by (simp_all add: valid_date_def MINYEAR_def MAXYEAR_def)
  note a = day_of_year_bounds [OF v(3-6)]
  note b = days_before_year_bounds [OF v(1,2)]
  from a(1) b(1) show "1 \<le> toordinal d"
    by (simp add: toordinal_def ymd2ord_def)
  from a(2) b(2) show "toordinal d \<le> MAXORDINAL"
    by (simp add: toordinal_def ymd2ord_def MAXORDINAL_def split: if_splits)
qed

lemma shift_in_range:
  assumes "valid_date d"
  shows "weekday d = 5 \<Longrightarrow> date_add_days d 2 = Inr (days_after d 2)"
    and "weekday d = 6 \<Longrightarrow> date_add_days d 1 = Inr (days_after d 1)"
proof -
  note b = toordinal_bounds [OF assms]
  show "weekday d = 5 \<Longrightarrow> date_add_days d 2 = Inr (days_after d 2)"
    using b unfolding weekday_def date_add_days_def days_after_def MAXORDINAL_def Let_def
    by (simp, arith)
  show "weekday d = 6 \<Longrightarrow> date_add_days d 1 = Inr (days_after d 1)"
    using b unfolding weekday_def date_add_days_def days_after_def MAXORDINAL_def Let_def
    by (simp, arith)
qed

text \<open>\<open>ord2ymd\<close> is the inverse of \<open>toordinal\<close>: the date \<open>k\<close> days after a date has its ordinal plus \<open>k\<close>.\<close>

lemma days_before_year_decomp:
  fixes a b c d :: int
  assumes "0 \<le> b" "b \<le> 3" "0 \<le> c" "c \<le> 24" "0 \<le> d" "d \<le> 3"
  shows "days_before_year (400 * a + 100 * b + 4 * c + d + 1) =
         146097 * a + 36524 * b + 1461 * c + 365 * d"
proof -
  let ?z = "400 * a + 100 * b + 4 * c + d"
  have 1: "?z div 4 = 100 * a + 25 * b + c"
    using assms by (intro int_div_pos_eq [where r = d]) auto
  have 2: "?z div 100 = 4 * a + b"
    using assms by (intro int_div_pos_eq [where r = "4 * c + d"]) auto
  have 3: "?z div 400 = a"
    using assms by (intro int_div_pos_eq [where r = "100 * b + 4 * c + d"]) auto
  show ?thesis
    by (simp add: days_before_year_def Let_def 1 2 3)
qed

lemma is_leap_decomp:
  fixes a b c d :: int
  assumes "0 \<le> b" "b \<le> 3" "0 \<le> c" "c \<le> 24" "0 \<le> d" "d \<le> 3"
  shows "is_leap (400 * a + 100 * b + 4 * c + d + 1) \<longleftrightarrow> d = 3 \<and> (c \<noteq> 24 \<or> b = 3)"
proof -
  let ?y = "400 * a + 100 * b + 4 * c + d + 1"
  show ?thesis
  proof (cases "d = 3")
    case False
    with assms have "?y mod 4 = d + 1"
      by (intro int_mod_pos_eq [where q = "100 * a + 25 * b + c"]) auto
    with False assms show ?thesis
      by (simp add: is_leap_def)
  next
    case d: True
    have m4: "?y mod 4 = 0"
      unfolding d by (intro int_mod_pos_eq [where q = "100 * a + 25 * b + c + 1"]) auto
    show ?thesis
    proof (cases "c = 24")
      case False
      with assms have "?y mod 100 = 4 * c + 4"
        unfolding d by (intro int_mod_pos_eq [where q = "4 * a + b"]) auto
      with False assms d m4 show ?thesis
        by (simp add: is_leap_def)
    next
      case c: True
      have m100: "?y mod 100 = 0"
        unfolding c d by (intro int_mod_pos_eq [where q = "4 * a + b + 1"]) auto
      show ?thesis
      proof (cases "b = 3")
        case True
        have "?y mod 400 = 0"
          unfolding c d True by (intro int_mod_pos_eq [where q = "a + 1"]) auto
        with True c d m4 show ?thesis
          by (simp add: is_leap_def)
      next
        case False
        with assms have "?y mod 400 = 100 * b + 100"
          unfolding c d by (intro int_mod_pos_eq [where q = a]) auto
        with False assms c d m4 m100 show ?thesis
          by (simp add: is_leap_def)
      qed
    qed
  qed
qed

lemma date_in_year:
  assumes "0 \<le> r" "r < 365"
  shows "toordinal
          (let leapyear = is_leap y;
               m = (r + 50) div 32;
               preceding = DAYS_BEFORE_MONTH ! nat m + (if 2 < m \<and> leapyear then 1 else 0)
           in if r < preceding then
                let m = m - 1;
                    preceding = preceding -
                      (DAYS_IN_MONTH ! nat m + (if m = 2 \<and> leapyear then 1 else 0))
                in \<lparr>year = y, month = m, day = r - preceding + 1\<rparr>
              else \<lparr>year = y, month = m, day = r - preceding + 1\<rparr>) =
         days_before_year y + (r + 1)"
proof -
  define m where "m = (r + 50) div 32"
  from assms have "1 \<le> m" "m \<le> 12"
    unfolding m_def by simp_all
  from this assms(1) show ?thesis
    unfolding Let_def m_def [symmetric]
    by (cases m rule: month_cases)
       (simp_all add: toordinal_def ymd2ord_def days_before_month_def DAYS_BEFORE_MONTH_def
          DAYS_IN_MONTH_def)
qed

lemma toordinal_of_parts:
  fixes a b c d r1 r2 r3 r4 n y :: int
  assumes n: "n - 1 = 146097 * a + r1" "r1 = 36524 * b + r2" "r2 = 1461 * c + r3" "r3 = 365 * d + r4"
    and r: "0 \<le> r1" "r1 < 146097" "0 \<le> r2" "r2 < 36524" "0 \<le> r3" "r3 < 1461" "0 \<le> r4" "r4 < 365"
    and y_def: "y = 400 * a + 100 * b + 4 * c + d + 1"
    and unfolded: "ord2ymd n =
      (if d = 4 \<or> b = 4 then \<lparr>year = y - 1, month = 12, day = 31\<rparr>
       else
         let leapyear = (d = 3 \<and> (c \<noteq> 24 \<or> b = 3));
             m = (r4 + 50) div 32;
             preceding = DAYS_BEFORE_MONTH ! nat m + (if 2 < m \<and> leapyear then 1 else 0)
         in if r4 < preceding then
              let m = m - 1;
                  preceding = preceding -
                    (DAYS_IN_MONTH ! nat m + (if m = 2 \<and> leapyear then 1 else 0))
              in \<lparr>year = y, month = m, day = r4 - preceding + 1\<rparr>
            else \<lparr>year = y, month = m, day = r4 - preceding + 1\<rparr>)"
  shows "toordinal (ord2ymd n) = n"
proof -
  have q: "0 \<le> b" "b \<le> 4" "0 \<le> c" "c \<le> 24" "0 \<le> d" "d \<le> 4"
    using n r by linarith+
  show ?thesis
  proof (cases "b = 4")
    case True
    with n r have "r2 = 0" by linarith
    with n r q have z: "c = 0" "r3 = 0" "d = 0" "r4 = 0"
      by linarith+
    have yy: "y - 1 = 400 * a + 100 * 3 + 4 * 24 + 3 + 1"
      by (simp add: y_def True z)
    have "days_before_year (y - 1) = 146097 * a + 36524 * 3 + 1461 * 24 + 365 * 3"
      unfolding yy by (rule days_before_year_decomp) simp_all
    moreover have "is_leap (y - 1)"
      unfolding yy by (subst is_leap_decomp) simp_all
    ultimately have "toordinal \<lparr>year = y - 1, month = 12, day = 31\<rparr> = 146097 * a + 146097"
      by (simp add: toordinal_def ymd2ord_def days_before_month_def DAYS_BEFORE_MONTH_def)
    moreover from True have "ord2ymd n = \<lparr>year = y - 1, month = 12, day = 31\<rparr>"
      by (simp add: unfolded)
    ultimately have "toordinal (ord2ymd n) = 146097 * a + 146097"
      by simp
    with True n \<open>r2 = 0\<close> show ?thesis
      by linarith
  next
    case b: False
    with q have b3: "b \<le> 3" by simp
    show ?thesis
    proof (cases "d = 4")
      case True
      with n r have r4: "r4 = 0" by linarith
      from True n r b3 q have c23: "c \<le> 23" by linarith
      have yy: "y - 1 = 400 * a + 100 * b + 4 * c + 3 + 1"
        by (simp add: y_def True)
      have "days_before_year (y - 1) = 146097 * a + 36524 * b + 1461 * c + 365 * 3"
        unfolding yy using q b3 c23 by (intro days_before_year_decomp) simp_all
      moreover have "is_leap (y - 1)"
        unfolding yy using q b3 c23 by (subst is_leap_decomp) simp_all
      ultimately have "toordinal \<lparr>year = y - 1, month = 12, day = 31\<rparr> =
          146097 * a + 36524 * b + 1461 * c + 1461"
        by (simp add: toordinal_def ymd2ord_def days_before_month_def DAYS_BEFORE_MONTH_def)
      moreover from True have "ord2ymd n = \<lparr>year = y - 1, month = 12, day = 31\<rparr>"
        by (simp add: unfolded)
      ultimately have "toordinal (ord2ymd n) = 146097 * a + 36524 * b + 1461 * c + 1461"
        by simp
      with True n r4 show ?thesis
        by linarith
    next
      case False
      with q have d3: "d \<le> 3" by simp
      have dby: "days_before_year y = 146097 * a + 36524 * b + 1461 * c + 365 * d"
        unfolding y_def using q b3 d3 by (intro days_before_year_decomp) simp_all
      have leap: "(d = 3 \<and> (c \<noteq> 24 \<or> b = 3)) = is_leap y"
        unfolding y_def using q b3 d3 by (subst is_leap_decomp) simp_all
      have "ord2ymd n =
         (let leapyear = is_leap y;
              m = (r4 + 50) div 32;
              preceding = DAYS_BEFORE_MONTH ! nat m + (if 2 < m \<and> leapyear then 1 else 0)
          in if r4 < preceding then
               let m = m - 1;
                   preceding = preceding -
                     (DAYS_IN_MONTH ! nat m + (if m = 2 \<and> leapyear then 1 else 0))
               in \<lparr>year = y, month = m, day = r4 - preceding + 1\<rparr>
             else \<lparr>year = y, month = m, day = r4 - preceding + 1\<rparr>)"
        by (simp only: unfolded b False leap simp_thms if_False)
      then have "toordinal (ord2ymd n) = days_before_year y + (r4 + 1)"
        by (simp only: date_in_year [OF r(7,8)])
      with dby n show ?thesis
        by linarith
    qed
  qed
qed

lemma toordinal_ord2ymd:
  assumes "1 \<le> n"
  shows "toordinal (ord2ymd n) = n"
proof -
  define a where "a = (n - 1) div 146097"
  define r1 where "r1 = (n - 1) mod 146097"
  define b where "b = r1 div 36524"
  define r2 where "r2 = r1 mod 36524"
  define c where "c = r2 div 1461"
  define r3 where "r3 = r2 mod 1461"
  define d where "d = r3 div 365"
  define r4 where "r4 = r3 mod 365"
  define y where "y = 400 * a + 100 * b + 4 * c + d + 1"
  have n: "n - 1 = 146097 * a + r1" "r1 = 36524 * b + r2" "r2 = 1461 * c + r3" "r3 = 365 * d + r4"
    by (simp_all add: a_def r1_def b_def r2_def c_def r3_def d_def r4_def)
  have r: "0 \<le> r1" "r1 < 146097" "0 \<le> r2" "r2 < 36524" "0 \<le> r3" "r3 < 1461" "0 \<le> r4" "r4 < 365"
    by (simp_all add: r1_def r2_def r3_def r4_def)
  have y': "a * 400 + 1 + b * 100 + c * 4 + d = y"
    by (simp add: y_def)
  have "ord2ymd n =
      (if d = 4 \<or> b = 4 then \<lparr>year = y - 1, month = 12, day = 31\<rparr>
       else
         let leapyear = (d = 3 \<and> (c \<noteq> 24 \<or> b = 3));
             m = (r4 + 50) div 32;
             preceding = DAYS_BEFORE_MONTH ! nat m + (if 2 < m \<and> leapyear then 1 else 0)
         in if r4 < preceding then
              let m = m - 1;
                  preceding = preceding -
                    (DAYS_IN_MONTH ! nat m + (if m = 2 \<and> leapyear then 1 else 0))
              in \<lparr>year = y, month = m, day = r4 - preceding + 1\<rparr>
            else \<lparr>year = y, month = m, day = r4 - preceding + 1\<rparr>)"
    unfolding ord2ymd_def DI400Y_def DI100Y_def DI4Y_def Let_def
    unfolding a_def [symmetric] r1_def [symmetric]
    unfolding b_def [symmetric] r2_def [symmetric]
    unfolding c_def [symmetric] r3_def [symmetric]
    unfolding d_def [symmetric] r4_def [symmetric]
    unfolding y'
    by (rule refl)
  with n r y_def show ?thesis
    by (rule toordinal_of_parts)
qed

lemma congratulation_date_ordinal:
  assumes "valid_date occ"
  shows "toordinal (congratulation_date occ) =
     toordinal occ + (if weekday occ = 5 then 2 else if weekday occ = 6 then 1 else 0)"
proof -
  from toordinal_bounds(1) [OF assms] have "1 \<le> toordinal occ + 2" "1 \<le> toordinal occ + 1"
    by simp_all
  then show ?thesis
    by (simp add: congratulation_date_def days_after_def toordinal_ord2ymd)
qed

lemma upcoming_of_report:
  assumes "has_occurrence today r"
  shows "upcoming_of pad today r = Inr (report pad today r)"
proof (cases "birthday r")
  case None
  then show ?thesis by (simp add: upcoming_of_def report_def)
next
  case (Some b)
  let ?bday = "birthday_value b"
  let ?ty = "\<lparr>year = year today, month = month ?bday, day = day ?bday\<rparr>"
  let ?ny = "\<lparr>year = year today + 1, month = month ?bday, day = day ?bday\<rparr>"
  from assms Some obtain occ where occ: "occurrence today ?bday = Some occ"
    by (auto simp: has_occurrence_def split: option.splits)
  then have vty: "valid_date ?ty"
    by (simp add: occurrence_def Let_def split: if_splits)
  then have r1: "replace_year ?bday (year today) = Inr ?ty"
    by (simp add: replace_year_def date_new_valid)
  have r2: "(if date_less ?ty today then replace_year ?bday (year today + 1) else Inr ?ty) = Inr occ"
    using occ vty by (auto simp: occurrence_def Let_def replace_year_def date_new_valid split: if_splits)
  have v: "valid_date occ"
    using occ by (auto simp: occurrence_def Let_def split: if_splits)
  have r3: "(if weekday occ = 5 then date_add_days occ 2
             else if weekday occ = 6 then date_add_days occ 1
             else Inr occ) = Inr (congratulation_date occ)"
    using shift_in_range [OF v] by (simp add: congratulation_date_def)
  show ?thesis
    unfolding upcoming_of_def report_def
    by (simp only: Some option.case Let_def r1 sum.case r2 r3 occ in_window_def first_phone_def
        if_distrib [of Inr] if_cancel)
qed

lemma upcoming_loop_report:
  "list_all (has_occurrence today) records \<Longrightarrow>
   upcoming_loop pad today records upcoming =
     Inr (upcoming @ List.map_filter (report pad today) records)"
proof (induction records arbitrary: upcoming)
  case Nil
  then show ?case by simp
next
  case (Cons r rs)
  then have "upcoming_of pad today r = Inr (report pad today r)"
    by (simp add: upcoming_of_report)
  with Cons show ?case
    by (cases "report pad today r") simp_all
qed

lemma upcoming_of_no_occurrence:
  assumes "\<not> has_occurrence today r"
  shows "\<exists>e. upcoming_of pad today r = Inl e"
proof -
  from assms obtain b where b: "birthday r = Some b"
      and none: "occurrence today (birthday_value b) = None"
    by (auto simp: has_occurrence_def split: option.splits)
  let ?bday = "birthday_value b"
  let ?ty = "\<lparr>year = year today, month = month ?bday, day = day ?bday\<rparr>"
  let ?ny = "\<lparr>year = year today + 1, month = month ?bday, day = day ?bday\<rparr>"
  show ?thesis
  proof (cases "valid_date ?ty")
    case False
    then obtain msg where "replace_year ?bday (year today) = Inl (ValueError msg)"
      unfolding replace_year_def using date_new_invalid by blast
    with b show ?thesis
      by (simp add: upcoming_of_def)
  next
    case True
    with none have less: "date_less ?ty today" and "\<not> valid_date ?ny"
      by (auto simp: occurrence_def Let_def split: if_splits)
    then obtain msg where "replace_year ?bday (year today + 1) = Inl (ValueError msg)"
      unfolding replace_year_def using date_new_invalid by blast
    moreover from True have "replace_year ?bday (year today) = Inr ?ty"
      by (simp add: replace_year_def date_new_valid)
    ultimately show ?thesis
      using b less by (simp add: upcoming_of_def)
  qed
qed

lemma upcoming_loop_no_occurrence:
  assumes "\<not> list_all (has_occurrence today) records"
  shows "\<exists>e. upcoming_loop pad today records upcoming = Inl e"
proof -
  from assms obtain r where "r \<in> set records" "\<not> has_occurrence today r"
    by (auto simp: list_all_iff)
  then show ?thesis
    by (intro upcoming_loop_raises [of r] upcoming_of_no_occurrence)
qed

subsection \<open>The birthday pattern and \<open>strptime\<close>\<close>

lemma fullmatch_Seq_two:
  assumes "\<And>u. fullmatch a u \<longleftrightarrow> (\<exists>c d. u = [c, d] \<and> P c d)"
  shows "fullmatch (Seq a b) s \<longleftrightarrow> (\<exists>c d v. s = c # d # v \<and> P c d \<and> fullmatch b v)"
  unfolding fullmatch_Seq assms
proof
  assume "\<exists>u v. s = u @ v \<and> (\<exists>c d. u = [c, d] \<and> P c d) \<and> fullmatch b v"
  then show "\<exists>c d v. s = c # d # v \<and> P c d \<and> fullmatch b v"
    by auto
next
  assume "\<exists>c d v. s = c # d # v \<and> P c d \<and> fullmatch b v"
  then obtain c d v where "s = [c, d] @ v" "P c d" "fullmatch b v"
    by auto
  then show "\<exists>u v. s = u @ v \<and> (\<exists>c d. u = [c, d] \<and> P c d) \<and> fullmatch b v"
    by blast
qed

lemma DATE_RE_iff:
  "fullmatch DATE_RE s \<longleftrightarrow>
     (\<exists>d1 d2 m1 m2 y1 y2 y3 y4. s = [d1, d2, 46, m1, m2, 46, y1, y2, y3, y4] \<and>
        (d1 = 48 \<and> 49 \<le> d2 \<and> d2 \<le> 57 \<or> (d1 = 49 \<or> d1 = 50) \<and> isdecimal_char d2 \<or>
         d1 = 51 \<and> (d2 = 48 \<or> d2 = 49)) \<and>
        (m1 = 48 \<and> 49 \<le> m2 \<and> m2 \<le> 57 \<or> m1 = 49 \<and> 48 \<le> m2 \<and> m2 \<le> 50) \<and>
        isdecimal_char y1 \<and> isdecimal_char y2 \<and> isdecimal_char y3 \<and> isdecimal_char y4)"
proof -
  have day: "fullmatch (Alt (Seq (Lit 48) (Range 49 57))
                 (Alt (Seq (Chars [49, 50]) Digit) (Seq (Lit 51) (Chars [48, 49])))) u \<longleftrightarrow>
      (\<exists>d1 d2. u = [d1, d2] \<and>
        (d1 = 48 \<and> 49 \<le> d2 \<and> d2 \<le> 57 \<or> (d1 = 49 \<or> d1 = 50) \<and> isdecimal_char d2 \<or>
         d1 = 51 \<and> (d2 = 48 \<or> d2 = 49)))" for u
    unfolding fullmatch.simps(7) fullmatch_Seq_Lit fullmatch_Seq_Chars fullmatch_Range
      fullmatch_Digit fullmatch_Chars
    by auto
  have mon: "fullmatch (Alt (Seq (Lit 48) (Range 49 57)) (Seq (Lit 49) (Range 48 50))) u \<longleftrightarrow>
      (\<exists>m1 m2. u = [m1, m2] \<and>
        (m1 = 48 \<and> 49 \<le> m2 \<and> m2 \<le> 57 \<or> m1 = 49 \<and> 48 \<le> m2 \<and> m2 \<le> 50))" for u
    unfolding fullmatch.simps(7) fullmatch_Seq_Lit fullmatch_Range
    by auto
  have yr: "fullmatch (rep 4 Digit) u \<longleftrightarrow>
      (\<exists>y1 y2 y3 y4. u = [y1, y2, y3, y4] \<and>
         isdecimal_char y1 \<and> isdecimal_char y2 \<and> isdecimal_char y3 \<and> isdecimal_char y4)" for u
    unfolding fullmatch_rep_Digit
    by (auto simp: length_Suc_conv eval_nat_numeral)
  show ?thesis
    unfolding DATE_RE_def fullmatch_Seq_two [OF day] fullmatch_Seq_two [OF mon] fullmatch_Seq_Lit yr
    by auto
qed

lemma unicode_decimal_ascii:
  "ascii_digit_in 0 9 c \<or> \<not> isdecimal_char c \<Longrightarrow> unicode_decimal c = ascii_decimal c"
  by (auto simp: ascii_decimal_def ascii_digit_decimal isdecimal_char_def split: option.splits)







lemma DATE_RE_ten:
  "fullmatch DATE_RE [d1, d2, p1, m1, m2, p2, y1, y2, y3, y4] \<longleftrightarrow>
     p1 = 46 \<and> p2 = 46 \<and>
     (d1 = 48 \<and> 49 \<le> d2 \<and> d2 \<le> 57 \<or> (d1 = 49 \<or> d1 = 50) \<and> isdecimal_char d2 \<or>
      d1 = 51 \<and> (d2 = 48 \<or> d2 = 49)) \<and>
     (m1 = 48 \<and> 49 \<le> m2 \<and> m2 \<le> 57 \<or> m1 = 49 \<and> 48 \<le> m2 \<and> m2 \<le> 50) \<and>
     isdecimal_char y1 \<and> isdecimal_char y2 \<and> isdecimal_char y3 \<and> isdecimal_char y4"
  unfolding DATE_RE_iff by blast

lemma Birthday_no_match: "\<not> fullmatch DATE_RE raw \<Longrightarrow> Birthday raw = Inl INVALID_DATE"
  by (simp add: Birthday_def) (simp add: INVALID_DATE_def)

lemma Birthday_of_date_new:
  "fullmatch DATE_RE raw \<Longrightarrow> strptime_dmY raw = date_new y m d \<Longrightarrow>
   Birthday raw =
     (if valid_date \<lparr>year = y, month = m, day = d\<rparr>
      then Inr (MkBirthday \<lparr>year = y, month = m, day = d\<rparr>) else Inl INVALID_DATE)"
proof (cases "valid_date \<lparr>year = y, month = m, day = d\<rparr>")
  case True
  assume "fullmatch DATE_RE raw" "strptime_dmY raw = date_new y m d"
  with True show ?thesis
    by (simp add: Birthday_def date_new_valid)
next
  case False
  assume a: "fullmatch DATE_RE raw" "strptime_dmY raw = date_new y m d"
  from False obtain msg where "date_new y m d = Inl (ValueError msg)"
    using date_new_invalid by blast
  with a False show ?thesis
    by (simp add: Birthday_def)
qed


lemma isalpha_Alice: "isalpha (py ''Alice'')"
  by (simp add: isalpha_def py_def isalpha_char_def Alpha_ranges_def Alpha_ranges_latin1_def)

subsection \<open>Phone\<close>

text \<open>
  Claim C8, as the code has it. \<open>Phone\<close> succeeds, and stores its argument unchanged,
  exactly on the strings of ten decimal digits in the sense of \<open>\d\<close>, that is of Unicode
  category Nd; every other string raises the \<open>ValueError\<close> of \<open>Phone.validate\<close>. The
  ASCII digits are decimal digits, so ten of them are accepted.
\<close>

theorem Phone_ten_decimal_digits:
  "Phone raw =
     (if length raw = 10 \<and> list_all isdecimal_char raw then Inr (MkPhone raw)
      else Inl (ValueError (py ''Phone number must be exactly 10 digits.''))) \<and>
   (list_all (ascii_digit_in 0 9) raw \<longrightarrow> list_all isdecimal_char raw)"
proof
  show "Phone raw =
     (if length raw = 10 \<and> list_all isdecimal_char raw then Inr (MkPhone raw)
      else Inl (ValueError (py ''Phone number must be exactly 10 digits.'')))"
    by (rule Phone_cases)
  show "list_all (ascii_digit_in 0 9) raw \<longrightarrow> list_all isdecimal_char raw"
    by (induction raw) (simp_all add: isdecimal_char_def ascii_digit_decimal)
qed

theorem Phone_ten_decimal_digits_witness:
  "list_all (ascii_digit_in 0 9) (py ''1234567890'') \<and>
   Phone (py ''1234567890'') = Inr (MkPhone (py ''1234567890''))"
proof -
  have a: "list_all (ascii_digit_in 0 9) (py ''1234567890'')"
    by (simp add: py_def ascii_digit_in_def)
  have l: "length (py ''1234567890'') = 10"
    by (simp add: py_def)
  from a l Phone_ten_decimal_digits [of "py ''1234567890''"] show ?thesis
    by simp
qed

text \<open>
  The claim speaks of ASCII digits. The ten Arabic-Indic digits (U+0660 to U+0669) are
  not ASCII digits, and \<open>Phone\<close> accepts them.
\<close>

theorem Phone_accepts_non_ascii_digits:
  "\<not> list_all (ascii_digit_in 0 9) [1632, 1633, 1634, 1635, 1636, 1637, 1638, 1639, 1640, 1641] \<and>
   Phone [1632, 1633, 1634, 1635, 1636, 1637, 1638, 1639, 1640, 1641] =
     Inr (MkPhone [1632, 1633, 1634, 1635, 1636, 1637, 1638, 1639, 1640, 1641])"
  by (simp add: Phone_def Phone_validate_def PHONE_RE_def fullmatch_rep_Digit isdecimal_char_def
      unicode_decimal_def Nd_zeros_def ascii_digit_in_def del: fullmatch.simps)

subsection \<open>Name\<close>

text \<open>
  Claim C2 says that the stored value of a name is the capitalized form of the string
  given. \<open>Name.validate\<close> computes that form, but \<open>Name.__init__\<close> drops what
  \<open>validate\<close> returns and stores the string as given: for \<open>alice\<close> the stored value is
  \<open>alice\<close>, while \<open>validate\<close> returns \<open>Alice\<close>.
\<close>

theorem Name_stores_raw_value:
  "Name (py ''alice'') = Inr (MkName (py ''alice'')) \<and>
   Name_validate (py ''alice'') = Inr (py ''Alice'') \<and>
   py ''alice'' \<noteq> py ''Alice''"
proof -
  have "py ''alice'' \<noteq> []" "py ''alice'' \<noteq> py ''Alice''"
    by (simp_all add: py_def)
  then show ?thesis
    by (simp add: Name_cases Name_validate_def isalpha_alice capitalize_alice)
qed

subsection \<open>\<open>Record.edit_phone\<close>\<close>

text \<open>
  Claim C3, as the code has it. When no stored phone has the value \<open>old_phone\<close>, the
  record is left as it is and the call returns \<open>False\<close>; the new phone is not looked at.
  When \<open>p\<close> is the first stored phone with that value, the new phone is validated: if
  it is invalid the call raises and the list is unchanged, otherwise \<open>p\<close> is replaced at
  its position by the new phone and the call returns \<open>True\<close>.
\<close>

theorem edit_phone_first_match:
  "(old_phone \<notin> set (map phone_value (phones r)) \<longrightarrow>
      edit_phone r old_phone new_phone = Inr (r, False)) \<and>
   (phones r = pre @ p # post \<and> old_phone \<notin> set (map phone_value pre) \<and> phone_value p = old_phone \<longrightarrow>
      edit_phone r old_phone new_phone =
        (case Phone new_phone of
           Inl e \<Rightarrow> Inl e
         | Inr ph \<Rightarrow> Inr (r\<lparr>phones := pre @ ph # post\<rparr>, True)))"
proof (intro conjI impI)
  assume "old_phone \<notin> set (map phone_value (phones r))"
  then have "\<forall>j. 0 \<le> j \<and> j < length (phones r) \<longrightarrow> phone_value (phones r ! j) \<noteq> old_phone"
    by (simp add: absent_nth)
  then show "edit_phone r old_phone new_phone = Inr (r, False)"
    by (simp add: edit_phone_def edit_phone_from_absent)
next
  assume a: "phones r = pre @ p # post \<and> old_phone \<notin> set (map phone_value pre) \<and> phone_value p = old_phone"
  then have "\<forall>j. 0 \<le> j \<and> j < length pre \<longrightarrow> phone_value (pre ! j) \<noteq> old_phone"
    by (simp add: absent_nth)
  with a have "edit_phone_from 0 (pre @ p # post) old_phone new_phone =
     (case Phone new_phone of Inl e \<Rightarrow> Inl e | Inr ph \<Rightarrow> Inr (pre @ ph # post, True))"
    by (intro edit_phone_from_found) auto
  with a show "edit_phone r old_phone new_phone =
        (case Phone new_phone of
           Inl e \<Rightarrow> Inl e
         | Inr ph \<Rightarrow> Inr (r\<lparr>phones := pre @ ph # post\<rparr>, True))"
    by (simp add: edit_phone_def split: sum.splits)
qed

theorem edit_phone_first_match_witness:
  "edit_phone \<lparr>name = MkName (py ''alice''),
               phones = [MkPhone (py ''1111111111''), MkPhone (py ''2222222222'')],
               birthday = None\<rparr> (py ''2222222222'') (py ''3333333333'') =
     Inr (\<lparr>name = MkName (py ''alice''),
           phones = [MkPhone (py ''1111111111''), MkPhone (py ''3333333333'')],
           birthday = None\<rparr>, True) \<and>
   edit_phone \<lparr>name = MkName (py ''alice''),
               phones = [MkPhone (py ''1111111111''), MkPhone (py ''2222222222'')],
               birthday = None\<rparr> (py ''9999999999'') (py ''3333333333'') =
     Inr (\<lparr>name = MkName (py ''alice''),
           phones = [MkPhone (py ''1111111111''), MkPhone (py ''2222222222'')],
           birthday = None\<rparr>, False)"
proof -
  let ?r = "\<lparr>name = MkName (py ''alice''),
             phones = [MkPhone (py ''1111111111''), MkPhone (py ''2222222222'')],
             birthday = None\<rparr>"
  have new: "Phone (py ''3333333333'') = Inr (MkPhone (py ''3333333333''))"
    by (simp add: Phone_cases py_def isdecimal_char_def unicode_decimal_def Nd_zeros_def)
  have found: "phones ?r = [MkPhone (py ''1111111111'')] @ MkPhone (py ''2222222222'') # [] \<and>
      py ''2222222222'' \<notin> set (map phone_value [MkPhone (py ''1111111111'')]) \<and>
      phone_value (MkPhone (py ''2222222222'')) = py ''2222222222''"
    by (simp add: py_def)
  have absent: "py ''9999999999'' \<notin> set (map phone_value (phones ?r))"
    by (simp add: py_def)
  from edit_phone_first_match [of "py ''2222222222''" ?r "py ''3333333333''"
      "[MkPhone (py ''1111111111'')]" "MkPhone (py ''2222222222'')" "[]"] found new
  have 1: "edit_phone ?r (py ''2222222222'') (py ''3333333333'') =
     Inr (?r\<lparr>phones := [MkPhone (py ''1111111111''), MkPhone (py ''3333333333'')]\<rparr>, True)"
    by simp
  from edit_phone_first_match [of "py ''9999999999''" ?r "py ''3333333333''"] absent
  have 2: "edit_phone ?r (py ''9999999999'') (py ''3333333333'') = Inr (?r, False)"
    by blast
  from 1 2 show ?thesis
    by simp
qed

text \<open>
  The claim has the new phone validated whether or not the old one is present. With the
  old phone absent, an invalid new phone raises nothing: the call returns \<open>False\<close>.
\<close>

theorem edit_phone_absent_skips_validation:
  "Phone (py ''abc'') = Inl (ValueError (py ''Phone number must be exactly 10 digits.'')) \<and>
   edit_phone \<lparr>name = MkName (py ''alice''), phones = [MkPhone (py ''1111111111'')],
               birthday = None\<rparr> (py ''9999999999'') (py ''abc'') =
     Inr (\<lparr>name = MkName (py ''alice''), phones = [MkPhone (py ''1111111111'')],
           birthday = None\<rparr>, False)"
proof -
  have "py ''9999999999'' \<noteq> py ''1111111111''"
    by (simp add: py_def)
  then show ?thesis
    by (simp add: Phone_cases edit_phone_def edit_phone_from_absent) (simp add: py_def)
qed

subsection \<open>The keys of the address book\<close>

text \<open>
  Claim C7 says that every key of the book is the canonical, capitalized form of the
  name of its record. \<open>add_record\<close> uses the stored name as the key, and the stored name
  is the string as given (the capitalized form is computed and dropped, as for claim C2):
  the record made from \<open>alice\<close> is filed under \<open>alice\<close>, and the canonical form of its
  name is \<open>Alice\<close>.
\<close>

theorem add_record_key_not_canonical:
  "Record (py ''alice'') = Inr \<lparr>name = MkName (py ''alice''), phones = [], birthday = None\<rparr> \<and>
   add_record [] \<lparr>name = MkName (py ''alice''), phones = [], birthday = None\<rparr> =
     [(py ''alice'', \<lparr>name = MkName (py ''alice''), phones = [], birthday = None\<rparr>)] \<and>
   Name_validate (py ''alice'') = Inr (py ''Alice'') \<and>
   py ''alice'' \<noteq> py ''Alice''"
proof -
  have "py ''alice'' \<noteq> []" "py ''alice'' \<noteq> py ''Alice''"
    by (simp_all add: py_def)
  then show ?thesis
    by (simp add: Record_cases add_record_def Name_validate_def isalpha_alice capitalize_alice)
qed

subsection \<open>\<open>load_data\<close>\<close>

text \<open>
  Claim C9. When there is no file of the given name, \<open>load_data\<close> returns the empty
  address book: \<open>open\<close> raises \<open>FileNotFoundError\<close>, which \<open>load_data\<close> catches.
\<close>

theorem load_data_no_file:
  "fs filename = None \<Longrightarrow> load_data filename fs = Inr []"
  by (simp add: load_data_def open_rb_def)

theorem load_data_no_file_witness:
  "Map.empty PHONEBOOK_FILE = (None :: content option) \<and> load_data PHONEBOOK_FILE Map.empty = Inr []"
  using load_data_no_file [of Map.empty PHONEBOOK_FILE] by simp

subsection \<open>\<open>add_contact\<close>\<close>

text \<open>
  Claim C10, as the code has it. For a name that is valid and not a key of the book, and
  a phone that is not empty and not valid, the handler returns the warning made of the
  \<open>ValueError\<close> of \<open>Phone\<close>, and the book holds a new record of that name with no phone:
  the record was added before the phone was validated, and stays.
\<close>

theorem add_contact_invalid_phone:
  assumes "find book n = None" and "Name n = Inr nm" and "phone \<noteq> []" and "Phone phone = Inl e"
  shows "add_contact (n # phone # rest) book =
     (Inr (dir_file_color ''WARN''
             (py ''Value Error: '' @ py ''Phone number must be exactly 10 digits.'' @
              py '', please use '' @ [39] @ py ''help'' @ [39] @ py '' command for more details'')),
      book @ [(n, \<lparr>name = MkName n, phones = [], birthday = None\<rparr>)])"
proof -
  from assms(2) have rec: "Record n = Inr \<lparr>name = MkName n, phones = [], birthday = None\<rparr>"
    by (simp add: Record_cases Name_cases split: if_splits)
  from assms(4) have e: "Phone phone = Inl (ValueError (py ''Phone number must be exactly 10 digits.''))"
    by (simp add: Phone_cases split: if_splits)
  from assms(1) have upd: "add_record book \<lparr>name = MkName n, phones = [], birthday = None\<rparr> =
      book @ [(n, \<lparr>name = MkName n, phones = [], birthday = None\<rparr>)]"
    by (simp add: add_record_def find_def update_absent)
  show ?thesis
    using assms(1) assms(3) rec e upd
    by (simp add: add_contact_def add_contact_body_def add_phone_def input_error_def)
qed

theorem add_contact_invalid_phone_witness:
  "add_contact [py ''Bob'', py ''12345''] [] =
     (Inr (dir_file_color ''WARN''
             (py ''Value Error: '' @ py ''Phone number must be exactly 10 digits.'' @
              py '', please use '' @ [39] @ py ''help'' @ [39] @ py '' command for more details'')),
      [(py ''Bob'', \<lparr>name = MkName (py ''Bob''), phones = [], birthday = None\<rparr>)])"
proof -
  have 1: "find [] (py ''Bob'') = None"
    by (simp add: find_def)
  have 2: "Name (py ''Bob'') = Inr (MkName (py ''Bob''))"
    by (simp add: Name_cases isalpha_def isalpha_char_def Alpha_ranges_def Alpha_ranges_latin1_def py_def)
  have 3: "py ''12345'' \<noteq> []"
    by (simp add: py_def)
  have 4: "Phone (py ''12345'') = Inl (ValueError (py ''Phone number must be exactly 10 digits.''))"
    by (simp add: Phone_cases) (simp add: py_def)
  from add_contact_invalid_phone [OF 1 2 3 4, of "[]"] show ?thesis
    by simp
qed

text \<open>
  The claim is about every invalid phone. The empty string is not a valid phone, but
  \<open>add_contact\<close> validates the phone only \<open>if phone:\<close>, so with the empty string nothing
  is reported: the handler answers that the contact was added.
\<close>

theorem add_contact_empty_phone_no_error:
  "Phone [] = Inl (ValueError (py ''Phone number must be exactly 10 digits.'')) \<and>
   add_contact [py ''Bob'', []] [] =
     (Inr (dir_file_color ''ADD'' (py ''Contact added.'')),
      [(py ''Bob'', \<lparr>name = MkName (py ''Bob''), phones = [], birthday = None\<rparr>)])"
proof -
  have "Record (py ''Bob'') = Inr \<lparr>name = MkName (py ''Bob''), phones = [], birthday = None\<rparr>"
    by (simp add: Record_cases isalpha_def isalpha_char_def Alpha_ranges_def Alpha_ranges_latin1_def py_def)
  then show ?thesis
    by (simp add: Phone_cases add_contact_def add_contact_body_def find_def add_record_def input_error_def)
qed

subsection \<open>A birthday on 29 February\<close>

text \<open>
  Claim C4. When some record of the book has its birthday on 29 February and the year
  of the reference date is not a leap year, \<open>get_upcoming_birthdays\<close> raises: the loop
  reaches that record, unless an earlier one raised already, and \<open>bday.replace\<close> fails
  on it.
\<close>

theorem feb29_in_non_leap_year_raises:
  assumes "(k, r) \<in> set book" and "birthday r = Some b"
    and "month (birthday_value b) = 2" and "day (birthday_value b) = 29"
    and "\<not> is_leap (year today)"
  shows "\<exists>e. get_upcoming_birthdays pad today book = Inl e"
proof -
  from assms(1) have "r \<in> set (map snd book)"
    by force
  moreover from assms(2-5) have "\<exists>e. upcoming_of pad today r = Inl e"
    by (rule upcoming_of_feb29)
  ultimately show ?thesis
    unfolding get_upcoming_birthdays_def by (rule upcoming_loop_raises)
qed

theorem feb29_in_non_leap_year_raises_witness:
  "\<not> is_leap 2023 \<and>
   get_upcoming_birthdays False \<lparr>year = 2023, month = 6, day = 10\<rparr>
     [(py ''Alice'', \<lparr>name = MkName (py ''Alice''), phones = [],
         birthday = Some (MkBirthday \<lparr>year = 2024, month = 2, day = 29\<rparr>)\<rparr>)] =
     Inl (ValueError (py ''day is out of range for month''))"
proof -
  let ?r = "\<lparr>name = MkName (py ''Alice''), phones = [],
         birthday = Some (MkBirthday \<lparr>year = 2024, month = 2, day = 29\<rparr>)\<rparr>"
  let ?today = "\<lparr>year = 2023, month = 6, day = 10\<rparr>"
  have nl: "\<not> is_leap 2023"
    by (simp add: is_leap_def)
  have "\<exists>e. get_upcoming_birthdays False ?today [(py ''Alice'', ?r)] = Inl e"
    by (rule feb29_in_non_leap_year_raises [of "py ''Alice''" ?r _ "MkBirthday \<lparr>year = 2024, month = 2, day = 29\<rparr>"])
       (simp_all add: nl)
  moreover have "get_upcoming_birthdays False ?today [(py ''Alice'', ?r)] =
      Inl (ValueError (py ''day is out of range for month'')) \<or>
      (\<exists>v. get_upcoming_birthdays False ?today [(py ''Alice'', ?r)] = Inr v)"
    by (simp add: get_upcoming_birthdays_def upcoming_of_def replace_year_def date_new_def
        days_in_month_def DAYS_IN_MONTH_def is_leap_def MINYEAR_def MAXYEAR_def)
  ultimately show ?thesis
    using nl by auto
qed

subsection \<open>Upcoming birthdays\<close>

text \<open>
  Claim C1, as the code has it. When every birthday of the book has its occurrence for
  the reference date (this year's, or next year's when this year's is strictly before
  the reference date), \<open>get_upcoming_birthdays\<close> returns, in the order of the book, the
  reports of exactly the records that have a birthday whose occurrence lies in the
  window \<open>0 \<le> diff < 7\<close>; the congratulation date of a report is the occurrence, moved
  forward by two days from a Saturday and by one day from a Sunday, and the window is
  tested on the occurrence itself. When some birthday has no occurrence (29 February
  in a year that is not a leap year, or a year after 9999), the call raises and reports
  nothing. The last part says what moving forward is: the ordinal of the congratulation
  date is that of the occurrence plus 2, 1 or 0.
\<close>

theorem get_upcoming_birthdays_report:
  "(list_all (has_occurrence today) (map snd book) \<longrightarrow>
      get_upcoming_birthdays pad today book =
        Inr (List.map_filter (report pad today) (map snd book))) \<and>
   (\<not> list_all (has_occurrence today) (map snd book) \<longrightarrow>
      (\<exists>e. get_upcoming_birthdays pad today book = Inl e)) \<and>
   (occurrence today bday = Some occ \<longrightarrow>
      toordinal (congratulation_date occ) =
        toordinal occ + (if weekday occ = 5 then 2 else if weekday occ = 6 then 1 else 0))"
proof (intro conjI impI)
  assume "list_all (has_occurrence today) (map snd book)"
  from upcoming_loop_report [OF this, of pad "[]"]
  show "get_upcoming_birthdays pad today book =
     Inr (List.map_filter (report pad today) (map snd book))"
    by (simp add: get_upcoming_birthdays_def)
next
  assume "\<not> list_all (has_occurrence today) (map snd book)"
  then show "\<exists>e. get_upcoming_birthdays pad today book = Inl e"
    unfolding get_upcoming_birthdays_def by (rule upcoming_loop_no_occurrence)
next
  assume "occurrence today bday = Some occ"
  then have "valid_date occ"
    by (auto simp: occurrence_def Let_def split: if_splits)
  then show "toordinal (congratulation_date occ) =
        toordinal occ + (if weekday occ = 5 then 2 else if weekday occ = 6 then 1 else 0)"
    by (rule congratulation_date_ordinal)
qed

theorem get_upcoming_birthdays_report_witness:
  "get_upcoming_birthdays False \<lparr>year = 2024, month = 6, day = 10\<rparr>
     [(py ''Alice'', \<lparr>name = MkName (py ''Alice''), phones = [MkPhone (py ''1234567890'')],
         birthday = Some (MkBirthday \<lparr>year = 1990, month = 6, day = 15\<rparr>)\<rparr>),
      (py ''Bob'', \<lparr>name = MkName (py ''Bob''), phones = [],
         birthday = Some (MkBirthday \<lparr>year = 1985, month = 6, day = 8\<rparr>)\<rparr>),
      (py ''Carol'', \<lparr>name = MkName (py ''Carol''), phones = [], birthday = None\<rparr>)] =
   Inr [[(''name'', py ''Alice''), (''congratulation_date'', py ''17.06.2024''),
         (''phone'', py ''1234567890'')]] \<and>
   toordinal (congratulation_date \<lparr>year = 2024, month = 6, day = 15\<rparr>) = 739054 \<and>
   (\<exists>e. get_upcoming_birthdays False \<lparr>year = 9999, month = 6, day = 10\<rparr>
      [(py ''Dora'', \<lparr>name = MkName (py ''Dora''), phones = [],
          birthday = Some (MkBirthday \<lparr>year = 1990, month = 1, day = 1\<rparr>)\<rparr>)] = Inl e)"
proof -
  let ?today = "\<lparr>year = 2024, month = 6, day = 10\<rparr>"
  let ?a = "\<lparr>name = MkName (py ''Alice''), phones = [MkPhone (py ''1234567890'')],
         birthday = Some (MkBirthday \<lparr>year = 1990, month = 6, day = 15\<rparr>)\<rparr>"
  let ?b = "\<lparr>name = MkName (py ''Bob''), phones = [],
         birthday = Some (MkBirthday \<lparr>year = 1985, month = 6, day = 8\<rparr>)\<rparr>"
  let ?c = "\<lparr>name = MkName (py ''Carol''), phones = [], birthday = None\<rparr>"
  have oa: "occurrence ?today \<lparr>year = 1990, month = 6, day = 15\<rparr> = Some \<lparr>year = 2024, month = 6, day = 15\<rparr>"
    by (simp add: occurrence_def valid_date_def date_less_def days_in_month_def DAYS_IN_MONTH_def
        MINYEAR_def MAXYEAR_def)
  have ob: "occurrence ?today \<lparr>year = 1985, month = 6, day = 8\<rparr> = Some \<lparr>year = 2025, month = 6, day = 8\<rparr>"
    by (simp add: occurrence_def valid_date_def date_less_def days_in_month_def DAYS_IN_MONTH_def
        MINYEAR_def MAXYEAR_def)
  have h: "list_all (has_occurrence ?today) (map snd [(py ''Alice'', ?a), (py ''Bob'', ?b), (py ''Carol'', ?c)])"
    by (simp add: has_occurrence_def oa ob)
  have ta: "toordinal \<lparr>year = 2024, month = 6, day = 15\<rparr> = 739052"
    by (simp add: toordinal_def ymd2ord_def days_before_year_def days_before_month_def
        DAYS_BEFORE_MONTH_def is_leap_def)
  have tb: "toordinal \<lparr>year = 2025, month = 6, day = 8\<rparr> = 739410"
    by (simp add: toordinal_def ymd2ord_def days_before_year_def days_before_month_def
        DAYS_BEFORE_MONTH_def is_leap_def)
  have tt: "toordinal ?today = 739047"
    by (simp add: toordinal_def ymd2ord_def days_before_year_def days_before_month_def
        DAYS_BEFORE_MONTH_def is_leap_def)
  have sh: "ord2ymd 739054 = \<lparr>year = 2024, month = 6, day = 17\<rparr>"
    by (simp add: ord2ymd_def DI400Y_def DI100Y_def DI4Y_def DAYS_BEFORE_MONTH_def DAYS_IN_MONTH_def Let_def)
  have st: "strftime_dmY False \<lparr>year = 2024, month = 6, day = 17\<rparr> = py ''17.06.2024''"
    by (simp add: strftime_dmY_def str_int_def zfill_def digits_of.simps py_def)
  have ra: "report False ?today ?a =
      Some [(''name'', py ''Alice''), (''congratulation_date'', py ''17.06.2024''), (''phone'', py ''1234567890'')]"
    by (simp add: report_def oa in_window_def days_between_def ta tt congratulation_date_def
        weekday_def days_after_def sh st first_phone_def)
  have rb: "report False ?today ?b = None"
    by (simp add: report_def ob in_window_def days_between_def tb tt)
  have rc: "report False ?today ?c = None"
    by (simp add: report_def)
  have od: "occurrence \<lparr>year = 9999, month = 6, day = 10\<rparr> \<lparr>year = 1990, month = 1, day = 1\<rparr> = None"
    by (simp add: occurrence_def valid_date_def date_less_def days_in_month_def DAYS_IN_MONTH_def
        MINYEAR_def MAXYEAR_def)
  have nh: "\<not> list_all (has_occurrence \<lparr>year = 9999, month = 6, day = 10\<rparr>)
      (map snd [(py ''Dora'', \<lparr>name = MkName (py ''Dora''), phones = [],
          birthday = Some (MkBirthday \<lparr>year = 1990, month = 1, day = 1\<rparr>)\<rparr>)])"
    by (simp add: has_occurrence_def od)
  from get_upcoming_birthdays_report
      [of ?today "[(py ''Alice'', ?a), (py ''Bob'', ?b), (py ''Carol'', ?c)]" False
          "\<lparr>year = 1990, month = 6, day = 15\<rparr>" "\<lparr>year = 2024, month = 6, day = 15\<rparr>"] h
  have 1: "get_upcoming_birthdays False ?today [(py ''Alice'', ?a), (py ''Bob'', ?b), (py ''Carol'', ?c)] =
      Inr [[(''name'', py ''Alice''), (''congratulation_date'', py ''17.06.2024''),
            (''phone'', py ''1234567890'')]] \<and>
      toordinal (congratulation_date \<lparr>year = 2024, month = 6, day = 15\<rparr>) = 739054"
    by (simp add: List.map_filter_simps ra rb rc oa weekday_def ta)
  from get_upcoming_birthdays_report
      [of "\<lparr>year = 9999, month = 6, day = 10\<rparr>"
          "[(py ''Dora'', \<lparr>name = MkName (py ''Dora''), phones = [],
             birthday = Some (MkBirthday \<lparr>year = 1990, month = 1, day = 1\<rparr>)\<rparr>)]" False] nh
  have 2: "\<exists>e. get_upcoming_birthdays False \<lparr>year = 9999, month = 6, day = 10\<rparr>
      [(py ''Dora'', \<lparr>name = MkName (py ''Dora''), phones = [],
          birthday = Some (MkBirthday \<lparr>year = 1990, month = 1, day = 1\<rparr>)\<rparr>)] = Inl e"
    by blast
  from 1 2 show ?thesis
    by blast
qed

text \<open>
  The claim is about every address book and reference date. On 1 March 2024 the record
  of Ann, born on 2 March, has its occurrence in the window (\<open>diff\<close> is 1); the book
  also holds a record born on 29 February, whose occurrence this year is before the
  reference date and which has none next year, so the call raises and Ann is not
  reported. The year 2024 is a leap year: this is not the case of claim C4.
\<close>

theorem get_upcoming_birthdays_raises_with_record_in_window:
  "occurrence \<lparr>year = 2024, month = 3, day = 1\<rparr> \<lparr>year = 1990, month = 3, day = 2\<rparr> =
     Some \<lparr>year = 2024, month = 3, day = 2\<rparr> \<and>
   days_between \<lparr>year = 2024, month = 3, day = 2\<rparr> \<lparr>year = 2024, month = 3, day = 1\<rparr> = 1 \<and>
   get_upcoming_birthdays False \<lparr>year = 2024, month = 3, day = 1\<rparr>
     [(py ''Ann'', \<lparr>name = MkName (py ''Ann''), phones = [],
         birthday = Some (MkBirthday \<lparr>year = 1990, month = 3, day = 2\<rparr>)\<rparr>),
      (py ''Leap'', \<lparr>name = MkName (py ''Leap''), phones = [],
         birthday = Some (MkBirthday \<lparr>year = 2000, month = 2, day = 29\<rparr>)\<rparr>)] =
     Inl (ValueError (py ''day is out of range for month''))"
proof -
  let ?today = "\<lparr>year = 2024, month = 3, day = 1\<rparr>"
  have o: "occurrence ?today \<lparr>year = 1990, month = 3, day = 2\<rparr> = Some \<lparr>year = 2024, month = 3, day = 2\<rparr>"
    by (simp add: occurrence_def valid_date_def date_less_def days_in_month_def DAYS_IN_MONTH_def
        MINYEAR_def MAXYEAR_def)
  have t1: "toordinal \<lparr>year = 2024, month = 3, day = 2\<rparr> = 738947"
    by (simp add: toordinal_def ymd2ord_def days_before_year_def days_before_month_def
        DAYS_BEFORE_MONTH_def is_leap_def)
  have t0: "toordinal ?today = 738946"
    by (simp add: toordinal_def ymd2ord_def days_before_year_def days_before_month_def
        DAYS_BEFORE_MONTH_def is_leap_def)
  have ann: "\<exists>entry. upcoming_of False ?today \<lparr>name = MkName (py ''Ann''), phones = [],
         birthday = Some (MkBirthday \<lparr>year = 1990, month = 3, day = 2\<rparr>)\<rparr> = Inr (Some entry)"
    by (simp add: upcoming_of_def replace_year_def date_new_def MINYEAR_def MAXYEAR_def
        days_in_month_def DAYS_IN_MONTH_def date_less_def days_between_def t1 t0 weekday_def
        date_add_days_def MAXORDINAL_def)
  have leap: "upcoming_of False ?today \<lparr>name = MkName (py ''Leap''), phones = [],
         birthday = Some (MkBirthday \<lparr>year = 2000, month = 2, day = 29\<rparr>)\<rparr> =
      Inl (ValueError (py ''day is out of range for month''))"
    by (simp add: upcoming_of_def replace_year_def date_new_def MINYEAR_def MAXYEAR_def
        days_in_month_def DAYS_IN_MONTH_def date_less_def is_leap_def)
  from ann obtain entry where "upcoming_of False ?today \<lparr>name = MkName (py ''Ann''), phones = [],
         birthday = Some (MkBirthday \<lparr>year = 1990, month = 3, day = 2\<rparr>)\<rparr> = Inr (Some entry)"
    by blast
  with leap have "get_upcoming_birthdays False ?today
     [(py ''Ann'', \<lparr>name = MkName (py ''Ann''), phones = [],
         birthday = Some (MkBirthday \<lparr>year = 1990, month = 3, day = 2\<rparr>)\<rparr>),
      (py ''Leap'', \<lparr>name = MkName (py ''Leap''), phones = [],
         birthday = Some (MkBirthday \<lparr>year = 2000, month = 2, day = 29\<rparr>)\<rparr>)] =
     Inl (ValueError (py ''day is out of range for month''))"
    by (simp add: get_upcoming_birthdays_def)
  with o t1 t0 show ?thesis
    by (simp add: days_between_def)
qed

subsection \<open>Birthday\<close>




subsection \<open>Saving and loading as JSON\<close>

text \<open>
  Claim C5 says that every address book survives \<open>save_address_book\<close> followed by
  \<open>load_address_book\<close>. \<open>Birthday\<close> accepts the years 0001 to 0999, written with four
  digits. \<open>save_address_book\<close> writes a birthday with \<open>strftime("%d.%m.%Y")\<close>, and where
  the C library does not pad the year (glibc) the year 999 is written with three digits;
  \<open>load_address_book\<close> gives that string to \<open>Birthday\<close>, whose pattern wants four
  digits, and raises instead of returning the book.
\<close>

theorem json_round_trip_fails_before_year_1000:
  "Birthday (py ''01.01.0999'') = Inr (MkBirthday \<lparr>year = 999, month = 1, day = 1\<rparr>) \<and>
   load_address_book PHONEBOOK_FILE
     (save_address_book False
        [(py ''Alice'', \<lparr>name = MkName (py ''Alice''), phones = [MkPhone (py ''1234567890'')],
            birthday = Some (MkBirthday \<lparr>year = 999, month = 1, day = 1\<rparr>)\<rparr>)]
        PHONEBOOK_FILE Map.empty) =
     Inl INVALID_DATE"
proof -
  have d: "unicode_decimal 48 = Some 0" "unicode_decimal 49 = Some 1" "unicode_decimal 57 = Some 9"
    by (simp_all add: unicode_decimal_def Nd_zeros_def)
  have m: "fullmatch DATE_RE [48, 49, 46, 48, 49, 46, 48, 57, 57, 57]"
    unfolding DATE_RE_ten by (simp add: isdecimal_char_def d)
  have q: "strptime_dmY [48, 49, 46, 48, 49, 46, 48, 57, 57, 57] = date_new 999 1 1"
    by (simp add: strptime_dmY_def ascii_digit_in_def isdecimal_char_def d)
  have v: "valid_date \<lparr>year = 999, month = 1, day = 1\<rparr>"
    by (simp add: valid_date_def MINYEAR_def MAXYEAR_def days_in_month_def DAYS_IN_MONTH_def)
  have "py ''01.01.0999'' = [48, 49, 46, 48, 49, 46, 48, 57, 57, 57]"
    by (simp add: py_def)
  with Birthday_of_date_new [OF m q] v
  have 1: "Birthday (py ''01.01.0999'') = Inr (MkBirthday \<lparr>year = 999, month = 1, day = 1\<rparr>)"
    by simp
  have st: "strftime_dmY False \<lparr>year = 999, month = 1, day = 1\<rparr> = py ''01.01.999''"
    by (simp add: strftime_dmY_def str_int_def zfill_def digits_of.simps py_def)
  have "\<not> fullmatch DATE_RE (py ''01.01.999'')"
    by (simp add: DATE_RE_iff py_def)
  then have b: "Birthday (py ''01.01.999'') = Inl INVALID_DATE"
    by (rule Birthday_no_match)
  have ne: "py ''01.01.999'' \<noteq> []" "py ''phones'' \<noteq> py ''birthday''"
    by (simp_all add: py_def)
  have r: "Record (py ''Alice'') = Inr \<lparr>name = MkName (py ''Alice''), phones = [], birthday = None\<rparr>"
    using isalpha_Alice by (auto simp: Record_cases py_def)
  have p: "Phone (py ''1234567890'') = Inr (MkPhone (py ''1234567890''))"
    by (simp add: Phone_cases py_def isdecimal_char_def unicode_decimal_def Nd_zeros_def)
  have 2: "load_address_book PHONEBOOK_FILE
     (save_address_book False
        [(py ''Alice'', \<lparr>name = MkName (py ''Alice''), phones = [MkPhone (py ''1234567890'')],
            birthday = Some (MkBirthday \<lparr>year = 999, month = 1, day = 1\<rparr>)\<rparr>)]
        PHONEBOOK_FILE Map.empty) = Inl INVALID_DATE"
    using ne
    by (simp add: save_address_book_def record_to_json_def st load_address_book_def load_record_def r
        load_phones_of_def add_phone_def p load_birthday_of_def add_birthday_def b)
  from 1 2 show ?thesis
    by simp
qed

end
